theory Spec2Isabelle
  imports Complex_Main
begin

section \<open>Configuration and errors\<close>

text \<open>
  The module-level configuration of \<^verbatim>\<open>main.py\<close>. Every function of the script reads
  these globals; the model passes them as a record, and \<open>default_config\<close> holds
  the values the script assigns. A float literal denotes the double nearest to it:
  \<^verbatim>\<open>0.5\<close> is exact, \<^verbatim>\<open>1e-2\<close> is \<open>5764607523034235 / 2\<^sup>5\<^sup>9\<close> and \<^verbatim>\<open>0.7\<close> is
  \<open>6305039478318694 / 2\<^sup>5\<^sup>3\<close>.
\<close>

record config =
  num_of_vertices :: nat
  orders_of_cheb :: nat
  epsilon :: real
  num_points_for_train :: nat
  num_points_for_predict :: nat
  learning_rate :: real
  decay_rate :: real
  decay_interval :: nat
  epochs :: nat
  batch_size :: nat

definition default_config :: config where
  "default_config =
     \<lparr> num_of_vertices = 307, orders_of_cheb = 3, epsilon = 5 / 10,
       num_points_for_train = 12, num_points_for_predict = 1,
       learning_rate = 5764607523034235 / 2 ^ 59, decay_rate = 6305039478318694 / 2 ^ 53,
       decay_interval = 5,
       epochs = 10, batch_size = 32 \<rparr>"

text \<open>The exceptions Python and numpy raise on the paths modelled here.\<close>

datatype py_error = IndexError | ValueError | ZeroDivisionError | AssertionError | KeyError

section \<open>Doubles\<close>

text \<open>
  Python floats and numpy's \<^verbatim>\<open>float64\<close> are IEEE binary64 values: a finite number of
  the format, an infinity, or NaN. The sign of a zero is not kept.
\<close>

datatype npfloat = Fin real | PosInf | NegInf | NaN

text \<open>Rounding a real to an integer, ties to the even neighbour.\<close>

definition round_even :: "real \<Rightarrow> int" where
  "round_even q =
     (let f = \<lfloor>q\<rfloor>; r = q - of_int f
      in if r < 1 / 2 then f else if 1 / 2 < r then f + 1 else if even f then f else f + 1)"

text \<open>
  The double nearest to a real (\<open>pow2 k\<close> is \<open>2\<^sup>k\<close>): 53 significant bits, exponents from \<open>-1022\<close> to
  \<open>1023\<close> (below that the spacing stays \<open>2\<^sup>-\<^sup>1\<^sup>0\<^sup>7\<^sup>4\<close>), ties to even, and an
  infinity when the rounded value reaches \<open>2\<^sup>1\<^sup>0\<^sup>2\<^sup>4\<close>.
\<close>

definition pow2 :: "int \<Rightarrow> real" where
  "pow2 k = (if 0 \<le> k then 2 ^ nat k else 1 / 2 ^ nat (- k))"

definition round_double :: "real \<Rightarrow> npfloat" where
  "round_double x =
     (if x = 0 then Fin 0
      else let e = max \<lfloor>log 2 \<bar>x\<bar>\<rfloor> (- 1022);
               u = pow2 (e - 52);
               y = of_int (round_even (x / u)) * u
           in if 2 ^ 1024 \<le> \<bar>y\<bar> then (if 0 < x then PosInf else NegInf) else Fin y)"

definition signed_inf :: "bool \<Rightarrow> npfloat" where
  "signed_inf negative = (if negative then NegInf else PosInf)"

fun is_negative :: "npfloat \<Rightarrow> bool" where
  "is_negative (Fin x) = (x < 0)"
| "is_negative NegInf = True"
| "is_negative PosInf = False"
| "is_negative NaN = False"

text \<open>Unary minus is exact.\<close>

fun double_neg :: "npfloat \<Rightarrow> npfloat" where
  "double_neg (Fin x) = Fin (- x)"
| "double_neg PosInf = NegInf"
| "double_neg NegInf = PosInf"
| "double_neg NaN = NaN"

text \<open>
  The product of two doubles is the exact product, rounded; zero times an infinity is
  NaN.
\<close>

fun double_mult :: "npfloat \<Rightarrow> npfloat \<Rightarrow> npfloat" where
  "double_mult NaN b = NaN"
| "double_mult a NaN = NaN"
| "double_mult (Fin x) (Fin y) = round_double (x * y)"
| "double_mult (Fin x) b = (if x = 0 then NaN else signed_inf ((x < 0) \<noteq> is_negative b))"
| "double_mult a (Fin y) = (if y = 0 then NaN else signed_inf (is_negative a \<noteq> (y < 0)))"
| "double_mult a b = signed_inf (is_negative a \<noteq> is_negative b)"

text \<open>
  The quotient of two doubles is the exact quotient, rounded. numpy does not raise on a
  zero divisor: \<open>0 / 0\<close> is NaN and any other number over zero is an infinity (a zero
  divisor counts as positive here, as a variance is). An infinity over an infinity is
  NaN.
\<close>

fun double_div :: "npfloat \<Rightarrow> npfloat \<Rightarrow> npfloat" where
  "double_div NaN b = NaN"
| "double_div a NaN = NaN"
| "double_div (Fin x) (Fin v) =
     (if v = 0 then (if x = 0 then NaN else signed_inf (x < 0)) else round_double (x / v))"
| "double_div (Fin x) b = Fin 0"
| "double_div a (Fin v) = signed_inf (is_negative a \<noteq> (v < 0))"
| "double_div a b = NaN"

text \<open>\<^verbatim>\<open>a < e\<close>: every comparison with NaN is false.\<close>

fun np_less :: "npfloat \<Rightarrow> real \<Rightarrow> bool" where
  "np_less (Fin x) e = (x < e)"
| "np_less PosInf e = False"
| "np_less NegInf e = True"
| "np_less NaN e = False"

text \<open>\<^verbatim>\<open>a == b\<close>: NaN is equal to nothing, itself included.\<close>

fun np_eq :: "npfloat \<Rightarrow> npfloat \<Rightarrow> bool" where
  "np_eq NaN b = False"
| "np_eq a NaN = False"
| "np_eq a b = (a = b)"

text \<open>
  \<^verbatim>\<open>np.var\<close> and \<^verbatim>\<open>np.exp\<close> are numpy's own routines: the order in which the
  variance sums its terms and the last bit of an exponential are not fixed by the
  format. The model takes their values on ordinary arguments as parameters
  (\<open>var_nonempty\<close> on a non-empty array of finite doubles, \<open>exp_finite\<close> at a finite
  nonzero argument) and writes out what they return at the special ones.
\<close>

record numpy =
  var_nonempty :: "real list \<Rightarrow> npfloat"
  exp_finite :: "real \<Rightarrow> npfloat"

text \<open>\<^verbatim>\<open>np.var\<close>: NaN (with a warning) on an empty array.\<close>

definition np_var :: "numpy \<Rightarrow> real list \<Rightarrow> npfloat" where
  "np_var np xs = (if xs = [] then NaN else var_nonempty np xs)"

text \<open>\<^verbatim>\<open>np.exp\<close>: exactly 1 at zero, 0 at \<open>-\<infinity>\<close>, and NaN only at NaN.\<close>

fun np_exp :: "numpy \<Rightarrow> npfloat \<Rightarrow> npfloat" where
  "np_exp np (Fin x) = (if x = 0 then Fin 1 else exp_finite np x)"
| "np_exp np PosInf = PosInf"
| "np_exp np NegInf = Fin 0"
| "np_exp np NaN = NaN"

subsection \<open>An exact variance and exponential, for the examples\<close>

text \<open>
  The examples below run on inputs at which the variance is itself a double and is what
  numpy returns, and at which an exponential is only compared with a threshold far from
  it; there the routines can be taken without rounding error.
\<close>

definition np_mean :: "real list \<Rightarrow> real" where
  "np_mean xs = sum_list xs / real (length xs)"

definition exact_numpy :: numpy where
  "exact_numpy =
     \<lparr> var_nonempty = (\<lambda>xs. Fin (np_mean (map (\<lambda>x. (x - np_mean xs) * (x - np_mean xs)) xs))),
       exp_finite = (\<lambda>x. Fin (exp x)) \<rparr>"

section \<open>Arrays that carry their shape\<close>

text \<open>
  A numpy array knows its shape even when an axis is empty, so the nested lists are kept
  together with the shape; \<open>wf2\<close>, \<open>wf3\<close> and \<open>wf4\<close> say that data and shape agree.
\<close>

record ndarray2 =
  shape2 :: "nat \<times> nat"
  items2 :: "real list list"

record ndarray3 =
  shape3 :: "nat \<times> nat \<times> nat"
  items3 :: "real list list list"

record ndarray4 =
  shape4 :: "nat \<times> nat \<times> nat \<times> nat"
  items4 :: "real list list list list"

definition wf2 :: "ndarray2 \<Rightarrow> bool" where
  "wf2 A =
     (case shape2 A of (a, b) \<Rightarrow>
        length (items2 A) = a \<and> list_all (\<lambda>r. length r = b) (items2 A))"

definition wf3 :: "ndarray3 \<Rightarrow> bool" where
  "wf3 A =
     (case shape3 A of (a, b, c) \<Rightarrow>
        length (items3 A) = a \<and>
        list_all (\<lambda>p. length p = b \<and> list_all (\<lambda>r. length r = c) p) (items3 A))"

definition wf4 :: "ndarray4 \<Rightarrow> bool" where
  "wf4 A =
     (case shape4 A of (a, b, c, d) \<Rightarrow>
        length (items4 A) = a \<and>
        list_all (\<lambda>s. length s = b \<and>
          list_all (\<lambda>p. length p = c \<and> list_all (\<lambda>r. length r = d) p) s) (items4 A))"

text \<open>\<^verbatim>\<open>xs[a:b]\<close> for indices that are not negative: the bounds are clipped to the length.\<close>

definition slice :: "nat \<Rightarrow> nat \<Rightarrow> 'a list \<Rightarrow> 'a list" where
  "slice a b xs = take (b - a) (drop a xs)"

text \<open>\<^verbatim>\<open>X[:, :, a:b]\<close>\<close>

definition slice_time :: "nat \<Rightarrow> nat \<Rightarrow> ndarray3 \<Rightarrow> ndarray3" where
  "slice_time a b X =
     (case shape3 X of (V, F, T) \<Rightarrow>
        \<lparr> shape3 = (V, F, min b T - min a T),
          items3 = map (map (slice a b)) (items3 X) \<rparr>)"

text \<open>\<^verbatim>\<open>.transpose((1, 0, 2))\<close>\<close>

definition transpose_102 :: "ndarray3 \<Rightarrow> ndarray3" where
  "transpose_102 X =
     (case shape3 X of (V, F, L) \<Rightarrow>
        \<lparr> shape3 = (F, V, L),
          items3 = map (\<lambda>f. map (\<lambda>v. items3 X ! v ! f) [0..<V]) [0..<F] \<rparr>)"

text \<open>\<^verbatim>\<open>X[:, 0, a:b]\<close>: the integer index raises when the feature axis is empty.\<close>

definition channel0_slice :: "nat \<Rightarrow> nat \<Rightarrow> ndarray3 \<Rightarrow> py_error + ndarray2" where
  "channel0_slice a b X =
     (case shape3 X of (V, F, T) \<Rightarrow>
        if F = 0 then Inl IndexError
        else Inr \<lparr> shape2 = (V, min b T - min a T),
                   items2 = map (\<lambda>p. slice a b (p ! 0)) (items3 X) \<rparr>)"

text \<open>
  \<^verbatim>\<open>np.concatenate([np.expand_dims(i, 0) for i in xs], axis=0)\<close>: ValueError on an
  empty list and on arrays of different shapes.
\<close>

fun stack3 :: "ndarray3 list \<Rightarrow> py_error + ndarray4" where
  "stack3 [] = Inl ValueError"
| "stack3 (a # as) =
     (if list_all (\<lambda>b. shape3 b = shape3 a) as
      then Inr \<lparr> shape4 = (case shape3 a of (p, q, r) \<Rightarrow> (Suc (length as), p, q, r)),
                 items4 = map items3 (a # as) \<rparr>
      else Inl ValueError)"

fun stack2 :: "ndarray2 list \<Rightarrow> py_error + ndarray3" where
  "stack2 [] = Inl ValueError"
| "stack2 (a # as) =
     (if list_all (\<lambda>b. shape2 b = shape2 a) as
      then Inr \<lparr> shape3 = (case shape2 a of (p, q) \<Rightarrow> (Suc (length as), p, q)),
                 items3 = map items2 (a # as) \<rparr>
      else Inl ValueError)"

section \<open>Python values\<close>

text \<open>\<^verbatim>\<open>int(x)\<close> on a float truncates towards zero.\<close>

definition py_int :: "real \<Rightarrow> int" where
  "py_int x = (if 0 \<le> x then \<lfloor>x\<rfloor> else \<lceil>x\<rceil>)"

text \<open>
  \<^verbatim>\<open>str(n)\<close> and \<^verbatim>\<open>'%s' % n\<close> for an integer that is not negative: its decimal
  digits.
\<close>

definition digit_char :: "nat \<Rightarrow> char" where
  "digit_char d = ''0123456789'' ! d"

fun py_str :: "nat \<Rightarrow> string" where
  "py_str n = (if n < 10 then [digit_char n] else py_str (n div 10) @ [digit_char (n mod 10)])"

declare py_str.simps [simp del]

text \<open>
  A dictionary as the list of its items in insertion order (the keys are pairwise
  different); \<^verbatim>\<open>d[k]\<close> raises KeyError on a missing key.
\<close>

definition dict_get :: "(string \<times> 'v) list \<Rightarrow> string \<Rightarrow> py_error + 'v" where
  "dict_get d k = (case map_of d k of None \<Rightarrow> Inl KeyError | Some v \<Rightarrow> Inr v)"

section \<open>The adjacency matrix of \<^verbatim>\<open>data_preprocess\<close>\<close>

text \<open>
  An index into an axis of length \<open>n\<close>: numpy counts a negative index from the end and
  raises IndexError outside \<open>[-n, n)\<close>.
\<close>

definition norm_index :: "nat \<Rightarrow> int \<Rightarrow> py_error + nat" where
  "norm_index n i =
     (if 0 \<le> i \<and> i < int n then Inr (nat i)
      else if - int n \<le> i \<and> i < 0 then Inr (nat (i + int n))
      else Inl IndexError)"

definition np_zeros :: "nat \<Rightarrow> nat \<Rightarrow> real list list" where
  "np_zeros r c = replicate r (replicate c 0)"

text \<open>\<^verbatim>\<open>A[x, y] = v\<close> on an \<open>n \<times> n\<close> array.\<close>

definition set_item :: "nat \<Rightarrow> real list list \<Rightarrow> int \<Rightarrow> int \<Rightarrow> real \<Rightarrow> py_error + real list list" where
  "set_item n A x y v =
     (case norm_index n x of
        Inl e \<Rightarrow> Inl e
      | Inr r \<Rightarrow>
          (case norm_index n y of
             Inl e \<Rightarrow> Inl e
           | Inr c \<Rightarrow> Inr (A[r := (A ! r)[c := v]])))"

text \<open>
  The loop \<^verbatim>\<open>for x, y, dis in distance.values\<close>: each row of the distance table
  writes its distance at both positions; a later row overwrites an earlier one.
\<close>

fun put_distances :: "nat \<Rightarrow> real list list \<Rightarrow> (real \<times> real \<times> real) list \<Rightarrow> py_error + real list list" where
  "put_distances n A [] = Inr A"
| "put_distances n A ((x, y, dis) # rest) =
     (let x_index = py_int x; y_index = py_int y in
      case set_item n A x_index y_index dis of
        Inl e \<Rightarrow> Inl e
      | Inr A1 \<Rightarrow>
          (case set_item n A1 y_index x_index dis of
             Inl e \<Rightarrow> Inl e
           | Inr A2 \<Rightarrow> put_distances n A2 rest))"

text \<open>The distance matrix after the loop, before normalisation.\<close>

definition distance_matrix :: "config \<Rightarrow> (real \<times> real \<times> real) list \<Rightarrow> py_error + real list list" where
  "distance_matrix cfg distance =
     put_distances (num_of_vertices cfg)
       (np_zeros (num_of_vertices cfg) (num_of_vertices cfg)) distance"

text \<open>\<^verbatim>\<open>tmp[tmp != 0]\<close> of the flattened matrix.\<close>

definition nonzero_entries :: "real list list \<Rightarrow> real list" where
  "nonzero_entries A = filter (\<lambda>t. t \<noteq> 0) (concat A)"

text \<open>
  \<^verbatim>\<open>np.exp(- (A ** 2) / var)\<close> at one entry: the square and the quotient are rounded
  as doubles are.
\<close>

definition gaussian_kernel :: "numpy \<Rightarrow> npfloat \<Rightarrow> real \<Rightarrow> npfloat" where
  "gaussian_kernel np var a = np_exp np (double_div (double_neg (double_mult (Fin a) (Fin a))) var)"

text \<open>\<^verbatim>\<open>A[A < epsilon] = 0\<close> at one entry.\<close>

definition drop_below :: "real \<Rightarrow> npfloat \<Rightarrow> npfloat" where
  "drop_below eps a = (if np_less a eps then Fin 0 else a)"

text \<open>
  The adjacency matrix that \<^verbatim>\<open>data_preprocess\<close> computes, as a function of the rows
  of the distance table (whose distances are finite doubles).
\<close>

definition adjacency :: "numpy \<Rightarrow> config \<Rightarrow> (real \<times> real \<times> real) list \<Rightarrow> py_error + npfloat list list" where
  "adjacency np cfg distance =
     (case distance_matrix cfg distance of
        Inl e \<Rightarrow> Inl e
      | Inr A \<Rightarrow>
          (let var = np_var np (nonzero_entries A) in
           Inr (map (map (\<lambda>a. drop_below (epsilon cfg) (gaussian_kernel np var a))) A)))"

subsection \<open>Vocabulary for stating the properties\<close>

text \<open>An \<open>n \<times> n\<close> nested list.\<close>

definition is_square :: "nat \<Rightarrow> 'a list list \<Rightarrow> bool" where
  "is_square n A \<longleftrightarrow> length A = n \<and> list_all (\<lambda>r. length r = n) A"

text \<open>A vertex index of the table that lies in \<open>[0, n)\<close> after \<^verbatim>\<open>int()\<close>.\<close>

definition in_range :: "nat \<Rightarrow> real \<Rightarrow> bool" where
  "in_range n x \<longleftrightarrow> 0 \<le> py_int x \<and> py_int x < int n"

text \<open>A valid distance table: both vertex indices of every row are in range.\<close>

definition valid_distance :: "config \<Rightarrow> (real \<times> real \<times> real) list \<Rightarrow> bool" where
  "valid_distance cfg distance =
     list_all (\<lambda>(x, y, dis). in_range (num_of_vertices cfg) x \<and> in_range (num_of_vertices cfg) y) distance"

text \<open>Equal entries at mirrored positions.\<close>

definition symmetric :: "nat \<Rightarrow> 'a list list \<Rightarrow> bool" where
  "symmetric n A \<longleftrightarrow> (\<forall>i<n. \<forall>j<n. A ! i ! j = A ! j ! i)"

text \<open>
  A row writes position \<open>(i, j)\<close> when its two indices, resolved as numpy resolves them,
  are \<open>i\<close> and \<open>j\<close> in either order.
\<close>

definition assigns :: "nat \<Rightarrow> real \<times> real \<times> real \<Rightarrow> nat \<Rightarrow> nat \<Rightarrow> bool" where
  "assigns n row i j =
     (case row of (x, y, dis) \<Rightarrow>
        (norm_index n (py_int x) = Inr i \<and> norm_index n (py_int y) = Inr j) \<or>
        (norm_index n (py_int x) = Inr j \<and> norm_index n (py_int y) = Inr i))"

definition assigned :: "nat \<Rightarrow> (real \<times> real \<times> real) list \<Rightarrow> nat \<Rightarrow> nat \<Rightarrow> bool" where
  "assigned n distance i j = list_ex (\<lambda>row. assigns n row i j) distance"

text \<open>The script's configuration on graphs of three and of two vertices.\<close>

definition cfg3 :: config where "cfg3 = default_config\<lparr>num_of_vertices := 3\<rparr>"

definition cfg2 :: config where "cfg2 = default_config\<lparr>num_of_vertices := 2\<rparr>"

text \<open>A vertex index on which numpy raises: at least \<open>n\<close>, or below \<open>-n\<close>.\<close>

definition out_of_range :: "nat \<Rightarrow> real \<Rightarrow> bool" where
  "out_of_range n x \<longleftrightarrow> py_int x < - int n \<or> int n \<le> py_int x"

section \<open>The graph signal matrix and \<^verbatim>\<open>data_preprocess\<close>\<close>

text \<open>
  \<^verbatim>\<open>np.empty(shape)\<close> allocates without initialising: the entries are whatever the
  memory holds, here the values of \<open>junk\<close>.
\<close>

definition np_empty :: "(nat \<Rightarrow> nat \<Rightarrow> nat \<Rightarrow> real) \<Rightarrow> nat \<times> nat \<times> nat \<Rightarrow> ndarray3" where
  "np_empty junk sh =
     (case sh of (V, F, T) \<Rightarrow>
        \<lparr> shape3 = sh,
          items3 = map (\<lambda>v. map (\<lambda>f. map (junk v f) [0..<T]) [0..<F]) [0..<V] \<rparr>)"

text \<open>
  \<^verbatim>\<open>X[i, c, :] = np.array(values)\<close>: IndexError for an index outside its axis; the
  values must have the length of the time axis or length 1 (which numpy broadcasts), and
  ValueError is raised otherwise.
\<close>

definition set_channel :: "ndarray3 \<Rightarrow> nat \<Rightarrow> nat \<Rightarrow> real list \<Rightarrow> py_error + ndarray3" where
  "set_channel X i c values =
     (case shape3 X of (V, F, T) \<Rightarrow>
        if \<not> i < V \<or> \<not> c < F then Inl IndexError
        else if length values = T
        then Inr (X\<lparr> items3 := (items3 X)[i := (items3 X ! i)[c := values]] \<rparr>)
        else if length values = 1
        then Inr (X\<lparr> items3 := (items3 X)[i := (items3 X ! i)[c := replicate T (values ! 0)]] \<rparr>)
        else Inl ValueError)"

text \<open>
  The shape of \<open>X\<close>: the number of vertices, the number of signals of the first
  vertex of the file, and the number of readings of its first signal.
\<close>

definition signal_shape ::
  "config \<Rightarrow> (string \<times> (string \<times> real list) list) list \<Rightarrow> py_error + nat \<times> nat \<times> nat" where
  "signal_shape cfg data =
     (case data of
        [] \<Rightarrow> Inl IndexError
      | (k, _) # _ \<Rightarrow>
          (case dict_get data k of
             Inl e \<Rightarrow> Inl e
           | Inr first \<Rightarrow>
               (case first of
                  [] \<Rightarrow> Inl IndexError
                | (_, readings) # _ \<Rightarrow> Inr (num_of_vertices cfg, length first, length readings))))"

text \<open>The loop \<^verbatim>\<open>for i in range(num_of_vertices)\<close> that copies the three signals.\<close>

fun fill_signals ::
  "(string \<times> (string \<times> real list) list) list \<Rightarrow> nat list \<Rightarrow> ndarray3 \<Rightarrow> py_error + ndarray3" where
  "fill_signals data [] X = Inr X"
| "fill_signals data (i # rest) X =
     (case dict_get data (py_str i) of Inl e \<Rightarrow> Inl e | Inr d0 \<Rightarrow>
     (case dict_get d0 ''flow'' of Inl e \<Rightarrow> Inl e | Inr flow \<Rightarrow>
     (case set_channel X i 0 flow of Inl e \<Rightarrow> Inl e | Inr X0 \<Rightarrow>
     (case dict_get data (py_str i) of Inl e \<Rightarrow> Inl e | Inr d1 \<Rightarrow>
     (case dict_get d1 ''occupy'' of Inl e \<Rightarrow> Inl e | Inr occupy \<Rightarrow>
     (case set_channel X0 i 1 occupy of Inl e \<Rightarrow> Inl e | Inr X1 \<Rightarrow>
     (case dict_get data (py_str i) of Inl e \<Rightarrow> Inl e | Inr d2 \<Rightarrow>
     (case dict_get d2 ''speed'' of Inl e \<Rightarrow> Inl e | Inr speed \<Rightarrow>
     (case set_channel X1 i 2 speed of Inl e \<Rightarrow> Inl e | Inr X2 \<Rightarrow>
        fill_signals data rest X2)))))))))"

definition graph_signal ::
  "config \<Rightarrow> (nat \<Rightarrow> nat \<Rightarrow> nat \<Rightarrow> real) \<Rightarrow> (string \<times> (string \<times> real list) list) list \<Rightarrow>
     py_error + ndarray3" where
  "graph_signal cfg junk data =
     (case signal_shape cfg data of
        Inl e \<Rightarrow> Inl e
      | Inr sh \<Rightarrow> fill_signals data [0..<num_of_vertices cfg] (np_empty junk sh))"

text \<open>
  \<^verbatim>\<open>data_preprocess\<close>, as a function of the rows of the distance table and of the
  parsed signal file: the adjacency matrix first, then the signal matrix.
\<close>

definition data_preprocess ::
  "numpy \<Rightarrow> config \<Rightarrow> (nat \<Rightarrow> nat \<Rightarrow> nat \<Rightarrow> real) \<Rightarrow> (real \<times> real \<times> real) list \<Rightarrow>
     (string \<times> (string \<times> real list) list) list \<Rightarrow> py_error + npfloat list list \<times> ndarray3" where
  "data_preprocess np cfg junk distance data =
     (case adjacency np cfg distance of
        Inl e \<Rightarrow> Inl e
      | Inr A \<Rightarrow>
          (case graph_signal cfg junk data of
             Inl e \<Rightarrow> Inl e
           | Inr X \<Rightarrow> Inr (A, X)))"

subsection \<open>Vocabulary and examples for the signal matrix\<close>

text \<open>What an assignment to a whole time axis stores: the values, or one value repeated.\<close>

definition broadcast :: "nat \<Rightarrow> real list \<Rightarrow> real list" where
  "broadcast T values = (if length values = T then values else replicate T (values ! 0))"

text \<open>Parsed signal files for two and for three vertices, and the matrices they give.\<close>

definition data2 :: "(string \<times> (string \<times> real list) list) list" where
  "data2 = [(''0'', [(''flow'', [1, 2]), (''occupy'', [3, 4]), (''speed'', [5, 6])]),
            (''1'', [(''flow'', [7, 8]), (''occupy'', [9, 10]), (''speed'', [11, 12])])]"

definition X_data2 :: ndarray3 where
  "X_data2 = \<lparr> shape3 = (2, 3, 2),
               items3 = [[[1, 2], [3, 4], [5, 6]], [[7, 8], [9, 10], [11, 12]]] \<rparr>"

text \<open>Row \<open>i\<close> of the signal matrix holds the three signals of vertex \<open>i\<close>.\<close>

definition row_holds ::
  "(string \<times> (string \<times> real list) list) list \<Rightarrow> nat \<Rightarrow> ndarray3 \<Rightarrow> nat \<Rightarrow> bool" where
  "row_holds data T X i =
     (case dict_get data (py_str i) of
        Inl e \<Rightarrow> False
      | Inr d \<Rightarrow>
          (case (dict_get d ''flow'', dict_get d ''occupy'', dict_get d ''speed'') of
             (Inr flow, Inr occupy, Inr speed) \<Rightarrow>
               items3 X ! i ! 0 = broadcast T flow \<and>
               items3 X ! i ! 1 = broadcast T occupy \<and>
               items3 X ! i ! 2 = broadcast T speed
           | _ \<Rightarrow> False))"

text \<open>Memory that happens to hold zeros.\<close>

definition zero_junk :: "nat \<Rightarrow> nat \<Rightarrow> nat \<Rightarrow> real" where
  "zero_junk v f t = 0"

definition data3 :: "(string \<times> (string \<times> real list) list) list" where
  "data3 = [(''0'', [(''flow'', [1, 2]), (''occupy'', [3, 4]), (''speed'', [5, 6])]),
            (''1'', [(''flow'', [7, 8]), (''occupy'', [9, 10]), (''speed'', [11, 12])]),
            (''2'', [(''flow'', [13, 14]), (''occupy'', [15, 16]), (''speed'', [17, 18])])]"

definition X_data3 :: ndarray3 where
  "X_data3 = \<lparr> shape3 = (3, 3, 2),
               items3 = [[[1, 2], [3, 4], [5, 6]], [[7, 8], [9, 10], [11, 12]],
                         [[13, 14], [15, 16], [17, 18]]] \<rparr>"

section \<open>\<^verbatim>\<open>build_dataset\<close>\<close>

text \<open>
  The list \<^verbatim>\<open>indices\<close>: one pair for each \<open>i\<close> of
  \<^verbatim>\<open>range(T - (H + P) + 1)\<close>, which is empty when the bound is not positive.
\<close>

definition window_indices :: "config \<Rightarrow> nat \<Rightarrow> (nat \<times> nat) list" where
  "window_indices cfg T =
     map (\<lambda>i. (i, i + (num_points_for_train cfg + num_points_for_predict cfg)))
       [0..<T + 1 - (num_points_for_train cfg + num_points_for_predict cfg)]"

text \<open>The loop that appends one history and one target for each pair of \<^verbatim>\<open>indices\<close>.\<close>

fun collect_samples ::
  "config \<Rightarrow> ndarray3 \<Rightarrow> (nat \<times> nat) list \<Rightarrow> ndarray3 list \<times> ndarray2 list \<Rightarrow>
     py_error + ndarray3 list \<times> ndarray2 list" where
  "collect_samples cfg X [] (features, target) = Inr (features, target)"
| "collect_samples cfg X ((i, j) # rest) (features, target) =
     (let f = transpose_102 (slice_time i (i + num_points_for_train cfg) X) in
      case channel0_slice (i + num_points_for_train cfg) j X of
        Inl e \<Rightarrow> Inl e
      | Inr t \<Rightarrow> collect_samples cfg X rest (features @ [f], target @ [t]))"

definition build_dataset :: "config \<Rightarrow> ndarray3 \<Rightarrow> py_error + ndarray4 \<times> ndarray3" where
  "build_dataset cfg graph_signal_matrix =
     (case shape3 graph_signal_matrix of (V, F, T) \<Rightarrow>
        (case collect_samples cfg graph_signal_matrix (window_indices cfg T) ([], []) of
           Inl e \<Rightarrow> Inl e
         | Inr (features, target) \<Rightarrow>
             (case stack3 features of
                Inl e \<Rightarrow> Inl e
              | Inr features' \<Rightarrow>
                  (case stack2 target of
                     Inl e \<Rightarrow> Inl e
                   | Inr target' \<Rightarrow> Inr (features', target')))))"

section \<open>The partitions and the normalisation of the main script\<close>

text \<open>
  \<^verbatim>\<open>int(X.shape[2] * 0.6)\<close> and \<^verbatim>\<open>int(X.shape[2] * 0.8)\<close>, with the products taken
  exactly. (The doubles nearest to 0.6 and 0.8 are off by less than \<open>2 ^ - 53\<close>
  relative, which moves no product of a length below \<open>2 ^ 50\<close> across an integer.)
\<close>

definition split_line1 :: "nat \<Rightarrow> nat" where
  "split_line1 T = nat (py_int (real T * (6 / 10)))"

definition split_line2 :: "nat \<Rightarrow> nat" where
  "split_line2 T = nat (py_int (real T * (8 / 10)))"

definition time_steps :: "ndarray3 \<Rightarrow> nat" where
  "time_steps X = (case shape3 X of (V, F, T) \<Rightarrow> T)"

definition train_original_data :: "ndarray3 \<Rightarrow> ndarray3" where
  "train_original_data X = slice_time 0 (split_line1 (time_steps X)) X"

definition val_original_data :: "ndarray3 \<Rightarrow> ndarray3" where
  "val_original_data X =
     slice_time (split_line1 (time_steps X)) (split_line2 (time_steps X)) X"

definition test_original_data :: "ndarray3 \<Rightarrow> ndarray3" where
  "test_original_data X = slice_time (split_line2 (time_steps X)) (time_steps X) X"

text \<open>\<^verbatim>\<open>data.reshape(data.shape[0], -1)\<close>: one row for each sample.\<close>

definition flatten_samples :: "ndarray4 \<Rightarrow> real list list" where
  "flatten_samples D = map (\<lambda>s. concat (map concat s)) (items4 D)"

text \<open>Cutting a row into consecutive pieces of length \<open>k\<close>, \<open>n\<close> of them.\<close>

fun chunks :: "nat \<Rightarrow> nat \<Rightarrow> 'a list \<Rightarrow> 'a list list" where
  "chunks 0 k xs = []"
| "chunks (Suc n) k xs = take k xs # chunks n k (drop k xs)"

text \<open>
  \<^verbatim>\<open>.reshape(N, num_of_features, num_of_vertices, num_points_for_train)\<close> of a
  two-dimensional array: ValueError when the sizes do not agree.
\<close>

definition reshape4 :: "nat \<times> nat \<times> nat \<times> nat \<Rightarrow> real list list \<Rightarrow> py_error + ndarray4" where
  "reshape4 sh M =
     (case sh of (N, F, V, H) \<Rightarrow>
        if length (concat M) = N * F * V * H
        then Inr \<lparr> shape4 = sh,
                   items4 = map (\<lambda>s. map (chunks V H) (chunks F (V * H) s))
                              (chunks N (F * V * H) (concat M)) \<rparr>
        else Inl ValueError)"

text \<open>
  The scaler is scikit-learn's, not this repository's: the script only calls
  \<^verbatim>\<open>fit_transform\<close> once, on the training samples, and \<^verbatim>\<open>transform\<close> on the other
  two partitions. The model takes the two operations as parameters; \<open>'s\<close> is what a
  fitted scaler remembers.
\<close>

record 's scaler =
  fit :: "real list list \<Rightarrow> py_error + 's"
  transform :: "'s \<Rightarrow> real list list \<Rightarrow> py_error + real list list"

record 's prepared =
  transformer :: 's
  training_data_norm :: ndarray4
  training_target :: ndarray3
  val_data_norm :: ndarray4
  val_target :: ndarray3
  testing_data_norm :: ndarray4
  testing_target :: ndarray3

text \<open>\<^verbatim>\<open>transformer.transform(data.reshape(N, -1)).reshape(N, F, V, H)\<close>\<close>

definition normalise :: "config \<Rightarrow> 's scaler \<Rightarrow> 's \<Rightarrow> nat \<Rightarrow> ndarray4 \<Rightarrow> py_error + ndarray4" where
  "normalise cfg sc st num_of_features D =
     (case transform sc st (flatten_samples D) of
        Inl e \<Rightarrow> Inl e
      | Inr M \<Rightarrow>
          reshape4 (fst (shape4 D), num_of_features, num_of_vertices cfg, num_points_for_train cfg) M)"

text \<open>
  The main script from the split to the normalised partitions: the three calls of
  \<^verbatim>\<open>build_dataset\<close>, the two assertions, and the scaler fitted on the training
  samples only.
\<close>

definition prepare_data :: "config \<Rightarrow> 's scaler \<Rightarrow> ndarray3 \<Rightarrow> py_error + 's prepared" where
  "prepare_data cfg sc X =
     (case build_dataset cfg (train_original_data X) of
        Inl e \<Rightarrow> Inl e
      | Inr (training_data, training_target') \<Rightarrow>
     (case build_dataset cfg (val_original_data X) of
        Inl e \<Rightarrow> Inl e
      | Inr (val_data, val_target') \<Rightarrow>
     (case build_dataset cfg (test_original_data X) of
        Inl e \<Rightarrow> Inl e
      | Inr (testing_data, testing_target') \<Rightarrow>
     (case shape4 training_data of (N, num_of_features, V, H) \<Rightarrow>
        if num_of_vertices cfg \<noteq> V then Inl AssertionError
        else if num_points_for_train cfg \<noteq> H then Inl AssertionError
        else
     (case fit sc (flatten_samples training_data) of
        Inl e \<Rightarrow> Inl e
      | Inr st \<Rightarrow>
     (case normalise cfg sc st num_of_features training_data of
        Inl e \<Rightarrow> Inl e
      | Inr training_data_norm' \<Rightarrow>
     (case normalise cfg sc st num_of_features val_data of
        Inl e \<Rightarrow> Inl e
      | Inr val_data_norm' \<Rightarrow>
     (case normalise cfg sc st num_of_features testing_data of
        Inl e \<Rightarrow> Inl e
      | Inr testing_data_norm' \<Rightarrow>
          Inr \<lparr> transformer = st,
                training_data_norm = training_data_norm', training_target = training_target',
                val_data_norm = val_data_norm', val_target = val_target',
                testing_data_norm = testing_data_norm', testing_target = testing_target' \<rparr>))))))))"

subsection \<open>Vocabulary and examples for the windowed samples\<close>

text \<open>The history and the target that the loop of \<^verbatim>\<open>build_dataset\<close> cuts at start index \<open>i\<close>.\<close>

definition history_at :: "config \<Rightarrow> ndarray3 \<Rightarrow> nat \<Rightarrow> ndarray3" where
  "history_at cfg X i = transpose_102 (slice_time i (i + num_points_for_train cfg) X)"

definition target_at :: "config \<Rightarrow> ndarray3 \<Rightarrow> nat \<Rightarrow> ndarray2" where
  "target_at cfg X i =
     \<lparr> shape2 = (fst (shape3 X),
                 min (i + (num_points_for_train cfg + num_points_for_predict cfg)) (time_steps X)
                   - min (i + num_points_for_train cfg) (time_steps X)),
       items2 = map (\<lambda>p. slice (i + num_points_for_train cfg)
                            (i + (num_points_for_train cfg + num_points_for_predict cfg)) (p ! 0))
                  (items3 X) \<rparr>"

text \<open>The number of values of \<^verbatim>\<open>range(T - (H + P) + 1)\<close>.\<close>

definition num_windows :: "config \<Rightarrow> nat \<Rightarrow> nat" where
  "num_windows cfg T = T + 1 - (num_points_for_train cfg + num_points_for_predict cfg)"

text \<open>Small configurations and inputs on which the functions are evaluated.\<close>

definition cfg_small :: config where
  "cfg_small = default_config\<lparr>num_of_vertices := 2, num_points_for_train := 2, num_points_for_predict := 1\<rparr>"

definition X_small :: ndarray3 where
  "X_small = \<lparr> shape3 = (2, 2, 4),
               items3 = [[[1, 2, 3, 4], [5, 6, 7, 8]], [[9, 10, 11, 12], [13, 14, 15, 16]]] \<rparr>"

text \<open>
  Sample \<open>k\<close> of a partition cut at \<open>[a, b)\<close> reads the series exactly at the time steps
  \<open>a + k, \<dots>, a + k + H + P - 1\<close>, all of them before \<open>b\<close>.
\<close>

definition windows_within :: "config \<Rightarrow> ndarray3 \<Rightarrow> nat \<Rightarrow> nat \<Rightarrow> ndarray4 \<times> ndarray3 \<Rightarrow> bool" where
  "windows_within cfg X a b samples =
     (case shape3 X of (V, F, T) \<Rightarrow>
        \<forall>k<fst (shape4 (fst samples)).
          a + k + (num_points_for_train cfg + num_points_for_predict cfg) \<le> b \<and>
          (\<forall>f<F. \<forall>v<V. \<forall>t<num_points_for_train cfg.
             items4 (fst samples) ! k ! f ! v ! t = items3 X ! v ! f ! (a + k + t)) \<and>
          (\<forall>v<V. \<forall>t<num_points_for_predict cfg.
             items3 (snd samples) ! k ! v ! t
               = items3 X ! v ! 0 ! (a + k + num_points_for_train cfg + t)))"

definition cfg_tiny :: config where
  "cfg_tiny = default_config\<lparr>num_of_vertices := 1, num_points_for_train := 1, num_points_for_predict := 1\<rparr>"

definition X_series :: "real list \<Rightarrow> ndarray3" where
  "X_series xs = \<lparr> shape3 = (1, 1, length xs), items3 = [[xs]] \<rparr>"

text \<open>
  A concrete scaler for the examples: scikit-learn's \<^verbatim>\<open>StandardScaler\<close> as its
  documentation describes it, in exact arithmetic. Fitting records the mean and the
  population standard deviation of every column (a zero deviation is replaced by 1);
  transforming computes \<open>(x - mean) / scale\<close> column by column.
\<close>

definition columns :: "real list list \<Rightarrow> real list list" where
  "columns M = (case M of [] \<Rightarrow> [] | r # rs \<Rightarrow> map (\<lambda>j. map (\<lambda>row. row ! j) M) [0..<length r])"

definition column_scale :: "real list \<Rightarrow> real" where
  "column_scale c =
     (let s = sqrt (np_mean (map (\<lambda>x. (x - np_mean c) * (x - np_mean c)) c))
      in if s = 0 then 1 else s)"

definition standard_scaler :: "(real list \<times> real list) scaler" where
  "standard_scaler =
     \<lparr> fit = (\<lambda>M. if columns M = [] then Inl ValueError
                   else Inr (map np_mean (columns M), map column_scale (columns M))),
       transform = (\<lambda>st M.
          Inr (map (\<lambda>row. map (\<lambda>(x, m, s). (x - m) / s) (zip row (zip (fst st) (snd st)))) M)) \<rparr>"

definition X_run1 :: ndarray3 where
  "X_run1 = X_series [1, 1, 1, 1, 6, 0, 7, 8, 9, 10]"

definition X_run2 :: ndarray3 where
  "X_run2 = X_series [1, 1, 1, 1, 6, 0, 70, 80, 90, 100]"

definition cfg2_short :: config where
  "cfg2_short = cfg2\<lparr>num_points_for_train := 1, num_points_for_predict := 1\<rparr>"

section \<open>\<^verbatim>\<open>train_model\<close>\<close>

text \<open>
  The network, the loss and the optimiser belong to mxnet. The model takes them as two
  operations on an abstract state \<open>'p\<close> (the parameters together with what the optimiser
  remembers): \<open>train_step\<close> is one pass of the inner training loop on one batch at the
  trainer's current learning rate (forward, loss, backward, \<^verbatim>\<open>trainer.step\<close>) and
  returns the new state with the batch's mean loss; \<open>eval_loss\<close> is the mean loss of a
  batch without an update.
\<close>

record ('p, 'b) engine =
  train_step :: "npfloat \<Rightarrow> 'p \<Rightarrow> 'b \<Rightarrow> 'p \<times> real"
  eval_loss :: "'p \<Rightarrow> 'b \<Rightarrow> real"

text \<open>
  What \<^verbatim>\<open>train_model\<close> reads and changes: the network, the trainer's learning rate,
  the three lists of losses, the records appended to \<^verbatim>\<open>results.log\<close>, and the calls
  of \<^verbatim>\<open>net.save_parameters\<close> in the order they are made.
\<close>

record 'p train_state =
  net_params :: 'p
  trainer_learning_rate :: npfloat
  train_loss_list :: "real list"
  val_loss_list :: "real list"
  test_loss_list :: "real list"
  results_log :: "(real \<times> real \<times> real) list"
  saved_parameters :: "(string \<times> 'p) list"

definition checkpoint_filename :: "nat \<Rightarrow> string" where
  "checkpoint_filename epoch = ''stgcn_params/stgcn.params_'' @ py_str epoch"

text \<open>\<^verbatim>\<open>sum(tmp) / len(tmp)\<close>: ZeroDivisionError when the loader yields no batch.\<close>

definition mean_loss :: "real list \<Rightarrow> py_error + real" where
  "mean_loss tmp = (if tmp = [] then Inl ZeroDivisionError else Inr (sum_list tmp / real (length tmp)))"

text \<open>The inner training loop of one epoch.\<close>

fun train_batches :: "('p, 'b) engine \<Rightarrow> npfloat \<Rightarrow> 'b list \<Rightarrow> 'p \<times> real list \<Rightarrow> 'p \<times> real list" where
  "train_batches eng lr [] (p, train_loss_list_tmp) = (p, train_loss_list_tmp)"
| "train_batches eng lr (b # bs) (p, train_loss_list_tmp) =
     (case train_step eng lr p b of
        (p', l) \<Rightarrow> train_batches eng lr bs (p', train_loss_list_tmp @ [l]))"

text \<open>
  The body of \<^verbatim>\<open>for epoch in range(epochs)\<close>. The training loader shuffles, so its
  batches depend on the epoch; the other two loaders do not. The learning rate is a
  Python float, and \<^verbatim>\<open>trainer.learning_rate * decay_rate\<close> is a product of doubles.
\<close>

definition train_epoch ::
  "config \<Rightarrow> ('p, 'b) engine \<Rightarrow> (nat \<Rightarrow> 'b list) \<Rightarrow> 'b list \<Rightarrow> 'b list \<Rightarrow> nat \<Rightarrow>
     'p train_state \<Rightarrow> py_error + 'p train_state" where
  "train_epoch cfg eng training_dataloader validation_dataloader testing_dataloader epoch st =
     (case train_batches eng (trainer_learning_rate st) (training_dataloader epoch) (net_params st, []) of
        (p, train_loss_list_tmp) \<Rightarrow>
     (case mean_loss train_loss_list_tmp of
        Inl e \<Rightarrow> Inl e
      | Inr train_loss \<Rightarrow>
     (case mean_loss (map (eval_loss eng p) validation_dataloader) of
        Inl e \<Rightarrow> Inl e
      | Inr val_loss \<Rightarrow>
     (case mean_loss (map (eval_loss eng p) testing_dataloader) of
        Inl e \<Rightarrow> Inl e
      | Inr test_loss \<Rightarrow>
          (let st1 = st\<lparr> net_params := p,
                         train_loss_list := train_loss_list st @ [train_loss],
                         val_loss_list := val_loss_list st @ [val_loss],
                         test_loss_list := test_loss_list st @ [test_loss],
                         results_log := results_log st @ [(train_loss, val_loss, test_loss)] \<rparr>;
               st2 = (if (epoch + 1) mod 5 = 0
                      then st1\<lparr> saved_parameters :=
                                  saved_parameters st1 @ [(checkpoint_filename epoch, p)] \<rparr>
                      else st1)
           in if decay_interval cfg = 0 then Inl ZeroDivisionError
              else if (epoch + 1) mod decay_interval cfg = 0
              then Inr (st2\<lparr> trainer_learning_rate :=
                               double_mult (trainer_learning_rate st2) (Fin (decay_rate cfg)) \<rparr>)
              else Inr st2)))))"

fun run_epochs ::
  "config \<Rightarrow> ('p, 'b) engine \<Rightarrow> (nat \<Rightarrow> 'b list) \<Rightarrow> 'b list \<Rightarrow> 'b list \<Rightarrow> nat list \<Rightarrow>
     'p train_state \<Rightarrow> py_error + 'p train_state" where
  "run_epochs cfg eng tr va te [] st = Inr st"
| "run_epochs cfg eng tr va te (epoch # rest) st =
     (case train_epoch cfg eng tr va te epoch st of
        Inl e \<Rightarrow> Inl e
      | Inr st' \<Rightarrow> run_epochs cfg eng tr va te rest st')"

text \<open>
  \<^verbatim>\<open>train_model\<close>: the three lists start empty, the epochs run in order, and an
  exception ends the run.
\<close>

definition train_model ::
  "config \<Rightarrow> ('p, 'b) engine \<Rightarrow> (nat \<Rightarrow> 'b list) \<Rightarrow> 'b list \<Rightarrow> 'b list \<Rightarrow>
     'p train_state \<Rightarrow> py_error + 'p train_state" where
  "train_model cfg eng training_dataloader validation_dataloader testing_dataloader st =
     run_epochs cfg eng training_dataloader validation_dataloader testing_dataloader
       [0..<epochs cfg]
       (st\<lparr> train_loss_list := [], val_loss_list := [], test_loss_list := [] \<rparr>)"

text \<open>
  The state in which the main script calls \<^verbatim>\<open>train_model\<close>: a freshly initialised
  network, a trainer created with the configured learning rate, nothing saved yet.
\<close>

definition initial_state :: "config \<Rightarrow> 'p \<Rightarrow> 'p train_state" where
  "initial_state cfg p0 =
     \<lparr> net_params = p0, trainer_learning_rate = Fin (learning_rate cfg),
       train_loss_list = [], val_loss_list = [], test_loss_list = [],
       results_log = [], saved_parameters = [] \<rparr>"

subsection \<open>Vocabulary and examples for the training loop\<close>

text \<open>The state of \<^verbatim>\<open>train_model\<close> after its first \<open>n\<close> epochs.\<close>

definition state_after ::
  "config \<Rightarrow> ('p, 'b) engine \<Rightarrow> (nat \<Rightarrow> 'b list) \<Rightarrow> 'b list \<Rightarrow> 'b list \<Rightarrow>
     'p train_state \<Rightarrow> nat \<Rightarrow> py_error + 'p train_state" where
  "state_after cfg eng tr va te st n =
     run_epochs cfg eng tr va te [0..<n]
       (st\<lparr> train_loss_list := [], val_loss_list := [], test_loss_list := [] \<rparr>)"

definition cfg12 :: config where
  "cfg12 = default_config\<lparr>epochs := 12\<rparr>"

text \<open>
  An engine and loaders for the examples: the state counts the optimiser steps, every loss
  is 0, and every epoch has one batch.
\<close>

definition counting_engine :: "(nat, unit) engine" where
  "counting_engine = \<lparr> train_step = (\<lambda>lr p b. (p + 1, 0)), eval_loss = (\<lambda>p b. 0) \<rparr>"

definition one_batch :: "nat \<Rightarrow> unit list" where
  "one_batch epoch = [()]"

text \<open>The loaders of a run must yield at least one batch each, or the epoch's mean fails.\<close>

definition loaders_nonempty :: "config \<Rightarrow> (nat \<Rightarrow> 'b list) \<Rightarrow> 'b list \<Rightarrow> 'b list \<Rightarrow> bool" where
  "loaders_nonempty cfg training_dataloader validation_dataloader testing_dataloader \<longleftrightarrow>
     (\<forall>epoch<epochs cfg. training_dataloader epoch \<noteq> []) \<and>
     validation_dataloader \<noteq> [] \<and> testing_dataloader \<noteq> []"

text \<open>Reading a decimal string back.\<close>

definition digits_value :: "string \<Rightarrow> nat" where
  "digits_value s = foldl (\<lambda>acc c. 10 * acc + (of_char c - 48)) 0 s"

text \<open>
  The rate after \<open>k\<close> decays: \<^verbatim>\<open>trainer.learning_rate * decay_rate\<close> applied \<open>k\<close>
  times, each product rounded as a product of doubles is.
\<close>

fun decayed :: "config \<Rightarrow> npfloat \<Rightarrow> nat \<Rightarrow> npfloat" where
  "decayed cfg lr 0 = lr"
| "decayed cfg lr (Suc k) = double_mult (decayed cfg lr k) (Fin (decay_rate cfg))"

section \<open>The Chebyshev basis\<close>

text \<open>Square matrices of reals as nested lists, with the operations of the recurrence.\<close>

definition identity_matrix :: "nat \<Rightarrow> real list list" where
  "identity_matrix n = map (\<lambda>i. map (\<lambda>j. if i = j then 1 else 0) [0..<n]) [0..<n]"

definition mat_mul :: "real list list \<Rightarrow> real list list \<Rightarrow> real list list" where
  "mat_mul A B =
     map (\<lambda>row. map (\<lambda>j. sum_list (map (\<lambda>k. row ! k * B ! k ! j) [0..<length B])) [0..<length B]) A"

definition mat_scale :: "real \<Rightarrow> real list list \<Rightarrow> real list list" where
  "mat_scale c A = map (map (\<lambda>a. c * a)) A"

definition mat_sub :: "real list list \<Rightarrow> real list list \<Rightarrow> real list list" where
  "mat_sub A B = map2 (map2 (\<lambda>a b. a - b)) A B"

text \<open>The step of the three-term recurrence: \<open>2 L T\<^sub>k\<^sub>-\<^sub>1 - T\<^sub>k\<^sub>-\<^sub>2\<close>.\<close>

definition cheb_next :: "real list list \<Rightarrow> real list list \<Rightarrow> real list list \<Rightarrow> real list list" where
  "cheb_next L T1 T2 = mat_sub (mat_scale 2 (mat_mul L T1)) T2"

text \<open>Appending \<open>n\<close> further polynomials to a basis that holds at least two.\<close>

fun cheb_extend :: "real list list \<Rightarrow> nat \<Rightarrow> real list list list \<Rightarrow> real list list list" where
  "cheb_extend L 0 polys = polys"
| "cheb_extend L (Suc n) polys =
     cheb_extend L n (polys @ [cheb_next L (last polys) (last (butlast polys))])"

text \<open>
  Modelled from the spec: \<^verbatim>\<open>cheb_polynomial\<close> is imported from \<^verbatim>\<open>lib/utils.py\<close>, which
  is not among the source files. The specification describes its result as an ordered
  sequence of \<open>K\<close> matrices with \<open>T\<^sub>0 = I\<close>, \<open>T\<^sub>1 = L\<close> and
  \<open>T\<^sub>k = 2 L T\<^sub>k\<^sub>-\<^sub>1 - T\<^sub>k\<^sub>-\<^sub>2\<close>, built by that recurrence, of length exactly \<open>K\<close>.
\<close>

definition cheb_polynomial :: "real list list \<Rightarrow> nat \<Rightarrow> real list list list" where
  "cheb_polynomial L_tilde K =
     (if K = 0 then []
      else if K = 1 then [identity_matrix (length L_tilde)]
      else cheb_extend L_tilde (K - 2) [identity_matrix (length L_tilde), L_tilde])"

text \<open>\<^verbatim>\<open>cheb_polys\<close> of the main script.\<close>

definition cheb_polys :: "config \<Rightarrow> real list list \<Rightarrow> real list list list" where
  "cheb_polys cfg L_tilde = cheb_polynomial L_tilde (orders_of_cheb cfg)"

section \<open>Properties of \<^verbatim>\<open>data_preprocess\<close>\<close>

lemma norm_index_bound: "norm_index n i = Inr r \<Longrightarrow> r < n"
  by (auto simp: norm_index_def split: if_splits)

lemma norm_index_in_range: "0 \<le> i \<Longrightarrow> i < int n \<Longrightarrow> norm_index n i = Inr (nat i)"
  by (simp add: norm_index_def)

lemma norm_index_error: "i < - int n \<or> int n \<le> i \<Longrightarrow> norm_index n i = Inl IndexError"
  by (auto simp: norm_index_def)

lemma norm_index_cases:
  "norm_index n i = Inl IndexError \<and> (i < - int n \<or> int n \<le> i) \<or> (\<exists>r<n. norm_index n i = Inr r)"
  by (auto simp: norm_index_def)

lemma is_square_nth: "is_square n A \<Longrightarrow> i < n \<Longrightarrow> length (A ! i) = n"
  by (auto simp: is_square_def list_all_length)

lemma is_square_update:
  "is_square n A \<Longrightarrow> is_square n (A[r := (A ! r)[c := v]])"
  by (auto simp: is_square_def list_all_length nth_list_update split: if_splits)
     (metis length_list_update nth_list_update_eq nth_list_update_neq)

lemma entry_update:
  assumes "is_square n A" "r < n" "c < n" "i < n" "j < n"
  shows "A[r := (A ! r)[c := v]] ! i ! j = (if i = r \<and> j = c then v else A ! i ! j)"
  using assms by (auto simp: is_square_def list_all_length nth_list_update)

lemma set_item_Inr:
  "set_item n A x y v = Inr A' \<Longrightarrow>
     \<exists>r c. norm_index n x = Inr r \<and> norm_index n y = Inr c \<and> r < n \<and> c < n \<and> A' = A[r := (A ! r)[c := v]]"
  by (auto simp: set_item_def split: sum.splits dest: norm_index_bound)

lemma set_item_Inl: "set_item n A x y v = Inl e \<Longrightarrow> e = IndexError"
  by (auto simp: set_item_def norm_index_def split: sum.splits if_splits)

lemma put_distances_Inl: "put_distances n A ds = Inl e \<Longrightarrow> e = IndexError"
proof (induction n A ds rule: put_distances.induct)
  case (1 n A)
  then show ?case by simp
next
  case (2 n A x y dis rest)
  show ?case
  proof (cases "set_item n A (py_int x) (py_int y) dis")
    case (Inl e1)
    with "2.prems" show ?thesis by (auto dest: set_item_Inl)
  next
    case (Inr A1)
    show ?thesis
    proof (cases "set_item n A1 (py_int y) (py_int x) dis")
      case (Inl e2)
      with Inr "2.prems" show ?thesis by (auto dest: set_item_Inl)
    next
      case r2: (Inr A2)
      with Inr "2.prems" have "put_distances n A2 rest = Inl e" by simp
      with "2.IH"[OF refl refl Inr r2] show ?thesis by simp
    qed
  qed
qed

lemma put_step_entry:
  assumes sq: "is_square n A" and r: "r < n" and c: "c < n" and i: "i < n" and j: "j < n"
  shows "(A[r := (A ! r)[c := v]])[c := ((A[r := (A ! r)[c := v]]) ! c)[r := v]] ! i ! j
         = (if (i = r \<and> j = c) \<or> (i = c \<and> j = r) then v else A ! i ! j)"
proof -
  let ?B = "A[r := (A ! r)[c := v]]"
  have sqB: "is_square n ?B" using sq by (rule is_square_update)
  define C where "C = ?B[c := (?B ! c)[r := v]]"
  define B where "B = ?B"
  have e1: "C ! i ! j = (if i = c \<and> j = r then v else B ! i ! j)"
    unfolding C_def B_def using entry_update[OF sqB c r i j] .
  have e2: "B ! i ! j = (if i = r \<and> j = c then v else A ! i ! j)"
    unfolding B_def using entry_update[OF sq r c i j] .
  have "C ! i ! j = (if (i = r \<and> j = c) \<or> (i = c \<and> j = r) then v else A ! i ! j)"
    by (simp only: e1 e2 split: if_split) blast
  then show ?thesis unfolding C_def .
qed

lemma put_distances_invariant:
  assumes "put_distances n A ds = Inr B" "is_square n A" "symmetric n A"
  shows "is_square n B \<and> symmetric n B"
  using assms
proof (induction n A ds arbitrary: B rule: put_distances.induct)
  case (1 n A)
  then show ?case by simp
next
  case (2 n A x y dis rest)
  from "2.prems"(1) obtain A1 A2 where
    s1: "set_item n A (py_int x) (py_int y) dis = Inr A1" and
    s2: "set_item n A1 (py_int y) (py_int x) dis = Inr A2" and
    rest: "put_distances n A2 rest = Inr B"
    by (auto simp: Let_def split: sum.splits)
  from s1 obtain r c where rc: "norm_index n (py_int x) = Inr r" "norm_index n (py_int y) = Inr c"
    "r < n" "c < n" and A1: "A1 = A[r := (A ! r)[c := dis]]"
    by (auto dest!: set_item_Inr)
  from s2 rc have A2: "A2 = A1[c := (A1 ! c)[r := dis]]"
    by (auto dest!: set_item_Inr)
  have sq2: "is_square n A2"
    unfolding A2 A1 using "2.prems"(2) by (intro is_square_update)
  have sym2: "symmetric n A2"
    unfolding symmetric_def
  proof (intro allI impI)
    fix i j assume ij: "i < n" "j < n"
    have e1: "A2 ! i ! j = (if (i = r \<and> j = c) \<or> (i = c \<and> j = r) then dis else A ! i ! j)"
      unfolding A2 A1 using put_step_entry[OF "2.prems"(2) rc(3,4) ij] .
    have e2: "A2 ! j ! i = (if (j = r \<and> i = c) \<or> (j = c \<and> i = r) then dis else A ! j ! i)"
      unfolding A2 A1 using put_step_entry[OF "2.prems"(2) rc(3,4) ij(2,1)] .
    from "2.prems"(3) ij have "A ! i ! j = A ! j ! i" by (simp add: symmetric_def)
    with e1 e2 show "A2 ! i ! j = A2 ! j ! i" by auto
  qed
  show ?case
    using "2.IH"[OF refl refl s1 s2 rest sq2 sym2] .
qed

lemma put_distances_unassigned:
  assumes "put_distances n A ds = Inr B" "is_square n A" "i < n" "j < n" "\<not> assigned n ds i j"
  shows "B ! i ! j = A ! i ! j"
  using assms
proof (induction n A ds arbitrary: B rule: put_distances.induct)
  case (1 n A)
  then show ?case by simp
next
  case (2 n A x y dis rest)
  from "2.prems"(1) obtain A1 A2 where
    s1: "set_item n A (py_int x) (py_int y) dis = Inr A1" and
    s2: "set_item n A1 (py_int y) (py_int x) dis = Inr A2" and
    rest: "put_distances n A2 rest = Inr B"
    by (auto simp: Let_def split: sum.splits)
  from s1 obtain r c where rc: "norm_index n (py_int x) = Inr r" "norm_index n (py_int y) = Inr c"
    "r < n" "c < n" and A1: "A1 = A[r := (A ! r)[c := dis]]"
    by (auto dest!: set_item_Inr)
  from s2 rc have A2: "A2 = A1[c := (A1 ! c)[r := dis]]"
    by (auto dest!: set_item_Inr)
  have sq2: "is_square n A2"
    unfolding A2 A1 using "2.prems"(2) by (intro is_square_update)
  from "2.prems"(5) have no: "\<not> ((i = r \<and> j = c) \<or> (i = c \<and> j = r))" and
    norest: "\<not> assigned n rest i j"
    using rc by (auto simp: assigned_def assigns_def)
  have "A2 ! i ! j = A ! i ! j"
    unfolding A2 A1 using put_step_entry[OF "2.prems"(2) rc(3,4) "2.prems"(3,4)] no by simp
  moreover have "B ! i ! j = A2 ! i ! j"
    using "2.IH"[OF refl refl s1 s2 rest sq2 "2.prems"(3,4) norest] .
  ultimately show ?case by simp
qed

lemma put_distances_total:
  assumes "list_all (\<lambda>(x, y, dis). in_range n x \<and> in_range n y) ds"
  shows "\<exists>B. put_distances n A ds = Inr B"
  using assms
proof (induction n A ds rule: put_distances.induct)
  case (1 n A)
  then show ?case by simp
next
  case (2 n A x y dis rest)
  from "2.prems" have x: "norm_index n (py_int x) = Inr (nat (py_int x))"
    and y: "norm_index n (py_int y) = Inr (nat (py_int y))"
    by (auto simp: in_range_def norm_index_in_range)
  define A1 where "A1 = A[nat (py_int x) := (A ! nat (py_int x))[nat (py_int y) := dis]]"
  define A2 where "A2 = A1[nat (py_int y) := (A1 ! nat (py_int y))[nat (py_int x) := dis]]"
  have s1: "set_item n A (py_int x) (py_int y) dis = Inr A1"
    by (simp add: set_item_def x y A1_def)
  have s2: "set_item n A1 (py_int y) (py_int x) dis = Inr A2"
    by (simp add: set_item_def x y A2_def)
  from "2.prems" have "list_all (\<lambda>(x, y, dis). in_range n x \<and> in_range n y) rest" by simp
  from "2.IH"[OF refl refl s1 s2 this] obtain B where "put_distances n A2 rest = Inr B" ..
  then show ?case by (simp add: s1 s2)
qed

lemma put_distances_bad_index:
  assumes "list_ex (\<lambda>(x, y, dis). norm_index n (py_int x) = Inl IndexError \<or> norm_index n (py_int y) = Inl IndexError) ds"
  shows "put_distances n A ds = Inl IndexError"
  using assms
proof (induction n A ds rule: put_distances.induct)
  case (1 n A)
  then show ?case by simp
next
  case (2 n A x y dis rest)
  show ?case
  proof (cases "put_distances n A ((x, y, dis) # rest)")
    case (Inl e)
    then show ?thesis using put_distances_Inl by blast
  next
    case (Inr B)
    then obtain A1 A2 where
      s1: "set_item n A (py_int x) (py_int y) dis = Inr A1" and
      s2: "set_item n A1 (py_int y) (py_int x) dis = Inr A2" and
      rest: "put_distances n A2 rest = Inr B"
      by (auto simp: Let_def split: sum.splits)
    from s1 have "\<not> (norm_index n (py_int x) = Inl IndexError \<or> norm_index n (py_int y) = Inl IndexError)"
      by (auto dest!: set_item_Inr)
    with "2.prems" have "list_ex (\<lambda>(x, y, dis). norm_index n (py_int x) = Inl IndexError \<or> norm_index n (py_int y) = Inl IndexError) rest"
      by simp
    from "2.IH"[OF refl refl s1 s2 this] rest show ?thesis by simp
  qed
qed

lemma np_zeros_square: "is_square n (np_zeros n n)"
  by (simp add: is_square_def np_zeros_def list_all_length)

lemma np_zeros_entry: "i < n \<Longrightarrow> j < n \<Longrightarrow> np_zeros n n ! i ! j = 0"
  by (simp add: np_zeros_def)

lemma np_zeros_symmetric: "symmetric n (np_zeros n n)"
  by (simp add: symmetric_def np_zeros_def)

lemma exp_below_half: 
  fixes x :: real
  assumes "x \<le> - 2" shows "exp x < 1 / 2"
proof -
  have "(3::real) \<le> exp 2" using exp_ge_add_one_self[of "2::real"] by simp
  then have "inverse (exp (2::real)) \<le> inverse 3" by (intro le_imp_inverse_le) simp_all
  then have "exp (- 2 :: real) \<le> 1 / 3" by (simp add: exp_minus inverse_eq_divide)
  moreover have "exp x \<le> exp (- 2)" using assms by simp
  ultimately show ?thesis by linarith
qed

lemma distance_matrix_square:
  assumes "distance_matrix cfg ds = Inr D"
  shows "is_square (num_of_vertices cfg) D \<and> symmetric (num_of_vertices cfg) D"
  using assms put_distances_invariant[OF _ np_zeros_square np_zeros_symmetric]
  by (simp add: distance_matrix_def)

lemma distance_matrix_cfg3:
  "distance_matrix cfg3 [(0, 1, 1), (0, 2, 2)] = Inr [[0, 1, 2], [1, 0, 0], [2, 0, 0]]"
  by (simp add: distance_matrix_def cfg3_def default_config_def np_zeros_def set_item_def
      norm_index_def py_int_def numeral_3_eq_3)

lemma distance_matrix_unassigned:
  assumes "distance_matrix cfg ds = Inr D" "i < num_of_vertices cfg" "j < num_of_vertices cfg"
    "\<not> assigned (num_of_vertices cfg) ds i j"
  shows "D ! i ! j = 0"
  using put_distances_unassigned[OF _ np_zeros_square assms(2,3,4)] assms(1) np_zeros_entry[OF assms(2,3)]
  by (simp add: distance_matrix_def)

lemma distance_matrix_cfg2:
  "distance_matrix cfg2 [(0, 1, 1)] = Inr [[0, 1], [1, 0]]"
  by (simp add: distance_matrix_def cfg2_def default_config_def np_zeros_def set_item_def
      norm_index_def py_int_def numeral_2_eq_2)

lemma set_channel_Inr:
  assumes "set_channel X i c values = Inr X'" "shape3 X = (V, F, T)"
  shows "i < V" "c < F" "shape3 X' = (V, F, T)"
    "items3 X' = (items3 X)[i := (items3 X ! i)[c := broadcast T values]]"
    "length (broadcast T values) = T"
  using assms by (auto simp: set_channel_def broadcast_def split: if_splits)

lemma wf3_update:
  assumes "wf3 X" "shape3 X = (V, F, T)" "shape3 X' = (V, F, T)" "length r = T"
    "items3 X' = (items3 X)[i := (items3 X ! i)[c := r]]"
  shows "wf3 X'"
proof -
  from assms(1,2) have len: "length (items3 X) = V"
    and rows: "\<And>n. n < V \<Longrightarrow> length (items3 X ! n) = F"
    and cells: "\<And>n m. n < V \<Longrightarrow> m < F \<Longrightarrow> length (items3 X ! n ! m) = T"
    by (auto simp: wf3_def list_all_length)
  have r1: "length (items3 X' ! n) = F" if "n < V" for n
    using that rows len by (cases "n = i") (simp_all add: assms(5))
  have r2: "length (items3 X' ! n ! m) = T" if "n < V" "m < F" for n m
  proof (cases "n = i")
    case True
    then show ?thesis
      using that rows cells len assms(4) by (cases "m = c") (simp_all add: assms(5))
  next
    case False
    then show ?thesis using that cells by (simp add: assms(5))
  qed
  show ?thesis
    unfolding wf3_def assms(3) using len r1 r2 by (simp add: list_all_length assms(5))
qed

lemma set_channel_wf:
  assumes "set_channel X i c values = Inr X'" "shape3 X = (V, F, T)" "wf3 X"
  shows "wf3 X'"
  using wf3_update[OF assms(3,2) set_channel_Inr(3,5,4)[OF assms(1,2)]] .

lemma set_channel_nth:
  assumes s: "set_channel X i c values = Inr X'" and sh: "shape3 X = (V, F, T)" and wf: "wf3 X"
  shows "items3 X' ! i ! c = broadcast T values"
    and "c' \<noteq> c \<Longrightarrow> items3 X' ! i ! c' = items3 X ! i ! c'"
    and "i' \<noteq> i \<Longrightarrow> items3 X' ! i' = items3 X ! i'"
proof -
  note f = set_channel_Inr[OF s sh]
  have len: "length (items3 X) = V" "length (items3 X ! i) = F"
    using wf sh f(1) by (auto simp: wf3_def list_all_length)
  show "items3 X' ! i ! c = broadcast T values"
    using f(1,2) len by (simp add: f(4))
  show "c' \<noteq> c \<Longrightarrow> items3 X' ! i ! c' = items3 X ! i ! c'"
    using f(1,2) len by (simp add: f(4))
  show "i' \<noteq> i \<Longrightarrow> items3 X' ! i' = items3 X ! i'"
    by (simp add: f(4))
qed

lemma row_holds_cong:
  "items3 X' ! i = items3 X ! i \<Longrightarrow> row_holds data T X' i = row_holds data T X i"
  by (simp add: row_holds_def split: sum.splits)

lemma fill_signals_result:
  assumes "fill_signals data is X = Inr X'" "wf3 X" "shape3 X = (V, F, T)"
  shows "shape3 X' = (V, F, T) \<and> wf3 X' \<and>
         (\<forall>i. i \<notin> set is \<longrightarrow> items3 X' ! i = items3 X ! i) \<and>
         (\<forall>i\<in>set is. i < V \<and> 2 < F \<and> row_holds data T X' i)"
  using assms
proof (induction "is" arbitrary: X)
  case Nil
  then show ?case by simp
next
  case (Cons i0 rest)
  from Cons.prems(1) obtain d flow occupy speed X0 X1 X2 where
    d: "dict_get data (py_str i0) = Inr d" and
    fl: "dict_get d ''flow'' = Inr flow" and
    oc: "dict_get d ''occupy'' = Inr occupy" and
    sp: "dict_get d ''speed'' = Inr speed" and
    s0: "set_channel X i0 0 flow = Inr X0" and
    s1: "set_channel X0 i0 1 occupy = Inr X1" and
    s2: "set_channel X1 i0 2 speed = Inr X2" and
    r: "fill_signals data rest X2 = Inr X'"
    by (auto split: sum.splits)
  note sh = Cons.prems(3) and wf = Cons.prems(2)
  note sh0 = set_channel_Inr(3)[OF s0 sh] and wf0 = set_channel_wf[OF s0 sh wf]
  note sh1 = set_channel_Inr(3)[OF s1 sh0] and wf1 = set_channel_wf[OF s1 sh0 wf0]
  note sh2 = set_channel_Inr(3)[OF s2 sh1] and wf2 = set_channel_wf[OF s2 sh1 wf1]
  from Cons.IH[OF r wf2 sh2] have
    ih: "shape3 X' = (V, F, T)" "wf3 X'"
      "\<forall>i. i \<notin> set rest \<longrightarrow> items3 X' ! i = items3 X2 ! i"
      "\<forall>i\<in>set rest. i < V \<and> 2 < F \<and> row_holds data T X' i"
    by simp_all
  have other: "items3 X2 ! i = items3 X ! i" if "i \<noteq> i0" for i
    using set_channel_nth(3)[OF s0 sh wf that] set_channel_nth(3)[OF s1 sh0 wf0 that]
      set_channel_nth(3)[OF s2 sh1 wf1 that] by simp
  have ne: "(0::nat) \<noteq> 1" "(0::nat) \<noteq> 2" "(1::nat) \<noteq> 2" by simp_all
  have c0: "items3 X2 ! i0 ! 0 = broadcast T flow"
    using set_channel_nth(1)[OF s0 sh wf] set_channel_nth(2)[OF s1 sh0 wf0 ne(1)]
      set_channel_nth(2)[OF s2 sh1 wf1 ne(2)] by (simp only:)
  have c1: "items3 X2 ! i0 ! 1 = broadcast T occupy"
    using set_channel_nth(1)[OF s1 sh0 wf0] set_channel_nth(2)[OF s2 sh1 wf1 ne(3)]
    by (simp only:)
  have c2: "items3 X2 ! i0 ! 2 = broadcast T speed"
    using set_channel_nth(1)[OF s2 sh1 wf1] .
  have h2: "row_holds data T X2 i0"
    using c0 c1 c2 by (simp add: row_holds_def d fl oc sp)
  have b: "i0 < V" "2 < F" using set_channel_Inr(1,2)[OF s2 sh1] by simp_all
  have 3: "\<forall>i. i \<notin> set (i0 # rest) \<longrightarrow> items3 X' ! i = items3 X ! i"
    using ih(3) other by simp
  have 4: "\<forall>i\<in>set (i0 # rest). i < V \<and> 2 < F \<and> row_holds data T X' i"
  proof
    fix i assume i: "i \<in> set (i0 # rest)"
    show "i < V \<and> 2 < F \<and> row_holds data T X' i"
    proof (cases "i \<in> set rest")
      case True
      with ih(4) show ?thesis by blast
    next
      case False
      with i have "i = i0" by simp
      moreover from False ih(3) have "items3 X' ! i = items3 X2 ! i" by blast
      ultimately show ?thesis using h2 b row_holds_cong[of X' i X2 data T] by simp
    qed
  qed
  from ih(1,2) 3 4 show ?case by blast
qed

lemma np_empty_wf: "wf3 (np_empty junk sh)" "shape3 (np_empty junk sh) = sh"
  by (cases sh; simp add: np_empty_def wf3_def list_all_length)+

lemma graph_signal_result:
  assumes "graph_signal cfg junk data = Inr X"
  shows "\<exists>F T. shape3 X = (num_of_vertices cfg, F, T) \<and> wf3 X \<and>
           (\<forall>i<num_of_vertices cfg. row_holds data T X i)"
proof -
  from assms obtain sh where sh: "signal_shape cfg data = Inr sh"
    and f: "fill_signals data [0..<num_of_vertices cfg] (np_empty junk sh) = Inr X"
    by (auto simp: graph_signal_def split: sum.splits)
  from sh obtain F T where s: "sh = (num_of_vertices cfg, F, T)"
    by (auto simp: signal_shape_def split: list.splits sum.splits)
  have w: "wf3 (np_empty junk sh)" and e: "shape3 (np_empty junk sh) = (num_of_vertices cfg, F, T)"
    using np_empty_wf[of junk sh] by (simp_all add: s)
  from fill_signals_result[OF f w e]
  show ?thesis by auto
qed

lemma graph_signal_data2: "graph_signal cfg2 junk data2 = Inr X_data2"
  by (simp add: graph_signal_def signal_shape_def data2_def X_data2_def dict_get_def cfg2_def
      default_config_def np_empty_def set_channel_def py_str.simps digit_char_def upt_rec)

lemma graph_signal_data3: "graph_signal cfg3 junk data3 = Inr X_data3"
  by (simp add: graph_signal_def signal_shape_def data3_def X_data3_def dict_get_def cfg3_def
      default_config_def np_empty_def set_channel_def py_str.simps digit_char_def upt_rec)

lemma distance_matrix_total:
  assumes "valid_distance cfg distance"
  shows "\<exists>D. distance_matrix cfg distance = Inr D"
  using put_distances_total[of "num_of_vertices cfg" distance] assms
  by (simp add: valid_distance_def distance_matrix_def)

lemma round_even_int: "round_even (of_int k) = k"
  by (simp add: round_even_def Let_def)

lemma pow2_powr: "pow2 k = 2 powr (of_int k)"
  by (simp add: pow2_def powr_int)

lemma round_double_eval:
  assumes x: "x \<noteq> 0"
    and lo: "pow2 e \<le> \<bar>x\<bar>" and hi: "\<bar>x\<bar> < pow2 (e + 1)"
    and e: "- 1022 \<le> e"
    and n: "round_even (x / pow2 (e - 52)) = n"
    and y: "\<bar>of_int n * pow2 (e - 52)\<bar> < 2 ^ 1024"
  shows "round_double x = Fin (of_int n * pow2 (e - 52))"
proof -
  have "\<lfloor>log 2 \<bar>x\<bar>\<rfloor> = e"
    using x lo hi by (subst floor_log_eq_powr_iff) (simp_all add: pow2_powr)
  then have m: "max \<lfloor>log 2 \<bar>x\<bar>\<rfloor> (- 1022) = e" using e by simp
  have "\<not> 2 ^ 1024 \<le> \<bar>of_int n * pow2 (e - 52)\<bar>" using y by simp
  then show ?thesis
    using x n unfolding round_double_def m Let_def by (simp only: if_False)
qed

lemma round_double_not_NaN: "round_double x \<noteq> NaN"
  by (simp add: round_double_def Let_def)

lemma round_double_1: "round_double 1 = Fin 1"
proof -
  have "round_double 1 = Fin (of_int (2 ^ 52) * pow2 (0 - 52))"
  proof (rule round_double_eval)
    show "round_even (1 / pow2 (0 - 52)) = 2 ^ 52"
      using round_even_int[of "2 ^ 52"] by (simp add: pow2_def)
  qed (simp_all add: pow2_def)
  then show ?thesis by (simp add: pow2_def)
qed

lemma round_double_4: "round_double 4 = Fin 4"
proof -
  have "round_double 4 = Fin (of_int (2 ^ 52) * pow2 (2 - 52))"
  proof (rule round_double_eval)
    show "round_even (4 / pow2 (2 - 52)) = 2 ^ 52"
      using round_even_int[of "2 ^ 52"] by (simp add: pow2_def)
  qed (simp_all add: pow2_def)
  then show ?thesis by (simp add: pow2_def)
qed

lemma round_double_m4: "round_double (- 4) = Fin (- 4)"
proof -
  have "round_double (- 4) = Fin (of_int (- (2 ^ 52)) * pow2 (2 - 52))"
  proof (rule round_double_eval)
    show "round_even (- 4 / pow2 (2 - 52)) = - (2 ^ 52)"
      using round_even_int[of "- (2 ^ 52)"] by (simp add: pow2_def)
  qed (simp_all add: pow2_def)
  then show ?thesis by (simp add: pow2_def)
qed

lemma round_double_m16: "round_double (- 16) = Fin (- 16)"
proof -
  have "round_double (- 16) = Fin (of_int (- (2 ^ 52)) * pow2 (4 - 52))"
  proof (rule round_double_eval)
    show "round_even (- 16 / pow2 (4 - 52)) = - (2 ^ 52)"
      using round_even_int[of "- (2 ^ 52)"] by (simp add: pow2_def)
  qed (simp_all add: pow2_def)
  then show ?thesis by (simp add: pow2_def)
qed

lemma double_neg_not_NaN: "a \<noteq> NaN \<Longrightarrow> double_neg a \<noteq> NaN"
  by (cases a) simp_all

lemma double_div_not_NaN:
  assumes "a \<noteq> NaN" "v \<noteq> 0"
  shows "double_div a (Fin v) \<noteq> NaN"
  using assms by (cases a) (simp_all add: round_double_not_NaN signed_inf_def)

lemma np_exp_not_NaN:
  assumes "a \<noteq> NaN" "\<forall>x. exp_finite np x \<noteq> NaN"
  shows "np_exp np a \<noteq> NaN"
  using assms by (cases a) simp_all

lemma drop_below_not_NaN: "a \<noteq> NaN \<Longrightarrow> drop_below eps a \<noteq> NaN"
  by (simp add: drop_below_def)

lemma kernel_not_NaN:
  assumes "v \<noteq> 0" "\<forall>x. exp_finite np x \<noteq> NaN"
  shows "drop_below eps (gaussian_kernel np (Fin v) a) \<noteq> NaN"
  unfolding gaussian_kernel_def
  by (intro drop_below_not_NaN np_exp_not_NaN[OF _ assms(2)] double_div_not_NaN[OF _ assms(1)]
      double_neg_not_NaN) (simp add: round_double_not_NaN)

lemma double_div_zero:
  "double_div (Fin 0) var = (if var = NaN \<or> var = Fin 0 then NaN else Fin 0)"
  by (cases var) (simp_all add: round_double_def)

lemma kernel_zero:
  "gaussian_kernel np var 0 = (if var = NaN \<or> var = Fin 0 then NaN else Fin 1)"
  by (simp add: gaussian_kernel_def double_div_zero round_double_def)

lemma drop_below_one: "drop_below eps (Fin 1) = (if 1 < eps then Fin 0 else Fin 1)"
  by (simp add: drop_below_def)

lemma drop_below_NaN: "drop_below eps NaN = NaN"
  by (simp add: drop_below_def)

lemma kernel_NaN_var: "gaussian_kernel np NaN a = NaN"
  by (cases "double_neg (double_mult (Fin a) (Fin a))") (simp_all add: gaussian_kernel_def)

lemma np_eq_refl: "a \<noteq> NaN \<Longrightarrow> np_eq a a"
  by (cases a) simp_all

lemma adjacency_Inr:
  assumes "distance_matrix cfg ds = Inr D"
  shows "adjacency np cfg ds =
    Inr (map (map (\<lambda>a. drop_below (epsilon cfg) (gaussian_kernel np (np_var np (nonzero_entries D)) a))) D)"
  using assms by (simp add: adjacency_def)

lemma adjacency_nth:
  assumes "distance_matrix cfg ds = Inr D" "i < num_of_vertices cfg" "j < num_of_vertices cfg"
  shows "\<exists>A. adjacency np cfg ds = Inr A \<and>
           A ! i ! j = drop_below (epsilon cfg) (gaussian_kernel np (np_var np (nonzero_entries D)) (D ! i ! j))"
proof -
  from distance_matrix_square[OF assms(1)] have "is_square (num_of_vertices cfg) D" by simp
  then show ?thesis
    using assms(2,3) by (simp add: adjacency_Inr[OF assms(1)] is_square_def list_all_length)
qed

lemma data_preprocess_Inr_iff:
  "data_preprocess np cfg junk distance data = Inr (A, X) \<longleftrightarrow>
     adjacency np cfg distance = Inr A \<and> graph_signal cfg junk data = Inr X"
  by (auto simp: data_preprocess_def split: sum.splits)

lemma exact_var_1122: "np_var exact_numpy (nonzero_entries [[0, 1, 2], [1, 0, 0], [2, 0, 0]]) = Fin (1 / 4)"
  by (simp add: nonzero_entries_def np_var_def exact_numpy_def np_mean_def)

lemma exact_var_11: "np_var exact_numpy (nonzero_entries [[0, 1], [1, 0]]) = Fin 0"
  by (simp add: nonzero_entries_def np_var_def exact_numpy_def np_mean_def)

lemma adjacency_cfg3:
  "adjacency exact_numpy cfg3 [(0, 1, 1), (0, 2, 2)] =
     Inr [[Fin 1, Fin 0, Fin 0], [Fin 0, Fin 1, Fin 1], [Fin 0, Fin 1, Fin 1]]"
proof -
  have eps: "epsilon cfg3 = 1 / 2" by (simp add: cfg3_def default_config_def)
  have k0: "drop_below (1 / 2) (gaussian_kernel exact_numpy (Fin (1 / 4)) 0) = Fin 1"
    by (simp add: kernel_zero drop_below_def)
  have k1: "drop_below (1 / 2) (gaussian_kernel exact_numpy (Fin (1 / 4)) 1) = Fin 0"
    using exp_below_half[of "- 4"]
    by (simp add: gaussian_kernel_def round_double_1 round_double_m4 exact_numpy_def drop_below_def)
  have k2: "drop_below (1 / 2) (gaussian_kernel exact_numpy (Fin (1 / 4)) 2) = Fin 0"
    using exp_below_half[of "- 16"]
    by (simp add: gaussian_kernel_def round_double_4 round_double_m16 exact_numpy_def drop_below_def)
  show ?thesis
    by (simp add: adjacency_Inr[OF distance_matrix_cfg3] exact_var_1122 eps k0 k1 k2)
qed

lemma adjacency_cfg2_uniform:
  "adjacency exact_numpy cfg2 [(0, 1, 1)] = Inr [[NaN, Fin 0], [Fin 0, NaN]]"
proof -
  have eps: "epsilon cfg2 = 1 / 2" by (simp add: cfg2_def default_config_def)
  have k0: "drop_below (1 / 2) (gaussian_kernel exact_numpy (Fin 0) 0) = NaN"
    by (simp add: kernel_zero drop_below_def)
  have k1: "drop_below (1 / 2) (gaussian_kernel exact_numpy (Fin 0) 1) = Fin 0"
    by (simp add: gaussian_kernel_def round_double_1 signed_inf_def drop_below_def)
  show ?thesis
    by (simp add: adjacency_Inr[OF distance_matrix_cfg2] exact_var_11 eps k0 k1)
qed

text \<open>
  Claim C1, as the code has it. For a distance table whose vertex indices are all in
  range (and a signal file that loads), \<^verbatim>\<open>data_preprocess\<close> returns a square matrix
  that holds the same value at mirrored positions, whatever \<^verbatim>\<open>np.var\<close> and
  \<^verbatim>\<open>np.exp\<close> compute. When the variance \<^verbatim>\<open>np.var\<close> returns is a finite nonzero
  double (and \<^verbatim>\<open>np.exp\<close> returns NaN at no finite argument) no entry is NaN and the
  matrix is symmetric under \<^verbatim>\<open>==\<close>. Its diagonal is not zero: when that variance is
  neither NaN nor zero, a vertex with no nonzero distance to itself gets \<open>exp 0 = 1\<close>,
  which survives the threshold unless \<open>epsilon\<close> is above 1.
\<close>

theorem data_preprocess_symmetric_unit_diagonal:
  assumes valid: "valid_distance cfg distance"
    and X: "graph_signal cfg junk data = Inr X"
  shows "\<exists>D A. distance_matrix cfg distance = Inr D \<and>
           data_preprocess np cfg junk distance data = Inr (A, X) \<and>
           is_square (num_of_vertices cfg) A \<and>
           (\<forall>i<num_of_vertices cfg. \<forall>j<num_of_vertices cfg. A ! i ! j = A ! j ! i) \<and>
           ((\<exists>v. np_var np (nonzero_entries D) = Fin v \<and> v \<noteq> 0) \<and> (\<forall>x. exp_finite np x \<noteq> NaN) \<longrightarrow>
              (\<forall>i<num_of_vertices cfg. \<forall>j<num_of_vertices cfg. np_eq (A ! i ! j) (A ! j ! i))) \<and>
           (np_var np (nonzero_entries D) \<noteq> NaN \<and> np_var np (nonzero_entries D) \<noteq> Fin 0 \<longrightarrow>
              (\<forall>i<num_of_vertices cfg. D ! i ! i = 0 \<longrightarrow>
                 A ! i ! i = (if 1 < epsilon cfg then Fin 0 else Fin 1)))"
proof -
  let ?n = "num_of_vertices cfg"
  from distance_matrix_total[OF valid] obtain D where D: "distance_matrix cfg distance = Inr D" ..
  define var where "var = np_var np (nonzero_entries D)"
  define k where "k = (\<lambda>a. drop_below (epsilon cfg) (gaussian_kernel np var a))"
  define A where "A = map (map k) D"
  have adj: "adjacency np cfg distance = Inr A"
    by (simp add: adjacency_Inr[OF D] A_def k_def var_def)
  then have dp: "data_preprocess np cfg junk distance data = Inr (A, X)"
    using X by (simp add: data_preprocess_Inr_iff)
  from distance_matrix_square[OF D] have sq: "is_square ?n D" and sym: "symmetric ?n D" by simp_all
  have sqA: "is_square ?n A"
    using sq by (simp add: A_def is_square_def list_all_length)
  have entry: "A ! i ! j = k (D ! i ! j)" if "i < ?n" "j < ?n" for i j
    using that sq by (simp add: A_def is_square_def list_all_length)
  have mirror: "A ! i ! j = A ! j ! i" if ij: "i < ?n" "j < ?n" for i j
  proof -
    from sym ij have "D ! i ! j = D ! j ! i" by (simp add: symmetric_def)
    then show ?thesis using entry ij by simp
  qed
  have eq: "\<forall>i<?n. \<forall>j<?n. np_eq (A ! i ! j) (A ! j ! i)"
    if "(\<exists>v. var = Fin v \<and> v \<noteq> 0) \<and> (\<forall>x. exp_finite np x \<noteq> NaN)"
  proof (intro allI impI)
    fix i j assume ij: "i < ?n" "j < ?n"
    from that obtain v where v: "var = Fin v" "v \<noteq> 0" and e: "\<forall>x. exp_finite np x \<noteq> NaN"
      by blast
    have "A ! i ! j \<noteq> NaN"
      unfolding entry[OF ij] k_def v(1) using kernel_not_NaN[OF v(2) e] .
    then have "np_eq (A ! i ! j) (A ! i ! j)" by (rule np_eq_refl)
    with mirror[OF ij] show "np_eq (A ! i ! j) (A ! j ! i)" by simp
  qed
  have diag: "\<forall>i<?n. D ! i ! i = 0 \<longrightarrow> A ! i ! i = (if 1 < epsilon cfg then Fin 0 else Fin 1)"
    if "var \<noteq> NaN \<and> var \<noteq> Fin 0"
  proof (intro allI impI)
    fix i assume i: "i < ?n" and z: "D ! i ! i = 0"
    have "A ! i ! i = drop_below (epsilon cfg) (Fin 1)"
      unfolding entry[OF i i] k_def z using that by (simp add: kernel_zero)
    then show "A ! i ! i = (if 1 < epsilon cfg then Fin 0 else Fin 1)"
      by (simp add: drop_below_one)
  qed
  have m: "\<forall>i<?n. \<forall>j<?n. A ! i ! j = A ! j ! i" using mirror by blast
  have e: "(\<exists>v. var = Fin v \<and> v \<noteq> 0) \<and> (\<forall>x. exp_finite np x \<noteq> NaN) \<longrightarrow>
      (\<forall>i<?n. \<forall>j<?n. np_eq (A ! i ! j) (A ! j ! i))" using eq by (rule impI)
  have d: "var \<noteq> NaN \<and> var \<noteq> Fin 0 \<longrightarrow>
      (\<forall>i<?n. D ! i ! i = 0 \<longrightarrow> A ! i ! i = (if 1 < epsilon cfg then Fin 0 else Fin 1))"
    using diag by (rule impI)
  show ?thesis
    apply (rule exI[of _ D], rule exI[of _ A])
    using D dp sqA m e d unfolding var_def by (intro conjI)

qed

text \<open>
  Claim C1 as stated fails: with three vertices, the rows \<open>(0, 1, 1.0)\<close> and
  \<open>(0, 2, 2.0)\<close> and the script's \<open>epsilon = 0.5\<close>, the variance of the nonzero
  entries \<open>1, 2, 1, 2\<close> is \<open>0.25\<close> (their mean \<open>1.5\<close> and the squared deviations
  \<open>0.25\<close> are doubles, so nothing is rounded), the off-diagonal entries are
  \<open>exp (-4)\<close> and \<open>exp (-16)\<close>, both below the threshold, and the returned matrix has 1
  on its whole diagonal.
\<close>

theorem data_preprocess_diagonal_counterexample:
  "data_preprocess exact_numpy cfg3 zero_junk [(0, 1, 1), (0, 2, 2)] data3 =
     Inr ([[Fin 1, Fin 0, Fin 0], [Fin 0, Fin 1, Fin 1], [Fin 0, Fin 1, Fin 1]], X_data3) \<and>
   [[Fin 1, Fin 0, Fin 0], [Fin 0, Fin 1, Fin 1], [Fin 0, Fin 1, Fin 1]] ! 0 ! 0 = Fin 1 \<and>
   \<not> np_eq (Fin 1) (Fin 0)"
  by (simp add: data_preprocess_Inr_iff adjacency_cfg3 graph_signal_data3)

text \<open>The hypotheses of C1's theorem hold at that same input.\<close>

theorem data_preprocess_symmetric_unit_diagonal_witness:
  "valid_distance cfg3 [(0, 1, 1), (0, 2, 2)] \<and>
   graph_signal cfg3 zero_junk data3 = Inr X_data3 \<and>
   distance_matrix cfg3 [(0, 1, 1), (0, 2, 2)] = Inr [[0, 1, 2], [1, 0, 0], [2, 0, 0]] \<and>
   np_var exact_numpy (nonzero_entries [[0, 1, 2], [1, 0, 0], [2, 0, 0]]) = Fin (1 / 4) \<and>
   (\<exists>A. data_preprocess exact_numpy cfg3 zero_junk [(0, 1, 1), (0, 2, 2)] data3 = Inr (A, X_data3) \<and>
        is_square 3 A \<and> A ! 1 ! 2 = A ! 2 ! 1 \<and> np_eq (A ! 1 ! 2) (A ! 2 ! 1) \<and> A ! 0 ! 0 = Fin 1)"
proof -
  let ?D = "[[0, 1, 2], [1, 0, 0], [2, 0, 0::real]]"
  have valid: "valid_distance cfg3 [(0, 1, 1), (0, 2, 2)]"
    by (simp add: valid_distance_def in_range_def py_int_def cfg3_def default_config_def)
  have n: "num_of_vertices cfg3 = 3" and eps: "\<not> 1 < epsilon cfg3"
    by (simp_all add: cfg3_def default_config_def)
  have ex: "\<forall>x. exp_finite exact_numpy x \<noteq> NaN" by (simp add: exact_numpy_def)
  from data_preprocess_symmetric_unit_diagonal[OF valid graph_signal_data3[of zero_junk], of exact_numpy]
  obtain D A where H: "distance_matrix cfg3 [(0, 1, 1), (0, 2, 2)] = Inr D \<and>
      data_preprocess exact_numpy cfg3 zero_junk [(0, 1, 1), (0, 2, 2)] data3 = Inr (A, X_data3) \<and>
      is_square (num_of_vertices cfg3) A \<and>
      (\<forall>i<num_of_vertices cfg3. \<forall>j<num_of_vertices cfg3. A ! i ! j = A ! j ! i) \<and>
      ((\<exists>v. np_var exact_numpy (nonzero_entries D) = Fin v \<and> v \<noteq> 0) \<and>
          (\<forall>x. exp_finite exact_numpy x \<noteq> NaN) \<longrightarrow>
        (\<forall>i<num_of_vertices cfg3. \<forall>j<num_of_vertices cfg3. np_eq (A ! i ! j) (A ! j ! i))) \<and>
      (np_var exact_numpy (nonzero_entries D) \<noteq> NaN \<and> np_var exact_numpy (nonzero_entries D) \<noteq> Fin 0 \<longrightarrow>
        (\<forall>i<num_of_vertices cfg3. D ! i ! i = 0 \<longrightarrow>
           A ! i ! i = (if 1 < epsilon cfg3 then Fin 0 else Fin 1)))"
    by (elim exE)
  note D = H[THEN conjunct1]
  note A = H[THEN conjunct2, THEN conjunct1] H[THEN conjunct2, THEN conjunct2, THEN conjunct1]
    H[THEN conjunct2, THEN conjunct2, THEN conjunct2, THEN conjunct1]
  note P0 = H[THEN conjunct2, THEN conjunct2, THEN conjunct2, THEN conjunct2, THEN conjunct1]
  note Q0 = H[THEN conjunct2, THEN conjunct2, THEN conjunct2, THEN conjunct2, THEN conjunct2]
  note A = A[unfolded n]
  from P0 have P: "(\<exists>v. np_var exact_numpy (nonzero_entries D) = Fin v \<and> v \<noteq> 0) \<and>
          (\<forall>x. exp_finite exact_numpy x \<noteq> NaN) \<longrightarrow>
        (\<forall>i<3. \<forall>j<3. np_eq (A ! i ! j) (A ! j ! i))" unfolding n .
  from Q0 eps have Q: "np_var exact_numpy (nonzero_entries D) \<noteq> NaN \<and> np_var exact_numpy (nonzero_entries D) \<noteq> Fin 0 \<longrightarrow>
        (\<forall>i<3. D ! i ! i = 0 \<longrightarrow> A ! i ! i = Fin 1)" unfolding n by simp
  from D distance_matrix_cfg3 have DD: "D = ?D" by simp
  have v: "\<exists>v. np_var exact_numpy (nonzero_entries ?D) = Fin v \<and> v \<noteq> 0"
    by (rule exI[of _ "1 / 4"]) (simp add: exact_var_1122)
  from P[unfolded DD] v ex have P': "\<forall>i<3. \<forall>j<3. np_eq (A ! i ! j) (A ! j ! i)" by (rule_tac mp) (assumption, rule conjI)
  have nn: "np_var exact_numpy (nonzero_entries ?D) \<noteq> NaN \<and> np_var exact_numpy (nonzero_entries ?D) \<noteq> Fin 0"
    by (simp add: exact_var_1122)
  from Q[unfolded DD, rule_format, OF nn, of 0] have a00: "A ! 0 ! 0 = Fin 1" by simp
  from A(3)[rule_format, of 1 2] have a12: "A ! 1 ! 2 = A ! 2 ! 1" by simp
  from P'[rule_format, of 1 2] have e12: "np_eq (A ! 1 ! 2) (A ! 2 ! 1)" by simp
  have "is_square 3 A \<and> A ! 1 ! 2 = A ! 2 ! 1 \<and> np_eq (A ! 1 ! 2) (A ! 2 ! 1) \<and> A ! 0 ! 0 = Fin 1"
    using A(2) a12 e12 a00 by (intro conjI)
  with A(1) have "\<exists>A. data_preprocess exact_numpy cfg3 zero_junk [(0, 1, 1), (0, 2, 2)] data3 = Inr (A, X_data3) \<and>
        is_square 3 A \<and> A ! 1 ! 2 = A ! 2 ! 1 \<and> np_eq (A ! 1 ! 2) (A ! 2 ! 1) \<and> A ! 0 ! 0 = Fin 1"
    by (intro exI[of _ A] conjI) (elim conjE, assumption)+
  with valid graph_signal_data3[of zero_junk] distance_matrix_cfg3 exact_var_1122 show ?thesis
    by (intro conjI)
qed

text \<open>
  Claim C10, as the code has it. A pair \<open>(i, j)\<close> that no row of the table writes
  keeps the initial 0 in the distance matrix. With \<open>epsilon \<le> 1\<close> its entry in the
  returned matrix is 1 whenever the variance \<^verbatim>\<open>np.var\<close> returns for the nonzero
  entries is neither NaN nor zero.
\<close>

theorem data_preprocess_unassigned_pair:
  assumes dp: "data_preprocess np cfg junk distance data = Inr (A, X)"
    and eps: "epsilon cfg \<le> 1"
    and ij: "i < num_of_vertices cfg" "j < num_of_vertices cfg"
    and un: "\<not> assigned (num_of_vertices cfg) distance i j"
  shows "\<exists>D. distance_matrix cfg distance = Inr D \<and> D ! i ! j = 0 \<and>
           (np_var np (nonzero_entries D) \<noteq> NaN \<and> np_var np (nonzero_entries D) \<noteq> Fin 0 \<longrightarrow>
              A ! i ! j = Fin 1 \<and> np_eq (A ! i ! j) (Fin 1))"
proof -
  from dp have adj: "adjacency np cfg distance = Inr A" by (simp add: data_preprocess_Inr_iff)
  then obtain D where D: "distance_matrix cfg distance = Inr D"
    by (auto simp: adjacency_def split: sum.splits)
  from adjacency_nth[OF D ij, of np] adj have
    A: "A ! i ! j = drop_below (epsilon cfg) (gaussian_kernel np (np_var np (nonzero_entries D)) (D ! i ! j))"
    by simp
  have z: "D ! i ! j = 0" using distance_matrix_unassigned[OF D ij un] .
  have "A ! i ! j = Fin 1 \<and> np_eq (A ! i ! j) (Fin 1)"
    if "np_var np (nonzero_entries D) \<noteq> NaN \<and> np_var np (nonzero_entries D) \<noteq> Fin 0"
    using A eps that by (simp add: z kernel_zero drop_below_one)
  with D z show ?thesis by blast
qed

text \<open>
  Claim C10 as stated fails when the variance is zero: with two vertices and the one
  row \<open>(0, 1, 1.0)\<close>, the nonzero entries are \<open>1, 1\<close>, their variance is 0, the
  untouched diagonal becomes \<open>-0/0\<close>, that is NaN, and NaN is not equal to 1.
\<close>

theorem data_preprocess_unassigned_pair_counterexample:
  "epsilon cfg2 \<le> 1 \<and> \<not> assigned (num_of_vertices cfg2) [(0, 1, 1)] 0 0 \<and>
   data_preprocess exact_numpy cfg2 zero_junk [(0, 1, 1)] data2 =
     Inr ([[NaN, Fin 0], [Fin 0, NaN]], X_data2) \<and>
   [[NaN, Fin 0], [Fin 0, NaN]] ! 0 ! 0 = NaN \<and> \<not> np_eq NaN (Fin 1)"
proof -
  have "epsilon cfg2 \<le> 1" by (simp add: cfg2_def default_config_def)
  moreover have "\<not> assigned (num_of_vertices cfg2) [(0, 1, 1)] 0 0"
    by (simp add: assigned_def assigns_def norm_index_def py_int_def cfg2_def default_config_def)
  ultimately show ?thesis
    by (simp add: data_preprocess_Inr_iff adjacency_cfg2_uniform graph_signal_data2)
qed

text \<open>The hypotheses of C10's theorem hold for the pair \<open>(1, 2)\<close> of the three-vertex table.\<close>

theorem data_preprocess_unassigned_pair_witness:
  "data_preprocess exact_numpy cfg3 zero_junk [(0, 1, 1), (0, 2, 2)] data3 =
     Inr ([[Fin 1, Fin 0, Fin 0], [Fin 0, Fin 1, Fin 1], [Fin 0, Fin 1, Fin 1]], X_data3) \<and>
   epsilon cfg3 \<le> 1 \<and> 1 < num_of_vertices cfg3 \<and> 2 < num_of_vertices cfg3 \<and>
   \<not> assigned (num_of_vertices cfg3) [(0, 1, 1), (0, 2, 2)] 1 2 \<and>
   distance_matrix cfg3 [(0, 1, 1), (0, 2, 2)] = Inr [[0, 1, 2], [1, 0, 0], [2, 0, 0]] \<and>
   np_var exact_numpy (nonzero_entries [[0, 1, 2], [1, 0, 0], [2, 0, 0]]) = Fin (1 / 4) \<and>
   [[Fin 1, Fin 0, Fin 0], [Fin 0, Fin 1, Fin 1], [Fin 0, Fin 1, Fin 1]] ! 1 ! 2 = Fin 1 \<and>
   np_eq ([[Fin 1, Fin 0, Fin 0], [Fin 0, Fin 1, Fin 1], [Fin 0, Fin 1, Fin 1]] ! 1 ! 2) (Fin 1)"
proof -
  have dp: "data_preprocess exact_numpy cfg3 zero_junk [(0, 1, 1), (0, 2, 2)] data3 =
     Inr ([[Fin 1, Fin 0, Fin 0], [Fin 0, Fin 1, Fin 1], [Fin 0, Fin 1, Fin 1]], X_data3)"
    by (simp add: data_preprocess_Inr_iff adjacency_cfg3 graph_signal_data3)
  have eps: "epsilon cfg3 \<le> 1" and n: "1 < num_of_vertices cfg3" "2 < num_of_vertices cfg3"
    by (simp_all add: cfg3_def default_config_def)
  have un: "\<not> assigned (num_of_vertices cfg3) [(0, 1, 1), (0, 2, 2)] 1 2"
    by (simp add: assigned_def assigns_def norm_index_def py_int_def cfg3_def default_config_def)
  from data_preprocess_unassigned_pair[OF dp eps n un] obtain D where
    D: "distance_matrix cfg3 [(0, 1, 1), (0, 2, 2)] = Inr D" and
    P: "np_var exact_numpy (nonzero_entries D) \<noteq> NaN \<and> np_var exact_numpy (nonzero_entries D) \<noteq> Fin 0 \<longrightarrow>
        [[Fin 1, Fin 0, Fin 0], [Fin 0, Fin 1, Fin 1], [Fin 0, Fin 1, Fin 1]] ! 1 ! 2 = Fin 1 \<and>
        np_eq ([[Fin 1, Fin 0, Fin 0], [Fin 0, Fin 1, Fin 1], [Fin 0, Fin 1, Fin 1]] ! 1 ! 2) (Fin 1)"
    by blast
  from D distance_matrix_cfg3 have DD: "D = [[0, 1, 2], [1, 0, 0], [2, 0, 0]]" by simp
  from P have "[[Fin 1, Fin 0, Fin 0], [Fin 0, Fin 1, Fin 1], [Fin 0, Fin 1, Fin 1]] ! 1 ! 2 = Fin 1 \<and>
        np_eq ([[Fin 1, Fin 0, Fin 0], [Fin 0, Fin 1, Fin 1], [Fin 0, Fin 1, Fin 1]] ! 1 ! 2) (Fin 1)"
    unfolding DD exact_var_1122 by simp
  with dp eps n un distance_matrix_cfg3 exact_var_1122 show ?thesis by blast
qed

text \<open>
  Claim C9, as the code has it. The script defines no \<^verbatim>\<open>InvalidGraphError\<close>. A row
  with a vertex index outside \<open>[-n, n)\<close> makes the loop raise numpy's IndexError, and no
  matrix is returned. A table that leaves every entry of the distance matrix zero raises
  nothing: the variance of the empty selection is NaN and the function returns the
  \<open>n \<times> n\<close> matrix of NaN.
\<close>

theorem data_preprocess_failures:
  "(list_ex (\<lambda>(x, y, dis). out_of_range (num_of_vertices cfg) x \<or> out_of_range (num_of_vertices cfg) y) distance
      \<longrightarrow> data_preprocess np cfg junk distance data = Inl IndexError) \<and>
   (distance_matrix cfg distance = Inr D \<and> nonzero_entries D = [] \<and>
    graph_signal cfg junk data = Inr X
      \<longrightarrow> data_preprocess np cfg junk distance data =
            Inr (replicate (num_of_vertices cfg) (replicate (num_of_vertices cfg) NaN), X))"
proof (intro conjI impI)
  assume "list_ex (\<lambda>(x, y, dis). out_of_range (num_of_vertices cfg) x \<or> out_of_range (num_of_vertices cfg) y) distance"
  then have "list_ex (\<lambda>(x, y, dis). norm_index (num_of_vertices cfg) (py_int x) = Inl IndexError \<or>
                norm_index (num_of_vertices cfg) (py_int y) = Inl IndexError) distance"
    by (auto simp: list_ex_iff out_of_range_def intro!: norm_index_error bexI)
  from put_distances_bad_index[OF this]
  show "data_preprocess np cfg junk distance data = Inl IndexError"
    by (simp add: data_preprocess_def adjacency_def distance_matrix_def)
next
  assume a: "distance_matrix cfg distance = Inr D \<and> nonzero_entries D = [] \<and>
    graph_signal cfg junk data = Inr X"
  let ?n = "num_of_vertices cfg"
  from a distance_matrix_square[of cfg distance D] have sq: "is_square ?n D" by simp
  have k: "drop_below (epsilon cfg) (gaussian_kernel np NaN x) = NaN" for x
    by (simp add: kernel_NaN_var drop_below_NaN)
  have "map (map (\<lambda>a. drop_below (epsilon cfg) (gaussian_kernel np NaN a))) D = replicate ?n (replicate ?n NaN)"
    using sq by (auto simp: k is_square_def list_all_length intro!: nth_equalityI)
  with a show "data_preprocess np cfg junk distance data = Inr (replicate ?n (replicate ?n NaN), X)"
    by (simp add: data_preprocess_def adjacency_def np_var_def)
qed

text \<open>
  Claim C9 as stated fails: for two vertices and the row \<open>(0, 1, 0.0)\<close> every entry of
  the distance matrix is zero, and a matrix is returned all the same.
\<close>

theorem data_preprocess_degenerate_counterexample:
  "distance_matrix cfg2 [(0, 1, 0)] = Inr [[0, 0], [0, 0]] \<and>
   data_preprocess exact_numpy cfg2 zero_junk [(0, 1, 0)] data2 =
     Inr ([[NaN, NaN], [NaN, NaN]], X_data2)"
proof -
  have d: "distance_matrix cfg2 [(0, 1, 0)] = Inr [[0, 0], [0, 0]]"
    by (simp add: distance_matrix_def cfg2_def default_config_def np_zeros_def set_item_def
        norm_index_def py_int_def numeral_2_eq_2)
  have "adjacency exact_numpy cfg2 [(0, 1, 0)] = Inr [[NaN, NaN], [NaN, NaN]]"
    by (simp add: adjacency_Inr[OF d] nonzero_entries_def np_var_def kernel_NaN_var drop_below_NaN)
  with d show ?thesis by (simp add: data_preprocess_Inr_iff graph_signal_data2)
qed

text \<open>
  Both hypotheses of C9's theorem are met: a row naming vertex 2 of a two-vertex graph,
  and the empty table.
\<close>

theorem data_preprocess_failures_witness:
  "list_ex (\<lambda>(x, y, dis). out_of_range (num_of_vertices cfg2) x \<or> out_of_range (num_of_vertices cfg2) y) [(0, 1, 1), (0, 2, 3)] \<and>
   data_preprocess exact_numpy cfg2 zero_junk [(0, 1, 1), (0, 2, 3)] data2 = Inl IndexError \<and>
   distance_matrix cfg2 [] = Inr [[0, 0], [0, 0]] \<and> nonzero_entries [[0, 0], [0, 0::real]] = [] \<and>
   graph_signal cfg2 zero_junk data2 = Inr X_data2 \<and>
   data_preprocess exact_numpy cfg2 zero_junk [] data2 = Inr ([[NaN, NaN], [NaN, NaN]], X_data2)"
proof -
  have bad: "list_ex (\<lambda>(x, y, dis). out_of_range (num_of_vertices cfg2) x \<or> out_of_range (num_of_vertices cfg2) y) [(0, 1, 1), (0, 2, 3)]"
    by (simp add: out_of_range_def py_int_def cfg2_def default_config_def)
  have d: "distance_matrix cfg2 [] = Inr [[0, 0], [0, 0]]"
    by (simp add: distance_matrix_def cfg2_def default_config_def np_zeros_def numeral_2_eq_2)
  have nz: "nonzero_entries [[0, 0], [0, 0::real]] = []" by (simp add: nonzero_entries_def)
  have n: "replicate (num_of_vertices cfg2) (replicate (num_of_vertices cfg2) NaN) = [[NaN, NaN], [NaN, NaN]]"
    by (simp add: cfg2_def default_config_def numeral_2_eq_2)
  note g = graph_signal_data2[of zero_junk]
  from data_preprocess_failures[of cfg2 "[(0, 1, 1), (0, 2, 3)]" exact_numpy zero_junk data2 "[[0, 0], [0, 0]]" X_data2] bad
  have 1: "data_preprocess exact_numpy cfg2 zero_junk [(0, 1, 1), (0, 2, 3)] data2 = Inl IndexError" by blast
  from data_preprocess_failures[of cfg2 "[]" exact_numpy zero_junk data2 "[[0, 0], [0, 0]]" X_data2] d nz g
  have 2: "data_preprocess exact_numpy cfg2 zero_junk [] data2 = Inr ([[NaN, NaN], [NaN, NaN]], X_data2)"
    unfolding n by blast
  from bad 1 d nz g 2 show ?thesis by blast
qed

lemma data_preprocess_rows:
  assumes "data_preprocess np cfg junk distance data = Inr (A, X)" "shape3 X = (V, F, T)"
  shows "V = num_of_vertices cfg \<and> (\<forall>v<V. row_holds data T X v)"
proof -
  from assms(1) have "graph_signal cfg junk data = Inr X" by (simp add: data_preprocess_Inr_iff)
  from graph_signal_result[OF this] assms(2) show ?thesis by auto
qed


section \<open>Properties of the windowed samples\<close>

lemma collect_samples_append:
  assumes "shape3 X = (V, F, T)" "0 < F"
  shows "collect_samples cfg X (map (\<lambda>i. (i, i + (num_points_for_train cfg + num_points_for_predict cfg))) is) (fs, ts)
           = Inr (fs @ map (history_at cfg X) is, ts @ map (target_at cfg X) is)"
proof (induction "is" arbitrary: fs ts)
  case Nil
  then show ?case by simp
next
  case (Cons i "is")
  have c: "channel0_slice (i + num_points_for_train cfg)
             (i + (num_points_for_train cfg + num_points_for_predict cfg)) X = Inr (target_at cfg X i)"
    using assms by (simp add: channel0_slice_def target_at_def time_steps_def)
  show ?case
    by (simp add: c Cons.IH Let_def history_at_def)
qed

lemma collect_samples_no_feature:
  assumes "shape3 X = (V, 0, T)"
  shows "collect_samples cfg X ((i, j) # rest) acc = Inl IndexError"
  using assms by (cases acc) (simp add: channel0_slice_def)

lemma stack3_same_shape:
  assumes "xs \<noteq> []" "\<forall>x\<in>set xs. shape3 x = (p, q, r)"
  shows "stack3 xs = Inr \<lparr> shape4 = (length xs, p, q, r), items4 = map items3 xs \<rparr>"
  using assms by (cases xs) (auto simp: list_all_iff)

lemma stack2_same_shape:
  assumes "xs \<noteq> []" "\<forall>x\<in>set xs. shape2 x = (p, q)"
  shows "stack2 xs = Inr \<lparr> shape3 = (length xs, p, q), items3 = map items2 xs \<rparr>"
  using assms by (cases xs) (auto simp: list_all_iff)

lemma history_at_shape:
  assumes "shape3 X = (V, F, T)" "i + num_points_for_train cfg \<le> T"
  shows "shape3 (history_at cfg X i) = (F, V, num_points_for_train cfg)"
  using assms by (simp add: history_at_def transpose_102_def slice_time_def)

lemma target_at_shape:
  assumes "shape3 X = (V, F, T)"
    "i + (num_points_for_train cfg + num_points_for_predict cfg) \<le> T"
  shows "shape2 (target_at cfg X i) = (V, num_points_for_predict cfg)"
  using assms by (simp add: target_at_def time_steps_def)

lemma build_dataset_value:
  assumes sh: "shape3 X = (V, F, T)" and F: "0 < F"
    and T: "num_points_for_train cfg + num_points_for_predict cfg \<le> T"
  shows "build_dataset cfg X =
           Inr (\<lparr> shape4 = (num_windows cfg T, F, V, num_points_for_train cfg),
                  items4 = map (\<lambda>i. items3 (history_at cfg X i)) [0..<num_windows cfg T] \<rparr>,
                \<lparr> shape3 = (num_windows cfg T, V, num_points_for_predict cfg),
                  items3 = map (\<lambda>i. items2 (target_at cfg X i)) [0..<num_windows cfg T] \<rparr>)"
proof -
  let ?N = "num_windows cfg T"
  let ?is = "[0..<?N]"
  have N: "0 < ?N" using T by (simp add: num_windows_def)
  have col: "collect_samples cfg X (window_indices cfg T) ([], [])
               = Inr (map (history_at cfg X) ?is, map (target_at cfg X) ?is)"
    using collect_samples_append[OF sh F, of cfg ?is "[]" "[]"]
    by (simp add: window_indices_def num_windows_def)
  have bound: "i + (num_points_for_train cfg + num_points_for_predict cfg) \<le> T" if "i < ?N" for i
    using that T by (simp add: num_windows_def)
  have s3: "stack3 (map (history_at cfg X) ?is)
              = Inr \<lparr> shape4 = (length (map (history_at cfg X) ?is), F, V, num_points_for_train cfg),
                      items4 = map items3 (map (history_at cfg X) ?is) \<rparr>"
  proof (rule stack3_same_shape)
    show "map (history_at cfg X) ?is \<noteq> []" using N by simp
    show "\<forall>x\<in>set (map (history_at cfg X) ?is). shape3 x = (F, V, num_points_for_train cfg)"
    proof
      fix x assume "x \<in> set (map (history_at cfg X) ?is)"
      then obtain i where i: "i < ?N" "x = history_at cfg X i" by auto
      from bound[OF i(1)] have "i + num_points_for_train cfg \<le> T" by simp
      from history_at_shape[OF sh this] i(2) show "shape3 x = (F, V, num_points_for_train cfg)" by simp
    qed
  qed
  have s2: "stack2 (map (target_at cfg X) ?is)
              = Inr \<lparr> shape3 = (length (map (target_at cfg X) ?is), V, num_points_for_predict cfg),
                      items3 = map items2 (map (target_at cfg X) ?is) \<rparr>"
  proof (rule stack2_same_shape)
    show "map (target_at cfg X) ?is \<noteq> []" using N by simp
    show "\<forall>x\<in>set (map (target_at cfg X) ?is). shape2 x = (V, num_points_for_predict cfg)"
    proof
      fix x assume "x \<in> set (map (target_at cfg X) ?is)"
      then obtain i where i: "i < ?N" "x = target_at cfg X i" by auto
      from target_at_shape[OF sh bound[OF i(1)]] i(2)
      show "shape2 x = (V, num_points_for_predict cfg)" by simp
    qed
  qed
  show ?thesis
    unfolding build_dataset_def by (simp add: sh col s3 s2 comp_def)
qed

lemma slice_nth:
  assumes "b \<le> length xs" "a + t < b"
  shows "slice a b xs ! t = xs ! (a + t)"
  using assms by (simp add: slice_def)

lemma slice_length:
  assumes "b \<le> length xs" "a \<le> b"
  shows "length (slice a b xs) = b - a"
  using assms by (simp add: slice_def)

lemma wf3_nth:
  assumes "wf3 X" "shape3 X = (V, F, T)" "v < V" "f < F"
  shows "length (items3 X) = V" "length (items3 X ! v) = F" "length (items3 X ! v ! f) = T"
  using assms by (auto simp: wf3_def list_all_length)

lemma history_at_nth:
  assumes wf: "wf3 X" and sh: "shape3 X = (V, F, T)"
    and i: "i + num_points_for_train cfg \<le> T"
    and f: "f < F" and v: "v < V" and t: "t < num_points_for_train cfg"
  shows "items3 (history_at cfg X i) ! f ! v ! t = items3 X ! v ! f ! (i + t)"
proof -
  have "items3 (history_at cfg X i) ! f ! v
          = slice i (i + num_points_for_train cfg) (items3 X ! v ! f)"
    using wf3_nth[OF wf sh v f] f v
    by (simp add: history_at_def transpose_102_def slice_time_def sh)
  also have "\<dots> ! t = items3 X ! v ! f ! (i + t)"
    using wf3_nth(3)[OF wf sh v f] i t by (intro slice_nth) simp_all
  finally show ?thesis .
qed

lemma history_at_wf:
  assumes wf: "wf3 X" and sh: "shape3 X = (V, F, T)"
    and i: "i + num_points_for_train cfg \<le> T"
  shows "length (items3 (history_at cfg X i)) = F"
    "f < F \<Longrightarrow> length (items3 (history_at cfg X i) ! f) = V"
    "f < F \<Longrightarrow> v < V \<Longrightarrow> length (items3 (history_at cfg X i) ! f ! v) = num_points_for_train cfg"
proof -
  show "length (items3 (history_at cfg X i)) = F"
    by (simp add: history_at_def transpose_102_def slice_time_def sh)
  show "f < F \<Longrightarrow> length (items3 (history_at cfg X i) ! f) = V"
    by (simp add: history_at_def transpose_102_def slice_time_def sh)
  assume fv: "f < F" "v < V"
  have "items3 (history_at cfg X i) ! f ! v
          = slice i (i + num_points_for_train cfg) (items3 X ! v ! f)"
    using wf3_nth[OF wf sh fv(2,1)] fv
    by (simp add: history_at_def transpose_102_def slice_time_def sh)
  then show "length (items3 (history_at cfg X i) ! f ! v) = num_points_for_train cfg"
    using wf3_nth(3)[OF wf sh fv(2,1)] i by (simp add: slice_length)
qed

lemma target_at_nth:
  assumes wf: "wf3 X" and sh: "shape3 X = (V, F, T)" and F: "0 < F"
    and i: "i + (num_points_for_train cfg + num_points_for_predict cfg) \<le> T"
    and v: "v < V" and t: "t < num_points_for_predict cfg"
  shows "items2 (target_at cfg X i) ! v ! t = items3 X ! v ! 0 ! (i + num_points_for_train cfg + t)"
proof -
  have "items2 (target_at cfg X i) ! v
          = slice (i + num_points_for_train cfg)
              (i + (num_points_for_train cfg + num_points_for_predict cfg)) (items3 X ! v ! 0)"
    using wf3_nth(1)[OF wf sh v F] v by (simp add: target_at_def)
  also have "\<dots> ! t = items3 X ! v ! 0 ! (i + num_points_for_train cfg + t)"
    using wf3_nth(3)[OF wf sh v F] i t by (intro slice_nth) simp_all
  finally show ?thesis .
qed

lemma target_at_wf:
  assumes wf: "wf3 X" and sh: "shape3 X = (V, F, T)" and F: "0 < F"
    and i: "i + (num_points_for_train cfg + num_points_for_predict cfg) \<le> T"
  shows "length (items2 (target_at cfg X i)) = V"
    "v < V \<Longrightarrow> length (items2 (target_at cfg X i) ! v) = num_points_for_predict cfg"
proof -
  show "length (items2 (target_at cfg X i)) = V"
    using wf3_nth(1)[OF wf sh _ F] wf sh by (simp add: target_at_def wf3_def)
  assume v: "v < V"
  have "items2 (target_at cfg X i) ! v
          = slice (i + num_points_for_train cfg)
              (i + (num_points_for_train cfg + num_points_for_predict cfg)) (items3 X ! v ! 0)"
    using wf3_nth(1)[OF wf sh v F] v by (simp add: target_at_def)
  then show "length (items2 (target_at cfg X i) ! v) = num_points_for_predict cfg"
    using wf3_nth(3)[OF wf sh v F] i by (simp add: slice_length)
qed

text \<open>The samples of a small tensor, computed.\<close>

lemma build_dataset_small:
  "build_dataset cfg_small X_small =
     Inr (\<lparr> shape4 = (2, 2, 2, 2),
            items4 = [[[[1, 2], [9, 10]], [[5, 6], [13, 14]]],
                      [[[2, 3], [10, 11]], [[6, 7], [14, 15]]]] \<rparr>,
          \<lparr> shape3 = (2, 2, 1), items3 = [[[3], [11]], [[4], [12]]] \<rparr>)"
  by (simp add: build_dataset_def cfg_small_def default_config_def X_small_def window_indices_def
      channel0_slice_def transpose_102_def slice_time_def slice_def upt_rec Let_def)

lemma build_dataset_wf:
  assumes wf: "wf3 X" and sh: "shape3 X = (V, F, T)" and F: "0 < F"
    and T: "num_points_for_train cfg + num_points_for_predict cfg \<le> T"
    and b: "build_dataset cfg X = Inr (features, target)"
  shows "wf4 features" "wf3 target"
proof -
  let ?N = "num_windows cfg T"
  have bound: "i + (num_points_for_train cfg + num_points_for_predict cfg) \<le> T" if "i < ?N" for i
    using that T by (simp add: num_windows_def)
  then have bound': "i + num_points_for_train cfg \<le> T" if "i < ?N" for i
    using that by fastforce
  from b build_dataset_value[OF sh F T, of ] have
    f: "features = \<lparr> shape4 = (?N, F, V, num_points_for_train cfg),
                      items4 = map (\<lambda>i. items3 (history_at cfg X i)) [0..<?N] \<rparr>" and
    t: "target = \<lparr> shape3 = (?N, V, num_points_for_predict cfg),
                    items3 = map (\<lambda>i. items2 (target_at cfg X i)) [0..<?N] \<rparr>"
    by simp_all
  show "wf4 features"
    unfolding f wf4_def
    using history_at_wf[OF wf sh bound'] by (simp add: list_all_length)
  show "wf3 target"
    unfolding t wf3_def
    using target_at_wf[OF wf sh F bound] by (simp add: list_all_length)
qed

lemma build_dataset_nth:
  assumes wf: "wf3 X" and sh: "shape3 X = (V, F, T)" and F: "0 < F"
    and T: "num_points_for_train cfg + num_points_for_predict cfg \<le> T"
    and b: "build_dataset cfg X = Inr (features, target)"
    and k: "k < num_windows cfg T"
  shows "f < F \<Longrightarrow> v < V \<Longrightarrow> t < num_points_for_train cfg \<Longrightarrow>
           items4 features ! k ! f ! v ! t = items3 X ! v ! f ! (k + t)"
    and "v < V \<Longrightarrow> t < num_points_for_predict cfg \<Longrightarrow>
           items3 target ! k ! v ! t = items3 X ! v ! 0 ! (k + num_points_for_train cfg + t)"
    and "items4 features ! k = items3 (history_at cfg X k)"
    and "items3 target ! k = items2 (target_at cfg X k)"
proof -
  let ?N = "num_windows cfg T"
  have bound: "k + (num_points_for_train cfg + num_points_for_predict cfg) \<le> T"
    using k T by (simp add: num_windows_def)
  then have bound': "k + num_points_for_train cfg \<le> T" by simp
  from b build_dataset_value[OF sh F T] have
    f: "features = \<lparr> shape4 = (?N, F, V, num_points_for_train cfg),
                      items4 = map (\<lambda>i. items3 (history_at cfg X i)) [0..<?N] \<rparr>" and
    t: "target = \<lparr> shape3 = (?N, V, num_points_for_predict cfg),
                    items3 = map (\<lambda>i. items2 (target_at cfg X i)) [0..<?N] \<rparr>"
    by simp_all
  show 3: "items4 features ! k = items3 (history_at cfg X k)" using k by (simp add: f)
  show 4: "items3 target ! k = items2 (target_at cfg X k)" using k by (simp add: t)
  show "f < F \<Longrightarrow> v < V \<Longrightarrow> t < num_points_for_train cfg \<Longrightarrow>
           items4 features ! k ! f ! v ! t = items3 X ! v ! f ! (k + t)"
    unfolding 3 using history_at_nth[OF wf sh bound'] by simp
  show "v < V \<Longrightarrow> t < num_points_for_predict cfg \<Longrightarrow>
           items3 target ! k ! v ! t = items3 X ! v ! 0 ! (k + num_points_for_train cfg + t)"
    unfolding 4 using target_at_nth[OF wf sh F bound] by simp
qed

lemma num_windows_eq:
  "num_points_for_train cfg + num_points_for_predict cfg \<le> T \<Longrightarrow>
     num_windows cfg T = T - (num_points_for_train cfg + num_points_for_predict cfg) + 1"
  by (simp add: num_windows_def)

text \<open>
  Claim C2. For a well-formed signal tensor of shape \<open>(V, F, T)\<close> with at least one
  feature channel and \<open>T \<ge> H + P\<close>, \<^verbatim>\<open>build_dataset\<close> returns, without an error,
  exactly \<open>T - (H + P) + 1\<close> samples: the histories form an array of shape
  \<open>(T - (H + P) + 1, F, V, H)\<close>, the targets one of shape \<open>(T - (H + P) + 1, V, P)\<close>,
  and sample number \<open>k\<close> is the window that starts at time step \<open>k\<close> (increasing
  order, stride 1).
\<close>

theorem build_dataset_sample_count_and_shapes:
  assumes wf: "wf3 X" and sh: "shape3 X = (V, F, T)" and F: "0 < F"
    and T: "num_points_for_train cfg + num_points_for_predict cfg \<le> T"
  shows "\<exists>features target.
           build_dataset cfg X = Inr (features, target) \<and>
           shape4 features =
             (T - (num_points_for_train cfg + num_points_for_predict cfg) + 1, F, V,
              num_points_for_train cfg) \<and>
           wf4 features \<and>
           shape3 target =
             (T - (num_points_for_train cfg + num_points_for_predict cfg) + 1, V,
              num_points_for_predict cfg) \<and>
           wf3 target \<and>
           (\<forall>k<T - (num_points_for_train cfg + num_points_for_predict cfg) + 1.
              \<forall>f<F. \<forall>v<V. \<forall>t<num_points_for_train cfg.
                items4 features ! k ! f ! v ! t = items3 X ! v ! f ! (k + t))"
proof -
  from build_dataset_value[OF sh F T] obtain features target where
    b: "build_dataset cfg X = Inr (features, target)" and
    s4: "shape4 features = (num_windows cfg T, F, V, num_points_for_train cfg)" and
    s3: "shape3 target = (num_windows cfg T, V, num_points_for_predict cfg)"
    by simp
  note wfs = build_dataset_wf[OF wf sh F T b]
  have "\<forall>k<num_windows cfg T. \<forall>f<F. \<forall>v<V. \<forall>t<num_points_for_train cfg.
          items4 features ! k ! f ! v ! t = items3 X ! v ! f ! (k + t)"
    using build_dataset_nth(1)[OF wf sh F T b] by blast
  with b s4 s3 wfs show ?thesis
    unfolding num_windows_eq[OF T] by blast
qed

lemma wf3_X_small: "wf3 X_small"
  by (simp add: wf3_def X_small_def)

text \<open>The hypotheses of C2's theorem hold for a \<open>2 \<times> 2 \<times> 4\<close> tensor with \<open>H = 2\<close>, \<open>P = 1\<close>.\<close>

theorem build_dataset_sample_count_and_shapes_witness:
  "wf3 X_small \<and> shape3 X_small = (2, 2, 4) \<and> (0::nat) < 2 \<and>
   num_points_for_train cfg_small + num_points_for_predict cfg_small \<le> 4 \<and>
   (\<exists>features target.
      build_dataset cfg_small X_small = Inr (features, target) \<and>
      shape4 features = (2, 2, 2, 2) \<and> shape3 target = (2, 2, 1) \<and>
      items4 features ! 1 ! 0 ! 1 ! 0 = items3 X_small ! 1 ! 0 ! 1)"
proof -
  have sh: "shape3 X_small = (2, 2, 4)" by (simp add: X_small_def)
  have T: "num_points_for_train cfg_small + num_points_for_predict cfg_small \<le> 4"
    by (simp add: cfg_small_def default_config_def)
  have H: "num_points_for_train cfg_small = 2" and P: "num_points_for_predict cfg_small = 1"
    by (simp_all add: cfg_small_def default_config_def)
  from build_dataset_sample_count_and_shapes[OF wf3_X_small sh _ T]
  obtain features target where
    b: "build_dataset cfg_small X_small = Inr (features, target)" and
    s: "shape4 features = (2, 2, 2, 2)" "shape3 target = (2, 2, 1)" and
    e: "\<forall>k<2. \<forall>f<2. \<forall>v<2. \<forall>t<2. items4 features ! k ! f ! v ! t = items3 X_small ! v ! f ! (k + t)"
    unfolding H P by auto
  from e[rule_format, of 1 0 1 0]
  have "items4 features ! 1 ! 0 ! 1 ! 0 = items3 X_small ! 1 ! 0 ! 1" by simp
  with wf3_X_small sh T b s show ?thesis by auto
qed

lemma target_at_channel0:
  assumes sh: "shape3 X = (V, F, T)" and F: "0 < F"
    and i: "i + (num_points_for_train cfg + num_points_for_predict cfg) \<le> T"
  shows "channel0_slice (i + num_points_for_train cfg)
           (i + num_points_for_train cfg + num_points_for_predict cfg) X
         = Inr \<lparr> shape2 = (V, num_points_for_predict cfg), items2 = items2 (target_at cfg X i) \<rparr>"
  using assms by (simp add: channel0_slice_def target_at_def add.assoc)

lemma target_at_cong:
  assumes wf: "wf3 X" and wf': "wf3 X'" and sh: "shape3 X = (V, F, T)" and sh': "shape3 X' = (V, F, T)"
    and eq: "\<forall>v<V. items3 X' ! v ! 0 = items3 X ! v ! 0"
  shows "target_at cfg X' i = target_at cfg X i"
proof -
  have len: "length (items3 X) = V" "length (items3 X') = V"
    using wf wf' sh sh' by (simp_all add: wf3_def)
  have "map (\<lambda>p. slice (i + num_points_for_train cfg)
                (i + (num_points_for_train cfg + num_points_for_predict cfg)) (p ! 0)) (items3 X')
        = map (\<lambda>p. slice (i + num_points_for_train cfg)
                (i + (num_points_for_train cfg + num_points_for_predict cfg)) (p ! 0)) (items3 X)"
    using len eq by (intro nth_equalityI) simp_all
  then show ?thesis
    by (simp add: target_at_def sh sh' time_steps_def)
qed

lemma row_holds_flow:
  assumes "row_holds data T X v"
  shows "\<exists>d flow. dict_get data (py_str v) = Inr d \<and> dict_get d ''flow'' = Inr flow \<and>
           items3 X ! v ! 0 = broadcast T flow"
  using assms by (auto simp: row_holds_def split: sum.splits)

text \<open>
  Claim C3. The target of sample \<open>i\<close> is the slice \<^verbatim>\<open>X[:, 0, i+H : i+H+P]\<close>: entry
  \<open>(v, t)\<close> is the value of channel 0 at vertex \<open>v\<close> and time step \<open>i + H + t\<close>. The
  other channels do not contribute: a tensor that agrees with \<open>X\<close> on channel 0 yields the
  same targets. And channel 0 is the flow: when \<open>X\<close> is the signal matrix that
  \<^verbatim>\<open>data_preprocess\<close> returns, the targets of vertex \<open>v\<close> are readings of its
  \<^verbatim>\<open>flow\<close> signal.
\<close>

theorem build_dataset_target_first_channel:
  assumes wf: "wf3 X" and sh: "shape3 X = (V, F, T)" and F: "0 < F"
    and T: "num_points_for_train cfg + num_points_for_predict cfg \<le> T"
  shows "\<exists>features target.
           build_dataset cfg X = Inr (features, target) \<and>
           (\<forall>i<T - (num_points_for_train cfg + num_points_for_predict cfg) + 1.
              channel0_slice (i + num_points_for_train cfg)
                  (i + num_points_for_train cfg + num_points_for_predict cfg) X
                = Inr \<lparr> shape2 = (V, num_points_for_predict cfg), items2 = items3 target ! i \<rparr> \<and>
              (\<forall>v<V. \<forall>t<num_points_for_predict cfg.
                 items3 target ! i ! v ! t = items3 X ! v ! 0 ! (i + num_points_for_train cfg + t))) \<and>
           (\<forall>X'. wf3 X' \<and> shape3 X' = (V, F, T) \<and> (\<forall>v<V. items3 X' ! v ! 0 = items3 X ! v ! 0)
              \<longrightarrow> (\<exists>features'. build_dataset cfg X' = Inr (features', target))) \<and>
           (\<forall>np junk distance data A. data_preprocess np cfg junk distance data = Inr (A, X)
              \<longrightarrow> (\<forall>v<V. \<exists>d flow.
                     dict_get data (py_str v) = Inr d \<and> dict_get d ''flow'' = Inr flow \<and>
                     (\<forall>i<T - (num_points_for_train cfg + num_points_for_predict cfg) + 1.
                        \<forall>t<num_points_for_predict cfg.
                          items3 target ! i ! v ! t
                            = broadcast T flow ! (i + num_points_for_train cfg + t))))"
proof -
  let ?N = "num_windows cfg T"
  from build_dataset_value[OF sh F T] obtain features target where
    b: "build_dataset cfg X = Inr (features, target)" and
    t: "target = \<lparr> shape3 = (?N, V, num_points_for_predict cfg),
                    items3 = map (\<lambda>i. items2 (target_at cfg X i)) [0..<?N] \<rparr>"
    by simp
  have bound: "i + (num_points_for_train cfg + num_points_for_predict cfg) \<le> T" if "i < ?N" for i
    using that T by (simp add: num_windows_def)
  have 1: "channel0_slice (i + num_points_for_train cfg)
                  (i + num_points_for_train cfg + num_points_for_predict cfg) X
                = Inr \<lparr> shape2 = (V, num_points_for_predict cfg), items2 = items3 target ! i \<rparr>"
    if "i < ?N" for i
    using target_at_channel0[OF sh F bound[OF that]] build_dataset_nth(4)[OF wf sh F T b that]
    by simp
  have 2: "\<forall>v<V. \<forall>t<num_points_for_predict cfg.
             items3 target ! i ! v ! t = items3 X ! v ! 0 ! (i + num_points_for_train cfg + t)"
    if "i < ?N" for i
    using build_dataset_nth(2)[OF wf sh F T b that] by blast
  have 3: "\<exists>features'. build_dataset cfg X' = Inr (features', target)"
    if "wf3 X' \<and> shape3 X' = (V, F, T) \<and> (\<forall>v<V. items3 X' ! v ! 0 = items3 X ! v ! 0)" for X'
  proof -
    from that have wf': "wf3 X'" and sh': "shape3 X' = (V, F, T)"
      and eq: "\<forall>v<V. items3 X' ! v ! 0 = items3 X ! v ! 0" by simp_all
    have "target_at cfg X' i = target_at cfg X i" for i
      using target_at_cong[OF wf wf' sh sh' eq] .
    then show ?thesis
      using build_dataset_value[OF sh' F T] by (simp add: t)
  qed
  have 4: "\<exists>d flow. dict_get data (py_str v) = Inr d \<and> dict_get d ''flow'' = Inr flow \<and>
             (\<forall>i<?N. \<forall>t<num_points_for_predict cfg.
                items3 target ! i ! v ! t = broadcast T flow ! (i + num_points_for_train cfg + t))"
    if dp: "data_preprocess np cfg junk distance data = Inr (A, X)" and v: "v < V"
    for np junk distance data A v
  proof -
    from data_preprocess_rows[OF dp sh] v have "row_holds data T X v" by simp
    from row_holds_flow[OF this] obtain d flow where
      d: "dict_get data (py_str v) = Inr d" "dict_get d ''flow'' = Inr flow" and
      r: "items3 X ! v ! 0 = broadcast T flow" by blast
    have "items3 target ! i ! v ! t = broadcast T flow ! (i + num_points_for_train cfg + t)"
      if "i < ?N" "t < num_points_for_predict cfg" for i t
      using 2[OF that(1)] v that(2) r by simp
    with d show ?thesis by blast
  qed
  from b 1 2 3 4 show ?thesis
    unfolding num_windows_eq[OF T, symmetric] by blast
qed

lemma graph_signal_num_of_vertices:
  "num_of_vertices cfg' = num_of_vertices cfg \<Longrightarrow> graph_signal cfg' junk data = graph_signal cfg junk data"
  by (simp add: graph_signal_def signal_shape_def split: list.splits sum.splits prod.splits)

lemma adjacency_config:
  "num_of_vertices cfg' = num_of_vertices cfg \<Longrightarrow> epsilon cfg' = epsilon cfg \<Longrightarrow>
     adjacency np cfg' distance = adjacency np cfg distance"
  by (simp add: adjacency_def distance_matrix_def split: sum.splits)

lemma data_preprocess_cfg2_short:
  "data_preprocess exact_numpy cfg2_short zero_junk [(0, 1, 1)] data2 = Inr ([[NaN, Fin 0], [Fin 0, NaN]], X_data2)"
proof -
  have "adjacency exact_numpy cfg2_short [(0, 1, 1)] = adjacency exact_numpy cfg2 [(0, 1, 1)]"
    by (rule adjacency_config) (simp_all add: cfg2_short_def)
  moreover have "graph_signal cfg2_short zero_junk data2 = graph_signal cfg2 zero_junk data2"
    by (rule graph_signal_num_of_vertices) (simp add: cfg2_short_def)
  ultimately show ?thesis
    by (simp add: data_preprocess_Inr_iff adjacency_cfg2_uniform graph_signal_data2)
qed

text \<open>
  The hypotheses of C3's theorem hold for the signal matrix of the two-vertex file with
  \<open>H = P = 1\<close>: the one target of vertex 1 is its second flow reading.
\<close>

theorem build_dataset_target_first_channel_witness:
  "wf3 X_data2 \<and> shape3 X_data2 = (2, 3, 2) \<and> (0::nat) < 3 \<and>
   num_points_for_train cfg2_short + num_points_for_predict cfg2_short \<le> 2 \<and>
   data_preprocess exact_numpy cfg2_short zero_junk [(0, 1, 1)] data2 = Inr ([[NaN, Fin 0], [Fin 0, NaN]], X_data2) \<and>
   dict_get data2 (py_str 1) = Inr [(''flow'', [7, 8]), (''occupy'', [9, 10]), (''speed'', [11, 12])] \<and>
   (\<exists>features target.
      build_dataset cfg2_short X_data2 = Inr (features, target) \<and>
      channel0_slice 1 2 X_data2 = Inr \<lparr> shape2 = (2, 1), items2 = items3 target ! 0 \<rparr> \<and>
      items3 target ! 0 ! 1 ! 0 = items3 X_data2 ! 1 ! 0 ! 1 \<and>
      items3 target ! 0 ! 1 ! 0 = broadcast 2 [7, 8] ! 1)"
proof -
  have wf: "wf3 X_data2" and sh: "shape3 X_data2 = (2, 3, 2)"
    by (simp_all add: X_data2_def wf3_def)
  have H: "num_points_for_train cfg2_short = 1" and P: "num_points_for_predict cfg2_short = 1"
    by (simp_all add: cfg2_short_def cfg2_def default_config_def)
  have T: "num_points_for_train cfg2_short + num_points_for_predict cfg2_short \<le> 2"
    by (simp add: H P)
  have d1: "dict_get data2 (py_str 1) = Inr [(''flow'', [7, 8]), (''occupy'', [9, 10]), (''speed'', [11, 12])]"
    by (simp add: dict_get_def data2_def py_str.simps digit_char_def)
  have N: "(2::nat) - (1 + 1) + 1 = 1" by simp
  from build_dataset_target_first_channel[OF wf sh _ T]
  obtain features target where
    b: "build_dataset cfg2_short X_data2 = Inr (features, target)" and
    e: "\<forall>i<1. channel0_slice (i + 1) (i + 1 + 1) X_data2
                 = Inr \<lparr> shape2 = (2, 1), items2 = items3 target ! i \<rparr> \<and>
               (\<forall>v<2. \<forall>t<1. items3 target ! i ! v ! t = items3 X_data2 ! v ! 0 ! (i + 1 + t))" and
    f: "\<forall>np junk distance data A. data_preprocess np cfg2_short junk distance data = Inr (A, X_data2)
              \<longrightarrow> (\<forall>v<2. \<exists>d flow.
                     dict_get data (py_str v) = Inr d \<and> dict_get d ''flow'' = Inr flow \<and>
                     (\<forall>i<1. \<forall>t<1. items3 target ! i ! v ! t = broadcast 2 flow ! (i + 1 + t)))"
    unfolding H P N by auto
  from e[rule_format, of 0] have
    c: "channel0_slice 1 2 X_data2 = Inr \<lparr> shape2 = (2, 1), items2 = items3 target ! 0 \<rparr>" and
    n: "\<forall>v<2. \<forall>t<1. items3 target ! 0 ! v ! t = items3 X_data2 ! v ! 0 ! (0 + 1 + t)"
    by (simp_all add: eval_nat_numeral)
  from n[rule_format, of 1 0] have x: "items3 target ! 0 ! 1 ! 0 = items3 X_data2 ! 1 ! 0 ! 1"
    by simp
  from f[rule_format, OF data_preprocess_cfg2_short, of 1] obtain d flow where
    "dict_get data2 (py_str 1) = Inr d" "dict_get d ''flow'' = Inr flow"
    "\<forall>i<1. \<forall>t<1. items3 target ! i ! 1 ! t = broadcast 2 flow ! (i + 1 + t)"
    by auto
  with d1 have "\<forall>i<1. \<forall>t<1. items3 target ! i ! 1 ! t = broadcast 2 [7, 8] ! (i + 1 + t)"
    by (auto simp: dict_get_def)
  from this[rule_format, of 0 0] have y: "items3 target ! 0 ! 1 ! 0 = broadcast 2 [7, 8] ! 1"
    by simp
  from wf sh T data_preprocess_cfg2_short d1 b c x y show ?thesis by auto
qed

lemma build_dataset_Inr_D:
  assumes sh: "shape3 X = (V, F, T)" and b: "build_dataset cfg X = Inr r"
  shows "0 < F \<and> num_points_for_train cfg + num_points_for_predict cfg \<le> T"
proof -
  have T: "num_points_for_train cfg + num_points_for_predict cfg \<le> T"
  proof (rule ccontr)
    assume "\<not> ?thesis"
    then have "window_indices cfg T = []" by (simp add: window_indices_def)
    then have "build_dataset cfg X = Inl ValueError"
      by (simp add: build_dataset_def sh)
    with b show False by simp
  qed
  have "0 < F"
  proof (rule ccontr)
    assume "\<not> 0 < F"
    then have sh0: "shape3 X = (V, 0, T)" using sh by simp
    from T obtain ij rest where "window_indices cfg T = ij # rest"
      by (cases "window_indices cfg T") (simp_all add: window_indices_def)
    then have "build_dataset cfg X = Inl IndexError"
      using collect_samples_no_feature[OF sh0, of cfg "fst ij" "snd ij" rest "([], [])"]
      by (simp add: build_dataset_def sh0)
    with b show False by simp
  qed
  with T show ?thesis by simp
qed

lemma split_line1_eq: "split_line1 T = 6 * T div 10"
proof -
  have "real T * (6 / 10) = real (6 * T) / real 10" by simp
  then have "\<lfloor>real T * (6 / 10)\<rfloor> = int (6 * T div 10)"
    by (simp only: floor_divide_of_nat_eq)
  then show ?thesis by (simp add: split_line1_def py_int_def)
qed

lemma split_line2_eq: "split_line2 T = 8 * T div 10"
proof -
  have "real T * (8 / 10) = real (8 * T) / real 10" by simp
  then have "\<lfloor>real T * (8 / 10)\<rfloor> = int (8 * T div 10)"
    by (simp only: floor_divide_of_nat_eq)
  then show ?thesis by (simp add: split_line2_def py_int_def)
qed

lemma split_lines_ordered: "split_line1 T \<le> split_line2 T \<and> split_line2 T \<le> T"
  unfolding split_line1_eq split_line2_eq by (simp add: div_le_mono)

lemma slice_time_shape:
  assumes "shape3 X = (V, F, T)" "a \<le> b" "b \<le> T"
  shows "shape3 (slice_time a b X) = (V, F, b - a)"
  using assms by (simp add: slice_time_def)

lemma slice_time_wf:
  assumes wf: "wf3 X" and sh: "shape3 X = (V, F, T)" and ab: "a \<le> b" "b \<le> T"
  shows "wf3 (slice_time a b X)"
  using assms by (auto simp: wf3_def slice_time_def list_all_length slice_def)

lemma slice_time_row:
  assumes wf: "wf3 X" and sh: "shape3 X = (V, F, T)" and v: "v < V" and f: "f < F"
  shows "items3 (slice_time a b X) ! v ! f = slice a b (items3 X ! v ! f)"
  using wf3_nth[OF wf sh v f] v f by (simp add: slice_time_def sh)

lemma slice_time_nth:
  assumes wf: "wf3 X" and sh: "shape3 X = (V, F, T)" and ab: "a \<le> b" "b \<le> T"
    and v: "v < V" and f: "f < F" and t: "a + t < b"
  shows "items3 (slice_time a b X) ! v ! f ! t = items3 X ! v ! f ! (a + t)"
  unfolding slice_time_row[OF wf sh v f]
  using wf3_nth(3)[OF wf sh v f] ab t by (intro slice_nth) simp_all

lemma slices_concat:
  assumes "a \<le> b" "b \<le> length xs"
  shows "slice 0 a xs @ slice a b xs @ slice b (length xs) xs = xs"
proof -
  have "take (b - a) (drop a xs) @ drop b xs = drop a xs"
    using assms by (metis add_diff_inverse_nat append_take_drop_id drop_drop not_less add.commute)
  then show ?thesis by (simp add: slice_def)
qed

lemma partition_windows:
  assumes wf: "wf3 X" and sh: "shape3 X = (V, F, T)" and ab: "a \<le> b" "b \<le> T"
    and bd: "build_dataset cfg (slice_time a b X) = Inr samples"
  shows "fst (shape4 (fst samples)) = b - a - (num_points_for_train cfg + num_points_for_predict cfg) + 1"
    and "windows_within cfg X a b samples"
proof -
  let ?H = "num_points_for_train cfg" and ?P = "num_points_for_predict cfg"
  let ?Y = "slice_time a b X"
  obtain features target where s: "samples = (features, target)" by (cases samples)
  note shY = slice_time_shape[OF sh ab]
  note wfY = slice_time_wf[OF wf sh ab]
  from build_dataset_Inr_D[OF shY bd] have F: "0 < F" and len: "?H + ?P \<le> b - a" by simp_all
  from bd s have bd': "build_dataset cfg ?Y = Inr (features, target)" by simp
  from build_dataset_value[OF shY F len] bd'
  have N: "fst (shape4 features) = num_windows cfg (b - a)" by auto
  show "fst (shape4 (fst samples)) = b - a - (?H + ?P) + 1"
    using N len by (simp add: s num_windows_def)
  have "a + k + (?H + ?P) \<le> b \<and>
          (\<forall>f<F. \<forall>v<V. \<forall>t<?H. items4 features ! k ! f ! v ! t = items3 X ! v ! f ! (a + k + t)) \<and>
          (\<forall>v<V. \<forall>t<?P. items3 target ! k ! v ! t = items3 X ! v ! 0 ! (a + k + ?H + t))"
    if k: "k < num_windows cfg (b - a)" for k
  proof (intro conjI allI impI)
    show kb: "a + k + (?H + ?P) \<le> b" using k len ab by (simp add: num_windows_def)
    { fix f v t assume f: "f < F" and v: "v < V" and t: "t < ?H"
      have "items4 features ! k ! f ! v ! t = items3 ?Y ! v ! f ! (k + t)"
        using build_dataset_nth(1)[OF wfY shY F len bd' k f v t] .
      also have "\<dots> = items3 X ! v ! f ! (a + (k + t))"
        using kb t by (intro slice_time_nth[OF wf sh ab v f]) simp
      finally show "items4 features ! k ! f ! v ! t = items3 X ! v ! f ! (a + k + t)"
        by (simp add: add.assoc) }
    { fix v t assume v: "v < V" and t: "t < ?P"
      have "items3 target ! k ! v ! t = items3 ?Y ! v ! 0 ! (k + ?H + t)"
        using build_dataset_nth(2)[OF wfY shY F len bd' k v t] .
      also have "\<dots> = items3 X ! v ! 0 ! (a + (k + ?H + t))"
        using kb t by (intro slice_time_nth[OF wf sh ab v F]) simp
      finally show "items3 target ! k ! v ! t = items3 X ! v ! 0 ! (a + k + ?H + t)"
        by (simp add: add.assoc) }
  qed
  then show "windows_within cfg X a b samples"
    by (simp add: windows_within_def sh s N)
qed

text \<open>
  Claim C7. The two split lines are \<open>\<lfloor>0.6 T\<rfloor>\<close> and \<open>\<lfloor>0.8 T\<rfloor>\<close>; the three
  partitions are the time slices \<open>[0, s1)\<close>, \<open>[s1, s2)\<close> and \<open>[s2, T)\<close>, which laid
  end to end give back every row of the series; and every sample that
  \<^verbatim>\<open>build_dataset\<close> cuts from a partition reads only time steps of that partition.
\<close>

theorem partitions_contiguous_windows_inside:
  assumes wf: "wf3 X" and sh: "shape3 X = (V, F, T)"
  shows "split_line1 T = 6 * T div 10 \<and> split_line2 T = 8 * T div 10 \<and>
         split_line1 T \<le> split_line2 T \<and> split_line2 T \<le> T \<and>
         shape3 (train_original_data X) = (V, F, split_line1 T) \<and>
         shape3 (val_original_data X) = (V, F, split_line2 T - split_line1 T) \<and>
         shape3 (test_original_data X) = (V, F, T - split_line2 T) \<and>
         (\<forall>v<V. \<forall>f<F.
            items3 (train_original_data X) ! v ! f @ items3 (val_original_data X) ! v ! f @
            items3 (test_original_data X) ! v ! f = items3 X ! v ! f) \<and>
         (\<forall>samples. build_dataset cfg (train_original_data X) = Inr samples
            \<longrightarrow> windows_within cfg X 0 (split_line1 T) samples) \<and>
         (\<forall>samples. build_dataset cfg (val_original_data X) = Inr samples
            \<longrightarrow> windows_within cfg X (split_line1 T) (split_line2 T) samples) \<and>
         (\<forall>samples. build_dataset cfg (test_original_data X) = Inr samples
            \<longrightarrow> windows_within cfg X (split_line2 T) T samples)"
proof -
  let ?s1 = "split_line1 T" and ?s2 = "split_line2 T"
  have ts: "time_steps X = T" by (simp add: time_steps_def sh)
  from split_lines_ordered[of T] have o: "?s1 \<le> ?s2" "?s2 \<le> T" by simp_all
  then have o1: "?s1 \<le> T" by simp
  have tr: "train_original_data X = slice_time 0 ?s1 X"
    and va: "val_original_data X = slice_time ?s1 ?s2 X"
    and te: "test_original_data X = slice_time ?s2 T X"
    by (simp_all add: train_original_data_def val_original_data_def test_original_data_def ts)
  have s_tr: "shape3 (train_original_data X) = (V, F, ?s1)"
    unfolding tr using slice_time_shape[OF sh _ o1, of 0] by simp
  have s_va: "shape3 (val_original_data X) = (V, F, ?s2 - ?s1)"
    unfolding va using slice_time_shape[OF sh o] .
  have s_te: "shape3 (test_original_data X) = (V, F, T - ?s2)"
    unfolding te using slice_time_shape[OF sh o(2)] by simp
  have cat: "items3 (train_original_data X) ! v ! f @ items3 (val_original_data X) ! v ! f @
            items3 (test_original_data X) ! v ! f = items3 X ! v ! f" if "v < V" "f < F" for v f
    unfolding tr va te slice_time_row[OF wf sh that]
    using slices_concat[OF o(1), of "items3 X ! v ! f"] o(2) wf3_nth(3)[OF wf sh that] by simp
  have w_tr: "windows_within cfg X 0 ?s1 samples"
    if "build_dataset cfg (train_original_data X) = Inr samples" for samples
    using partition_windows(2)[OF wf sh _ o1, of 0 cfg samples] that by (simp add: tr)
  have w_va: "windows_within cfg X ?s1 ?s2 samples"
    if "build_dataset cfg (val_original_data X) = Inr samples" for samples
    using partition_windows(2)[OF wf sh o, of cfg samples] that by (simp add: va)
  have w_te: "windows_within cfg X ?s2 T samples"
    if "build_dataset cfg (test_original_data X) = Inr samples" for samples
    using partition_windows(2)[OF wf sh o(2), of cfg samples] that by (simp add: te)
  from split_line1_eq[of T] split_line2_eq[of T] o s_tr s_va s_te cat w_tr w_va w_te
  show ?thesis by blast
qed

lemma X_series_facts: "wf3 (X_series xs)" "shape3 (X_series xs) = (1, 1, length xs)"
  by (simp_all add: X_series_def wf3_def)

lemma val_series10:
  "val_original_data (X_series [1, 1, 1, 1, 6, 0, 7, 8, 9, 10])
     = \<lparr> shape3 = (1, 1, 2), items3 = [[[7, 8]]] \<rparr>"
  by (simp add: val_original_data_def slice_time_def X_series_def time_steps_def split_line1_eq
      split_line2_eq slice_def)

lemma build_val_series10:
  "build_dataset cfg_tiny \<lparr> shape3 = (1, 1, 2), items3 = [[[7, 8]]] \<rparr>
     = Inr (\<lparr> shape4 = (1, 1, 1, 1), items4 = [[[[7]]]] \<rparr>, \<lparr> shape3 = (1, 1, 1), items3 = [[[8]]] \<rparr>)"
  by (simp add: build_dataset_def cfg_tiny_def default_config_def window_indices_def
      channel0_slice_def transpose_102_def slice_time_def slice_def upt_rec Let_def)

text \<open>
  The hypotheses of C7's theorem hold for a series of ten steps with \<open>H = P = 1\<close>: the
  validation partition is \<open>[6, 8)\<close> and holds one window.
\<close>

theorem partitions_contiguous_windows_inside_witness:
  "wf3 (X_series [1, 1, 1, 1, 6, 0, 7, 8, 9, 10]) \<and>
   shape3 (X_series [1, 1, 1, 1, 6, 0, 7, 8, 9, 10]) = (1, 1, 10) \<and>
   split_line1 10 = 6 \<and> split_line2 10 = 8 \<and>
   shape3 (val_original_data (X_series [1, 1, 1, 1, 6, 0, 7, 8, 9, 10])) = (1, 1, 2) \<and>
   build_dataset cfg_tiny (val_original_data (X_series [1, 1, 1, 1, 6, 0, 7, 8, 9, 10]))
     = Inr (\<lparr> shape4 = (1, 1, 1, 1), items4 = [[[[7]]]] \<rparr>, \<lparr> shape3 = (1, 1, 1), items3 = [[[8]]] \<rparr>) \<and>
   windows_within cfg_tiny (X_series [1, 1, 1, 1, 6, 0, 7, 8, 9, 10]) 6 8
     (\<lparr> shape4 = (1, 1, 1, 1), items4 = [[[[7]]]] \<rparr>, \<lparr> shape3 = (1, 1, 1), items3 = [[[8]]] \<rparr>)"
proof -
  let ?X = "X_series [1, 1, 1, 1, 6, 0, 7, 8, 9, 10]"
  have sh: "shape3 ?X = (1, 1, 10)" using X_series_facts(2)[of "[1, 1, 1, 1, 6, 0, 7, 8, 9, 10]"] by simp
  have b: "build_dataset cfg_tiny (val_original_data ?X)
     = Inr (\<lparr> shape4 = (1, 1, 1, 1), items4 = [[[[7]]]] \<rparr>, \<lparr> shape3 = (1, 1, 1), items3 = [[[8]]] \<rparr>)"
    by (simp only: val_series10 build_val_series10)
  have s: "split_line1 10 = 6" "split_line2 10 = 8" by (simp_all add: split_line1_eq split_line2_eq)
  from partitions_contiguous_windows_inside[OF X_series_facts(1) sh, of cfg_tiny] b
  have "shape3 (val_original_data ?X) = (1, 1, 2)" and
    "windows_within cfg_tiny ?X 6 8
       (\<lparr> shape4 = (1, 1, 1, 1), items4 = [[[[7]]]] \<rparr>, \<lparr> shape3 = (1, 1, 1), items3 = [[[8]]] \<rparr>)"
    unfolding s by simp_all
  with X_series_facts(1) sh s b show ?thesis by simp
qed

lemma train_run:
  "train_original_data X_run1 = \<lparr> shape3 = (1, 1, 6), items3 = [[[1, 1, 1, 1, 6, 0]]] \<rparr>"
  "train_original_data X_run2 = \<lparr> shape3 = (1, 1, 6), items3 = [[[1, 1, 1, 1, 6, 0]]] \<rparr>"
  by (simp_all add: train_original_data_def slice_time_def X_series_def X_run1_def X_run2_def
      time_steps_def split_line1_eq slice_def)

lemma val_run:
  "val_original_data X_run1 = \<lparr> shape3 = (1, 1, 2), items3 = [[[7, 8]]] \<rparr>"
  "val_original_data X_run2 = \<lparr> shape3 = (1, 1, 2), items3 = [[[70, 80]]] \<rparr>"
  by (simp_all add: val_original_data_def slice_time_def X_series_def X_run1_def X_run2_def
      time_steps_def split_line1_eq split_line2_eq slice_def)

lemma test_run:
  "test_original_data X_run1 = \<lparr> shape3 = (1, 1, 2), items3 = [[[9, 10]]] \<rparr>"
  "test_original_data X_run2 = \<lparr> shape3 = (1, 1, 2), items3 = [[[90, 100]]] \<rparr>"
  by (simp_all add: test_original_data_def slice_time_def X_series_def X_run1_def X_run2_def
      time_steps_def split_line2_eq slice_def)

lemma build_tiny_pair:
  "build_dataset cfg_tiny \<lparr> shape3 = (1, 1, 2), items3 = [[[a, b]]] \<rparr>
     = Inr (\<lparr> shape4 = (1, 1, 1, 1), items4 = [[[[a]]]] \<rparr>, \<lparr> shape3 = (1, 1, 1), items3 = [[[b]]] \<rparr>)"
  by (simp add: build_dataset_def cfg_tiny_def default_config_def window_indices_def
      channel0_slice_def transpose_102_def slice_time_def slice_def upt_rec Let_def)

lemma build_tiny_train:
  "build_dataset cfg_tiny \<lparr> shape3 = (1, 1, 6), items3 = [[[1, 1, 1, 1, 6, 0]]] \<rparr>
     = Inr (\<lparr> shape4 = (5, 1, 1, 1), items4 = [[[[1]]], [[[1]]], [[[1]]], [[[1]]], [[[6]]]] \<rparr>,
            \<lparr> shape3 = (5, 1, 1), items3 = [[[1]], [[1]], [[1]], [[6]], [[0]]] \<rparr>)"
  by (simp add: build_dataset_def cfg_tiny_def default_config_def window_indices_def
      channel0_slice_def transpose_102_def slice_time_def slice_def upt_rec Let_def)

lemma flatten_tiny:
  "flatten_samples \<lparr> shape4 = sh, items4 = [[[[a]]]] \<rparr> = [[a]]"
  "flatten_samples \<lparr> shape4 = sh, items4 = [[[[a]]], [[[b]]], [[[c]]], [[[d]]], [[[e]]]] \<rparr>
     = [[a], [b], [c], [d], [e]]"
  by (simp_all add: flatten_samples_def)

lemma fit_tiny:
  "fit standard_scaler [[1], [1], [1], [1], [6]] = Inr ([2], [2])"
  by (simp add: standard_scaler_def columns_def column_scale_def np_mean_def)

lemma normalise_tiny:
  assumes "nf = 1" "sh = (1, 1, 1, 1)"
  shows "normalise cfg_tiny standard_scaler ([2], [2]) nf \<lparr> shape4 = sh, items4 = [[[[a]]]] \<rparr>
     = Inr \<lparr> shape4 = (1, 1, 1, 1), items4 = [[[[(a - 2) / 2]]]] \<rparr>"
  using assms
  by (simp add: normalise_def standard_scaler_def flatten_samples_def reshape4_def
      cfg_tiny_def default_config_def)

lemma normalise_tiny_train:
  assumes "nf = 1" "sh = (5, 1, 1, 1)"
  shows "normalise cfg_tiny standard_scaler ([2], [2]) nf
     \<lparr> shape4 = sh, items4 = [[[[1]]], [[[1]]], [[[1]]], [[[1]]], [[[6]]]] \<rparr>
     = Inr \<lparr> shape4 = (5, 1, 1, 1),
             items4 = [[[[- 1 / 2]]], [[[- 1 / 2]]], [[[- 1 / 2]]], [[[- 1 / 2]]], [[[2]]]] \<rparr>"
  using assms
  by (simp add: normalise_def standard_scaler_def flatten_samples_def reshape4_def
      cfg_tiny_def default_config_def eval_nat_numeral)

lemma prepare_run1:
  "prepare_data cfg_tiny standard_scaler X_run1 =
     Inr \<lparr> transformer = ([2], [2]),
           training_data_norm = \<lparr> shape4 = (5, 1, 1, 1),
             items4 = [[[[- 1 / 2]]], [[[- 1 / 2]]], [[[- 1 / 2]]], [[[- 1 / 2]]], [[[2]]]] \<rparr>,
           training_target = \<lparr> shape3 = (5, 1, 1), items3 = [[[1]], [[1]], [[1]], [[6]], [[0]]] \<rparr>,
           val_data_norm = \<lparr> shape4 = (1, 1, 1, 1), items4 = [[[[5 / 2]]]] \<rparr>,
           val_target = \<lparr> shape3 = (1, 1, 1), items3 = [[[8]]] \<rparr>,
           testing_data_norm = \<lparr> shape4 = (1, 1, 1, 1), items4 = [[[[7 / 2]]]] \<rparr>,
           testing_target = \<lparr> shape3 = (1, 1, 1), items3 = [[[10]]] \<rparr> \<rparr>"
proof -
  have c: "num_of_vertices cfg_tiny = 1" "num_points_for_train cfg_tiny = 1"
    by (simp_all add: cfg_tiny_def default_config_def)
  show ?thesis
    unfolding prepare_data_def train_run val_run test_run build_tiny_pair build_tiny_train
    by (simp add: c flatten_tiny fit_tiny normalise_tiny normalise_tiny_train)
qed

lemma prepare_run2:
  "prepare_data cfg_tiny standard_scaler X_run2 =
     Inr \<lparr> transformer = ([2], [2]),
           training_data_norm = \<lparr> shape4 = (5, 1, 1, 1),
             items4 = [[[[- 1 / 2]]], [[[- 1 / 2]]], [[[- 1 / 2]]], [[[- 1 / 2]]], [[[2]]]] \<rparr>,
           training_target = \<lparr> shape3 = (5, 1, 1), items3 = [[[1]], [[1]], [[1]], [[6]], [[0]]] \<rparr>,
           val_data_norm = \<lparr> shape4 = (1, 1, 1, 1), items4 = [[[[34]]]] \<rparr>,
           val_target = \<lparr> shape3 = (1, 1, 1), items3 = [[[80]]] \<rparr>,
           testing_data_norm = \<lparr> shape4 = (1, 1, 1, 1), items4 = [[[[44]]]] \<rparr>,
           testing_target = \<lparr> shape3 = (1, 1, 1), items3 = [[[100]]] \<rparr> \<rparr>"
proof -
  have c: "num_of_vertices cfg_tiny = 1" "num_points_for_train cfg_tiny = 1"
    by (simp_all add: cfg_tiny_def default_config_def)
  show ?thesis
    unfolding prepare_data_def train_run val_run test_run build_tiny_pair build_tiny_train
    by (simp add: c flatten_tiny fit_tiny normalise_tiny normalise_tiny_train)
qed

lemma prepare_data_Inr_D:
  assumes "prepare_data cfg sc X = Inr r"
  shows "\<exists>training_data val_data testing_data.
           build_dataset cfg (train_original_data X) = Inr (training_data, training_target r) \<and>
           build_dataset cfg (val_original_data X) = Inr (val_data, val_target r) \<and>
           build_dataset cfg (test_original_data X) = Inr (testing_data, testing_target r) \<and>
           fit sc (flatten_samples training_data) = Inr (transformer r) \<and>
           normalise cfg sc (transformer r) (fst (snd (shape4 training_data))) training_data
             = Inr (training_data_norm r) \<and>
           normalise cfg sc (transformer r) (fst (snd (shape4 training_data))) val_data
             = Inr (val_data_norm r) \<and>
           normalise cfg sc (transformer r) (fst (snd (shape4 training_data))) testing_data
             = Inr (testing_data_norm r)"
  using assms unfolding prepare_data_def
  by (auto split: sum.splits prod.splits if_splits)

text \<open>
  Claim C6. Two runs whose training partitions agree fit the same scaler state and get
  the same normalised training data, whatever their validation and test data are; and in
  each run the validation and the test samples are transformed with that one fitted
  state, which nothing after the fit changes.
\<close>

theorem scaler_fitted_on_training_only:
  assumes same: "train_original_data X1 = train_original_data X2"
    and r1: "prepare_data cfg sc X1 = Inr r1"
    and r2: "prepare_data cfg sc X2 = Inr r2"
  shows "transformer r1 = transformer r2 \<and>
         training_data_norm r1 = training_data_norm r2 \<and>
         (\<exists>training_data training_target val_data1 val_target1 testing_data1 testing_target1
            val_data2 val_target2 testing_data2 testing_target2.
            build_dataset cfg (train_original_data X1) = Inr (training_data, training_target) \<and>
            fit sc (flatten_samples training_data) = Inr (transformer r1) \<and>
            build_dataset cfg (val_original_data X1) = Inr (val_data1, val_target1) \<and>
            build_dataset cfg (test_original_data X1) = Inr (testing_data1, testing_target1) \<and>
            build_dataset cfg (val_original_data X2) = Inr (val_data2, val_target2) \<and>
            build_dataset cfg (test_original_data X2) = Inr (testing_data2, testing_target2) \<and>
            normalise cfg sc (transformer r1) (fst (snd (shape4 training_data))) val_data1
              = Inr (val_data_norm r1) \<and>
            normalise cfg sc (transformer r1) (fst (snd (shape4 training_data))) testing_data1
              = Inr (testing_data_norm r1) \<and>
            normalise cfg sc (transformer r1) (fst (snd (shape4 training_data))) val_data2
              = Inr (val_data_norm r2) \<and>
            normalise cfg sc (transformer r1) (fst (snd (shape4 training_data))) testing_data2
              = Inr (testing_data_norm r2))"
proof -
  from prepare_data_Inr_D[OF r1] obtain td1 vd1 sd1 where
    1: "build_dataset cfg (train_original_data X1) = Inr (td1, training_target r1)"
       "build_dataset cfg (val_original_data X1) = Inr (vd1, val_target r1)"
       "build_dataset cfg (test_original_data X1) = Inr (sd1, testing_target r1)"
       "fit sc (flatten_samples td1) = Inr (transformer r1)"
       "normalise cfg sc (transformer r1) (fst (snd (shape4 td1))) td1 = Inr (training_data_norm r1)"
       "normalise cfg sc (transformer r1) (fst (snd (shape4 td1))) vd1 = Inr (val_data_norm r1)"
       "normalise cfg sc (transformer r1) (fst (snd (shape4 td1))) sd1 = Inr (testing_data_norm r1)"
    by blast
  from prepare_data_Inr_D[OF r2] obtain td2 vd2 sd2 where
    2: "build_dataset cfg (train_original_data X2) = Inr (td2, training_target r2)"
       "build_dataset cfg (val_original_data X2) = Inr (vd2, val_target r2)"
       "build_dataset cfg (test_original_data X2) = Inr (sd2, testing_target r2)"
       "fit sc (flatten_samples td2) = Inr (transformer r2)"
       "normalise cfg sc (transformer r2) (fst (snd (shape4 td2))) td2 = Inr (training_data_norm r2)"
       "normalise cfg sc (transformer r2) (fst (snd (shape4 td2))) vd2 = Inr (val_data_norm r2)"
       "normalise cfg sc (transformer r2) (fst (snd (shape4 td2))) sd2 = Inr (testing_data_norm r2)"
    by blast
  from 1(1) 2(1) same have td: "td2 = td1" by simp
  from 1(4) 2(4) td have st: "transformer r1 = transformer r2" by simp
  from 1(5) 2(5) td st have tn: "training_data_norm r1 = training_data_norm r2" by simp
  from 2(6,7) have 3:
    "normalise cfg sc (transformer r1) (fst (snd (shape4 td1))) vd2 = Inr (val_data_norm r2)"
    "normalise cfg sc (transformer r1) (fst (snd (shape4 td1))) sd2 = Inr (testing_data_norm r2)"
    by (simp_all add: td st)
  from st tn 1(1,4,2,3) 2(2,3) 1(6,7) 3 show ?thesis by blast
qed

text \<open>
  The hypotheses of C6's theorem hold for two series of ten steps that agree on the first
  six and differ afterwards: both runs fit mean 2 and scale 2.
\<close>

theorem scaler_fitted_on_training_only_witness:
  "train_original_data X_run1 = train_original_data X_run2 \<and>
   val_original_data X_run1 \<noteq> val_original_data X_run2 \<and>
   test_original_data X_run1 \<noteq> test_original_data X_run2 \<and>
   (\<exists>r1 r2. prepare_data cfg_tiny standard_scaler X_run1 = Inr r1 \<and>
            prepare_data cfg_tiny standard_scaler X_run2 = Inr r2 \<and>
            transformer r1 = ([2], [2]) \<and> transformer r2 = ([2], [2]) \<and>
            transformer r1 = transformer r2 \<and> training_data_norm r1 = training_data_norm r2)"
proof -
  have same: "train_original_data X_run1 = train_original_data X_run2"
    by (simp add: train_run)
  have diff: "val_original_data X_run1 \<noteq> val_original_data X_run2"
    "test_original_data X_run1 \<noteq> test_original_data X_run2"
    by (simp_all add: val_run test_run)
  from scaler_fitted_on_training_only[OF same prepare_run1 prepare_run2]
  have "transformer
          \<lparr> transformer = ([2::real], [2::real]),
            training_data_norm = \<lparr> shape4 = (5, 1, 1, 1),
              items4 = [[[[- 1 / 2]]], [[[- 1 / 2]]], [[[- 1 / 2]]], [[[- 1 / 2]]], [[[2]]]] \<rparr>,
            training_target = \<lparr> shape3 = (5, 1, 1), items3 = [[[1]], [[1]], [[1]], [[6]], [[0]]] \<rparr>,
            val_data_norm = \<lparr> shape4 = (1, 1, 1, 1), items4 = [[[[5 / 2]]]] \<rparr>,
            val_target = \<lparr> shape3 = (1, 1, 1), items3 = [[[8]]] \<rparr>,
            testing_data_norm = \<lparr> shape4 = (1, 1, 1, 1), items4 = [[[[7 / 2]]]] \<rparr>,
            testing_target = \<lparr> shape3 = (1, 1, 1), items3 = [[[10]]] \<rparr> \<rparr>
        = transformer
          \<lparr> transformer = ([2::real], [2::real]),
            training_data_norm = \<lparr> shape4 = (5, 1, 1, 1),
              items4 = [[[[- 1 / 2]]], [[[- 1 / 2]]], [[[- 1 / 2]]], [[[- 1 / 2]]], [[[2]]]] \<rparr>,
            training_target = \<lparr> shape3 = (5, 1, 1), items3 = [[[1]], [[1]], [[1]], [[6]], [[0]]] \<rparr>,
            val_data_norm = \<lparr> shape4 = (1, 1, 1, 1), items4 = [[[[34]]]] \<rparr>,
            val_target = \<lparr> shape3 = (1, 1, 1), items3 = [[[80]]] \<rparr>,
            testing_data_norm = \<lparr> shape4 = (1, 1, 1, 1), items4 = [[[[44]]]] \<rparr>,
            testing_target = \<lparr> shape3 = (1, 1, 1), items3 = [[[100]]] \<rparr> \<rparr>"
    by blast
  with same diff prepare_run1 prepare_run2 show ?thesis by simp
qed
section \<open>Properties of the training loop\<close>

lemma run_epochs_append:
  "run_epochs cfg eng tr va te (xs @ ys) st =
     (case run_epochs cfg eng tr va te xs st of
        Inl e \<Rightarrow> Inl e
      | Inr st' \<Rightarrow> run_epochs cfg eng tr va te ys st')"
  by (induction xs arbitrary: st) (simp_all split: sum.splits)

lemma train_batches_losses:
  "length (snd (train_batches eng lr bs (p, ls))) = length ls + length bs"
  by (induction bs arbitrary: p ls) (simp_all split: prod.splits)

lemma train_epoch_ok:
  assumes "tr epoch \<noteq> []" "va \<noteq> []" "te \<noteq> []" "0 < decay_interval cfg"
  shows "\<exists>st'. train_epoch cfg eng tr va te epoch st = Inr st' \<and>
           net_params st' =
             fst (train_batches eng (trainer_learning_rate st) (tr epoch) (net_params st, [])) \<and>
           trainer_learning_rate st' =
             (if Suc epoch mod decay_interval cfg = 0
              then double_mult (trainer_learning_rate st) (Fin (decay_rate cfg))
              else trainer_learning_rate st) \<and>
           map fst (saved_parameters st') =
             map fst (saved_parameters st) @
               (if Suc epoch mod 5 = 0 then [checkpoint_filename epoch] else [])"
proof -
  obtain p ls where tb: "train_batches eng (trainer_learning_rate st) (tr epoch) (net_params st, []) = (p, ls)"
    by (cases "train_batches eng (trainer_learning_rate st) (tr epoch) (net_params st, [])")
  from train_batches_losses[of eng "trainer_learning_rate st" "tr epoch" "net_params st" "[]"] tb assms(1)
  have "ls \<noteq> []" by auto
  then show ?thesis
    using assms(2,3,4) by (simp add: train_epoch_def tb mean_loss_def Let_def del: double_mult.simps)
qed

lemma digit_char_value:
  assumes "d < 10"
  shows "of_char (digit_char d) - 48 = d"
proof -
  from assms have "d = 0 \<or> d = 1 \<or> d = 2 \<or> d = 3 \<or> d = 4 \<or> d = 5 \<or> d = 6 \<or> d = 7 \<or> d = 8 \<or> d = 9"
    by arith
  then show ?thesis
    by (elim disjE) (simp_all add: digit_char_def)
qed

lemma digits_value_snoc:
  "digits_value (s @ [c]) = 10 * digits_value s + (of_char c - 48)"
  by (simp add: digits_value_def)

lemma digits_value_py_str: "digits_value (py_str n) = n"
proof (induction n rule: py_str.induct)
  case (1 n)
  show ?case
  proof (cases "n < 10")
    case True
    then show ?thesis
      using digit_char_value[of n] by (simp add: py_str.simps[of n] digits_value_def)
  next
    case False
    have "n mod 10 < 10" by simp
    from digit_char_value[OF this] "1.IH"[OF False] False
    show ?thesis
      by (simp add: py_str.simps[of n] digits_value_snoc)
  qed
qed

lemma py_str_inject: "py_str m = py_str n \<Longrightarrow> m = n"
  by (metis digits_value_py_str)

lemma checkpoint_filename_inject: "checkpoint_filename m = checkpoint_filename n \<Longrightarrow> m = n"
  by (simp add: checkpoint_filename_def py_str_inject)

lemma run_epochs_prefix:
  assumes "\<forall>e<n. tr e \<noteq> []" "va \<noteq> []" "te \<noteq> []" "0 < decay_interval cfg"
  shows "\<exists>st'. run_epochs cfg eng tr va te [0..<n] st = Inr st' \<and>
           trainer_learning_rate st' =
             decayed cfg (trainer_learning_rate st) (n div decay_interval cfg) \<and>
           map fst (saved_parameters st') =
             map fst (saved_parameters st) @
               map checkpoint_filename (filter (\<lambda>e. Suc e mod 5 = 0) [0..<n])"
  using assms(1)
proof (induction n)
  case 0
  then show ?case by simp
next
  case (Suc n)
  then obtain st1 where
    r: "run_epochs cfg eng tr va te [0..<n] st = Inr st1" and
    lr: "trainer_learning_rate st1 = decayed cfg (trainer_learning_rate st) (n div decay_interval cfg)" and
    sv: "map fst (saved_parameters st1) =
           map fst (saved_parameters st) @ map checkpoint_filename (filter (\<lambda>e. Suc e mod 5 = 0) [0..<n])"
    by auto
  from Suc.prems have "tr n \<noteq> []" by simp
  from train_epoch_ok[where tr = tr and epoch = n and eng = eng and st = st1, OF this assms(2,3,4)] obtain st2 where
    e: "train_epoch cfg eng tr va te n st1 = Inr st2" and
    lr2: "trainer_learning_rate st2 =
            (if Suc n mod decay_interval cfg = 0
             then double_mult (trainer_learning_rate st1) (Fin (decay_rate cfg))
             else trainer_learning_rate st1)" and
    sv2: "map fst (saved_parameters st2) =
            map fst (saved_parameters st1) @ (if Suc n mod 5 = 0 then [checkpoint_filename n] else [])"
    by blast
  have run: "run_epochs cfg eng tr va te [0..<Suc n] st = Inr st2"
    by (simp add: run_epochs_append r e)
  have "trainer_learning_rate st2 =
          decayed cfg (trainer_learning_rate st) (Suc n div decay_interval cfg)"
    by (simp add: lr2 lr div_Suc del: double_mult.simps)
  moreover have "map fst (saved_parameters st2) =
          map fst (saved_parameters st) @
            map checkpoint_filename (filter (\<lambda>e. Suc e mod 5 = 0) [0..<Suc n])"
    by (simp add: sv2 sv)
  ultimately show ?case using run by blast
qed

lemma train_model_state_after:
  "train_model cfg eng tr va te st = state_after cfg eng tr va te st (epochs cfg)"
  by (simp add: train_model_def state_after_def)

lemma state_after_ok:
  assumes ne: "loaders_nonempty cfg tr va te" and di: "0 < decay_interval cfg" and n: "n \<le> epochs cfg"
  shows "\<exists>st'. state_after cfg eng tr va te st n = Inr st' \<and>
           trainer_learning_rate st' =
             decayed cfg (trainer_learning_rate st) (n div decay_interval cfg) \<and>
           map fst (saved_parameters st') =
             map fst (saved_parameters st) @
               map checkpoint_filename (filter (\<lambda>e. Suc e mod 5 = 0) [0..<n])"
proof -
  from ne n have 1: "\<forall>e<n. tr e \<noteq> []" and 2: "va \<noteq> []" and 3: "te \<noteq> []"
    by (auto simp: loaders_nonempty_def)
  from run_epochs_prefix[OF 1 2 3 di, of eng
      "st\<lparr> train_loss_list := [], val_loss_list := [], test_loss_list := [] \<rparr>"]
  show ?thesis by (simp add: state_after_def)
qed

lemma state_after_Suc:
  assumes "state_after cfg eng tr va te st n = Inr st_n"
  shows "state_after cfg eng tr va te st (Suc n) = train_epoch cfg eng tr va te n st_n"
  using assms by (simp add: state_after_def run_epochs_append split: sum.splits)

lemma epoch_uses_rate_then_decays:
  assumes ne: "loaders_nonempty cfg tr va te" and di: "0 < decay_interval cfg" and n: "n < epochs cfg"
  shows "\<exists>st_n st_n'.
           state_after cfg eng tr va te st n = Inr st_n \<and>
           state_after cfg eng tr va te st (Suc n) = Inr st_n' \<and>
           trainer_learning_rate st_n =
             decayed cfg (trainer_learning_rate st) (n div decay_interval cfg) \<and>
           net_params st_n' =
             fst (train_batches eng (trainer_learning_rate st_n) (tr n) (net_params st_n, [])) \<and>
           trainer_learning_rate st_n' =
             (if (n + 1) mod decay_interval cfg = 0
              then double_mult (trainer_learning_rate st_n) (Fin (decay_rate cfg))
              else trainer_learning_rate st_n)"
proof -
  from n have le: "n \<le> epochs cfg" by simp
  from state_after_ok[OF ne di le, of eng st] obtain st_n where
    a: "state_after cfg eng tr va te st n = Inr st_n" and
    r: "trainer_learning_rate st_n = decayed cfg (trainer_learning_rate st) (n div decay_interval cfg)"
    by blast
  from ne n have 1: "tr n \<noteq> []" and 2: "va \<noteq> []" and 3: "te \<noteq> []"
    by (auto simp: loaders_nonempty_def)
  from train_epoch_ok[where tr = tr and epoch = n and eng = eng and st = st_n, OF 1 2 3 di] obtain st_n' where
    e: "train_epoch cfg eng tr va te n st_n = Inr st_n'" and
    p: "net_params st_n' =
          fst (train_batches eng (trainer_learning_rate st_n) (tr n) (net_params st_n, []))" and
    l: "trainer_learning_rate st_n' =
          (if Suc n mod decay_interval cfg = 0
           then double_mult (trainer_learning_rate st_n) (Fin (decay_rate cfg))
           else trainer_learning_rate st_n)"
    by blast
  from state_after_Suc[OF a] e have b: "state_after cfg eng tr va te st (Suc n) = Inr st_n'" by simp
  from l have l': "trainer_learning_rate st_n' =
             (if (n + 1) mod decay_interval cfg = 0
              then double_mult (trainer_learning_rate st_n) (Fin (decay_rate cfg))
              else trainer_learning_rate st_n)" by simp
  show ?thesis
    by (rule exI[of _ st_n], rule exI[of _ st_n']) (intro conjI a b r p l')
qed

text \<open>The products of doubles in the script's own schedule.\<close>

lemma script_rates:
  "learning_rate default_config = 5764607523034235 / 2 ^ 59"
  "decay_rate default_config = 6305039478318694 / 2 ^ 53"
  by (simp_all add: default_config_def)

lemma round_first_decay:
  "round_double (5764607523034235 / 2 ^ 59 * (6305039478318694 / 2 ^ 53)) = Fin (8070450532247928 / 2 ^ 60)"
proof -
  have "round_double (5764607523034235 / 2 ^ 59 * (6305039478318694 / 2 ^ 53))
          = Fin (of_int 8070450532247928 * pow2 (- 8 - 52))"
    by (rule round_double_eval) (simp_all add: pow2_def round_even_def Let_def)
  then show ?thesis by (simp add: pow2_def)
qed

lemma round_second_decay:
  "round_double (8070450532247928 / 2 ^ 60 * (6305039478318694 / 2 ^ 53)) = Fin (5649315372573549 / 2 ^ 60)"
proof -
  have "round_double (8070450532247928 / 2 ^ 60 * (6305039478318694 / 2 ^ 53))
          = Fin (of_int 5649315372573549 * pow2 (- 8 - 52))"
    by (rule round_double_eval) (simp_all add: pow2_def round_even_def Let_def)
  then show ?thesis by (simp add: pow2_def)
qed

lemma round_square_decay:
  "round_double (6305039478318694 / 2 ^ 53 * (6305039478318694 / 2 ^ 53)) = Fin (8827055269646171 / 2 ^ 54)"
proof -
  have "round_double (6305039478318694 / 2 ^ 53 * (6305039478318694 / 2 ^ 53))
          = Fin (of_int 8827055269646171 * pow2 (- 2 - 52))"
    by (rule round_double_eval) (simp_all add: pow2_def round_even_def Let_def)
  then show ?thesis by (simp add: pow2_def)
qed

lemma round_rate_times_square:
  "round_double (5764607523034235 / 2 ^ 59 * (8827055269646171 / 2 ^ 54)) = Fin (5649315372573550 / 2 ^ 60)"
proof -
  have "round_double (5764607523034235 / 2 ^ 59 * (8827055269646171 / 2 ^ 54))
          = Fin (of_int 5649315372573550 * pow2 (- 8 - 52))"
    by (rule round_double_eval) (simp_all add: pow2_def round_even_def Let_def)
  then show ?thesis by (simp add: pow2_def)
qed

lemma round_49_10000:
  "round_double (49 / 10000) = Fin (5649315372573550 / 2 ^ 60)"
proof -
  have "round_double (49 / 10000)
          = Fin (of_int 5649315372573550 * pow2 (- 8 - 52))"
    by (rule round_double_eval) (simp_all add: pow2_def round_even_def Let_def)
  then show ?thesis by (simp add: pow2_def)
qed

lemma decay_once:
  "double_mult (Fin (learning_rate default_config)) (Fin (decay_rate default_config)) =
     Fin (8070450532247928 / 2 ^ 60)"
  unfolding script_rates double_mult.simps by (rule round_first_decay)

lemma decay_twice:
  "double_mult (double_mult (Fin (learning_rate default_config)) (Fin (decay_rate default_config)))
     (Fin (decay_rate default_config)) = Fin (5649315372573549 / 2 ^ 60)"
  unfolding decay_once unfolding script_rates double_mult.simps by (rule round_second_decay)

lemma decay_squared:
  "double_mult (Fin (learning_rate default_config))
     (double_mult (Fin (decay_rate default_config)) (Fin (decay_rate default_config))) =
   Fin (5649315372573550 / 2 ^ 60)"
  unfolding script_rates double_mult.simps round_square_decay by (rule round_rate_times_square)

lemma decayed_script:
  "decayed default_config (Fin (learning_rate default_config)) 0 = Fin (learning_rate default_config)"
  "decayed default_config (Fin (learning_rate default_config)) 1 = Fin (8070450532247928 / 2 ^ 60)"
  "decayed default_config (Fin (learning_rate default_config)) 2 = Fin (5649315372573549 / 2 ^ 60)"
proof -
  show "decayed default_config (Fin (learning_rate default_config)) 0 = Fin (learning_rate default_config)"
    by simp
  have 1: "decayed default_config (Fin (learning_rate default_config)) (Suc 0) = Fin (8070450532247928 / 2 ^ 60)"
    unfolding decayed.simps by (rule decay_once)
  then show "decayed default_config (Fin (learning_rate default_config)) 1 = Fin (8070450532247928 / 2 ^ 60)"
    by (simp del: decayed.simps)
  have "decayed default_config (Fin (learning_rate default_config)) (Suc (Suc 0)) = Fin (5649315372573549 / 2 ^ 60)"
    unfolding decayed.simps by (rule decay_twice)
  then show "decayed default_config (Fin (learning_rate default_config)) 2 = Fin (5649315372573549 / 2 ^ 60)"
    by (simp add: numeral_2_eq_2 del: decayed.simps)
qed

text \<open>
  Claim C5, as the code has it. When no loader is empty and \<open>decay_interval\<close> is
  positive, the run completes, and after \<open>n\<close> epochs the trainer's learning rate is the
  initial rate multiplied \<open>n div decay_interval\<close> times by \<open>decay_rate\<close>, each product
  rounded to a double. Epoch number \<open>n\<close> (counted from 0) starts from the state after
  \<open>n\<close> epochs, all its optimiser steps are taken at that state's rate, and only then,
  when \<open>n + 1\<close> is a multiple of \<open>decay_interval\<close>, is the rate multiplied: the new
  rate takes effect from the next epoch on, and the factors compound.
\<close>

theorem learning_rate_decay:
  assumes ne: "loaders_nonempty cfg tr va te" and di: "0 < decay_interval cfg"
  shows "(\<forall>n\<le>epochs cfg. \<exists>st_n.
            state_after cfg eng tr va te st n = Inr st_n \<and>
            trainer_learning_rate st_n =
              decayed cfg (trainer_learning_rate st) (n div decay_interval cfg)) \<and>
         (\<forall>n<epochs cfg. \<exists>st_n st_n'.
            state_after cfg eng tr va te st n = Inr st_n \<and>
            state_after cfg eng tr va te st (Suc n) = Inr st_n' \<and>
            trainer_learning_rate st_n =
              decayed cfg (trainer_learning_rate st) (n div decay_interval cfg) \<and>
            net_params st_n' =
              fst (train_batches eng (trainer_learning_rate st_n) (tr n) (net_params st_n, [])) \<and>
            trainer_learning_rate st_n' =
              (if (n + 1) mod decay_interval cfg = 0
               then double_mult (trainer_learning_rate st_n) (Fin (decay_rate cfg))
               else trainer_learning_rate st_n)) \<and>
         (\<exists>st'. train_model cfg eng tr va te st = Inr st' \<and>
            trainer_learning_rate st' =
              decayed cfg (trainer_learning_rate st) (epochs cfg div decay_interval cfg))"
proof (intro conjI allI impI)
  fix n assume "n \<le> epochs cfg"
  from state_after_ok[OF ne di this, of eng st]
  show "\<exists>st_n. state_after cfg eng tr va te st n = Inr st_n \<and>
            trainer_learning_rate st_n =
              decayed cfg (trainer_learning_rate st) (n div decay_interval cfg)"
    by blast
next
  fix n assume "n < epochs cfg"
  from epoch_uses_rate_then_decays[OF ne di this, of eng st]
  show "\<exists>st_n st_n'.
            state_after cfg eng tr va te st n = Inr st_n \<and>
            state_after cfg eng tr va te st (Suc n) = Inr st_n' \<and>
            trainer_learning_rate st_n =
              decayed cfg (trainer_learning_rate st) (n div decay_interval cfg) \<and>
            net_params st_n' =
              fst (train_batches eng (trainer_learning_rate st_n) (tr n) (net_params st_n, [])) \<and>
            trainer_learning_rate st_n' =
              (if (n + 1) mod decay_interval cfg = 0
               then double_mult (trainer_learning_rate st_n) (Fin (decay_rate cfg))
               else trainer_learning_rate st_n)" .
next
  from state_after_ok[OF ne di order_refl, of eng st]
  show "\<exists>st'. train_model cfg eng tr va te st = Inr st' \<and>
            trainer_learning_rate st' =
              decayed cfg (trainer_learning_rate st) (epochs cfg div decay_interval cfg)"
    unfolding train_model_state_after by blast
qed

lemma loaders_nonempty_unit: "loaders_nonempty cfg one_batch [()] [()]"
  by (simp add: loaders_nonempty_def one_batch_def)

text \<open>A run with the counting engine, computed epoch by epoch.\<close>

lemma counting_epoch:
  assumes "decay_interval cfg = 5"
  shows "train_epoch cfg counting_engine one_batch [()] [()] epoch st =
     Inr ((if (epoch + 1) mod 5 = 0
           then st\<lparr> net_params := net_params st + 1,
                    train_loss_list := train_loss_list st @ [0],
                    val_loss_list := val_loss_list st @ [0],
                    test_loss_list := test_loss_list st @ [0],
                    results_log := results_log st @ [(0, 0, 0)],
                    saved_parameters := saved_parameters st @ [(checkpoint_filename epoch, net_params st + 1)],
                    trainer_learning_rate := double_mult (trainer_learning_rate st) (Fin (decay_rate cfg)) \<rparr>
           else st\<lparr> net_params := net_params st + 1,
                    train_loss_list := train_loss_list st @ [0],
                    val_loss_list := val_loss_list st @ [0],
                    test_loss_list := test_loss_list st @ [0],
                    results_log := results_log st @ [(0, 0, 0)] \<rparr>))"
  using assms
  by (simp add: train_epoch_def counting_engine_def one_batch_def mean_loss_def Let_def
      del: double_mult.simps)

lemma upt10: "[0..<10] = [0, 1, 2, 3, 4, 5, 6, 7, 8, 9]"
  by (simp add: upt_rec)

lemma upt12: "[0..<12] = [0, 1, 2, 3, 4, 5, 6, 7, 8, 9, 10, 11]"
  by (simp add: upt_rec)

lemma boundaries12: "filter (\<lambda>e. Suc e mod 5 = 0) [0..<12] = [4, 9]"
  by (simp add: upt_rec)

lemma checkpoint_names: 
  "checkpoint_filename 4 = ''stgcn_params/stgcn.params_4''"
  "checkpoint_filename 9 = ''stgcn_params/stgcn.params_9''"
  by (simp_all add: checkpoint_filename_def py_str.simps digit_char_def)

lemma checkpoint_filename_value: "digits_value (drop 26 (checkpoint_filename e)) = e"
  by (simp add: checkpoint_filename_def digits_value_py_str)


lemma ten_epochs:
  "train_model default_config counting_engine one_batch [()] [()] (initial_state default_config 0) =
     Inr \<lparr> net_params = 10, trainer_learning_rate = Fin (5649315372573549 / 2 ^ 60),
           train_loss_list = [0, 0, 0, 0, 0, 0, 0, 0, 0, 0],
           val_loss_list = [0, 0, 0, 0, 0, 0, 0, 0, 0, 0],
           test_loss_list = [0, 0, 0, 0, 0, 0, 0, 0, 0, 0],
           results_log = [(0, 0, 0), (0, 0, 0), (0, 0, 0), (0, 0, 0), (0, 0, 0),
                          (0, 0, 0), (0, 0, 0), (0, 0, 0), (0, 0, 0), (0, 0, 0)],
           saved_parameters = [(''stgcn_params/stgcn.params_4'', 5), (''stgcn_params/stgcn.params_9'', 10)] \<rparr>"
proof -
  have e: "epochs default_config = 10" and di: "decay_interval default_config = 5"
    by (simp_all add: default_config_def)
  show ?thesis
    unfolding train_model_def e initial_state_def upt10
    by (simp add: counting_epoch[OF di] checkpoint_names decay_twice del: double_mult.simps)
qed

lemma twelve_epochs:
  "train_model cfg12 counting_engine one_batch [()] [()] (initial_state cfg12 0) =
     Inr \<lparr> net_params = 12, trainer_learning_rate = Fin (5649315372573549 / 2 ^ 60),
           train_loss_list = [0, 0, 0, 0, 0, 0, 0, 0, 0, 0, 0, 0],
           val_loss_list = [0, 0, 0, 0, 0, 0, 0, 0, 0, 0, 0, 0],
           test_loss_list = [0, 0, 0, 0, 0, 0, 0, 0, 0, 0, 0, 0],
           results_log = [(0, 0, 0), (0, 0, 0), (0, 0, 0), (0, 0, 0), (0, 0, 0), (0, 0, 0),
                          (0, 0, 0), (0, 0, 0), (0, 0, 0), (0, 0, 0), (0, 0, 0), (0, 0, 0)],
           saved_parameters = [(''stgcn_params/stgcn.params_4'', 5), (''stgcn_params/stgcn.params_9'', 10)] \<rparr>"
proof -
  have e: "epochs cfg12 = 12" and di: "decay_interval cfg12 = 5"
    and l: "learning_rate cfg12 = learning_rate default_config"
    and d: "decay_rate cfg12 = decay_rate default_config"
    by (simp_all add: cfg12_def default_config_def)
  show ?thesis
    unfolding train_model_def e initial_state_def upt12
    by (simp add: counting_epoch[OF di] checkpoint_names l d decay_twice del: double_mult.simps)
qed

text \<open>
  Claim C5 as stated fails in its last bit. With the script's configuration the run of
  ten epochs ends with the rate \<open>(1e-2 * 0.7) * 0.7\<close>, rounded after each product:
  the double \<open>5649315372573549 / 2\<^sup>6\<^sup>0\<close>, printed \<^verbatim>\<open>0.004899999999999999\<close>. That is
  not the number \<open>0.01 \<times> 0.7\<^sup>2 = 0.0049\<close>, not the double nearest to it, and not the
  double \<^verbatim>\<open>1e-2 * 0.7**2\<close>; the last two are \<open>5649315372573550 / 2\<^sup>6\<^sup>0\<close>, one unit
  in the last place above.
\<close>

theorem learning_rate_decay_counterexample:
  "train_model default_config counting_engine one_batch [()] [()] (initial_state default_config 0) =
     Inr \<lparr> net_params = 10, trainer_learning_rate = Fin (5649315372573549 / 2 ^ 60),
           train_loss_list = [0, 0, 0, 0, 0, 0, 0, 0, 0, 0],
           val_loss_list = [0, 0, 0, 0, 0, 0, 0, 0, 0, 0],
           test_loss_list = [0, 0, 0, 0, 0, 0, 0, 0, 0, 0],
           results_log = [(0, 0, 0), (0, 0, 0), (0, 0, 0), (0, 0, 0), (0, 0, 0),
                          (0, 0, 0), (0, 0, 0), (0, 0, 0), (0, 0, 0), (0, 0, 0)],
           saved_parameters = [(''stgcn_params/stgcn.params_4'', 5), (''stgcn_params/stgcn.params_9'', 10)] \<rparr> \<and>
   Fin (5649315372573549 / 2 ^ 60) \<noteq> Fin (1 / 100 * (7 / 10) ^ 2) \<and>
   round_double (1 / 100 * (7 / 10) ^ 2) = Fin (5649315372573550 / 2 ^ 60) \<and>
   double_mult (Fin (learning_rate default_config))
     (double_mult (Fin (decay_rate default_config)) (Fin (decay_rate default_config))) =
     Fin (5649315372573550 / 2 ^ 60) \<and>
   Fin (5649315372573549 / 2 ^ 60) \<noteq> Fin (5649315372573550 / 2 ^ 60)"
proof -
  have a: "(1 / 100 * (7 / 10) ^ 2 :: real) = 49 / 10000" by (simp add: power2_eq_square)
  have b: "Fin (5649315372573549 / 2 ^ 60) \<noteq> Fin (1 / 100 * (7 / 10) ^ 2)"
    unfolding a by simp
  have c: "Fin (5649315372573549 / 2 ^ 60) \<noteq> Fin (5649315372573550 / 2 ^ 60)" by simp
  from ten_epochs b round_49_10000[folded a] decay_squared c show ?thesis
    by (intro conjI)
qed

text \<open>
  With the script's own configuration (rate \<^verbatim>\<open>1e-2\<close>, decay \<^verbatim>\<open>0.7\<close>, interval 5, ten
  epochs) the hypotheses of C5's theorem hold: the fifth epoch (index 4) takes its step
  at the initial rate and leaves the rate \<open>1e-2 * 0.7\<close>, and the run ends with
  \<open>(1e-2 * 0.7) * 0.7\<close>.
\<close>

theorem learning_rate_decay_witness:
  "loaders_nonempty default_config one_batch [()] [()] \<and>
   0 < decay_interval default_config \<and>
   epochs default_config = 10 \<and> decay_interval default_config = 5 \<and>
   (\<exists>st_4 st_5.
      state_after default_config counting_engine one_batch [()] [()] (initial_state default_config 0) 4 = Inr st_4 \<and>
      state_after default_config counting_engine one_batch [()] [()] (initial_state default_config 0) 5 = Inr st_5 \<and>
      trainer_learning_rate st_4 = Fin (learning_rate default_config) \<and>
      net_params st_5 = net_params st_4 + 1 \<and>
      trainer_learning_rate st_5 = Fin (8070450532247928 / 2 ^ 60)) \<and>
   (\<exists>st'. train_model default_config counting_engine one_batch [()] [()]
            (initial_state default_config 0) = Inr st' \<and>
          trainer_learning_rate st' = Fin (5649315372573549 / 2 ^ 60))"
proof -
  let ?st = "initial_state default_config (0::nat)"
  have di: "0 < decay_interval default_config" by (simp add: default_config_def)
  have c: "epochs default_config = 10" "decay_interval default_config = 5"
    by (simp_all add: default_config_def)
  have l0: "trainer_learning_rate ?st = Fin (learning_rate default_config)"
    by (simp add: initial_state_def)
  note t = learning_rate_decay[OF loaders_nonempty_unit di, of counting_engine ?st]
  have n4: "(4::nat) < epochs default_config" by (simp add: c)
  from t[THEN conjunct2, THEN conjunct1, rule_format, OF n4] obtain st_4 st_5 where
    s4: "state_after default_config counting_engine one_batch [()] [()] ?st 4 = Inr st_4" and
    s5: "state_after default_config counting_engine one_batch [()] [()] ?st (Suc 4) = Inr st_5" and
    r4: "trainer_learning_rate st_4 = decayed default_config (trainer_learning_rate ?st) (4 div decay_interval default_config)" and
    p5: "net_params st_5 = fst (train_batches counting_engine (trainer_learning_rate st_4) (one_batch 4) (net_params st_4, []))" and
    r5: "trainer_learning_rate st_5 =
           (if (4 + 1) mod decay_interval default_config = 0
            then double_mult (trainer_learning_rate st_4) (Fin (decay_rate default_config))
            else trainer_learning_rate st_4)"
    by blast
  have r4': "trainer_learning_rate st_4 = Fin (learning_rate default_config)"
    unfolding r4 l0 c by (simp del: double_mult.simps)
  have p5': "net_params st_5 = net_params st_4 + 1"
    unfolding p5 by (simp add: one_batch_def counting_engine_def)
  have r5': "trainer_learning_rate st_5 = Fin (8070450532247928 / 2 ^ 60)"
    unfolding r5 r4' c using decay_once by (simp del: double_mult.simps)
  from s5 have s5': "state_after default_config counting_engine one_batch [()] [()] ?st 5 = Inr st_5"
    by (simp add: eval_nat_numeral)
  have A: "\<exists>st_4 st_5.
      state_after default_config counting_engine one_batch [()] [()] ?st 4 = Inr st_4 \<and>
      state_after default_config counting_engine one_batch [()] [()] ?st 5 = Inr st_5 \<and>
      trainer_learning_rate st_4 = Fin (learning_rate default_config) \<and>
      net_params st_5 = net_params st_4 + 1 \<and>
      trainer_learning_rate st_5 = Fin (8070450532247928 / 2 ^ 60)"
    by (rule exI[of _ st_4], rule exI[of _ st_5]) (intro conjI s4 s5' r4' p5' r5')
  have k: "(10::nat) div 5 = 2" by simp
  from t[THEN conjunct2, THEN conjunct2] have B: "\<exists>st'. train_model default_config counting_engine one_batch [()] [()] ?st = Inr st' \<and>
          trainer_learning_rate st' = Fin (5649315372573549 / 2 ^ 60)"
    unfolding l0 c k decayed_script .
  from loaders_nonempty_unit di c A B show ?thesis by (intro conjI)
qed

text \<open>
  Claim C4, as the code has it. A run that completes saves the parameters exactly at the
  end of the epochs whose loop index \<open>epoch\<close> satisfies \<open>(epoch + 1) mod 5 = 0\<close>, in
  that order, each under \<^verbatim>\<open>stgcn_params/stgcn.params_\<close> followed by the decimal digits
  of that zero-based index; the names are pairwise different. The fifth epoch is
  therefore saved under the tag 4, the tenth under the tag 9.
\<close>

theorem checkpoints_at_five_epoch_boundaries:
  assumes ne: "loaders_nonempty cfg tr va te" and di: "0 < decay_interval cfg"
  shows "\<exists>st'. train_model cfg eng tr va te st = Inr st' \<and>
           map fst (saved_parameters st') =
             map fst (saved_parameters st) @
               map checkpoint_filename (filter (\<lambda>epoch. (epoch + 1) mod 5 = 0) [0..<epochs cfg]) \<and>
           distinct (map checkpoint_filename (filter (\<lambda>epoch. (epoch + 1) mod 5 = 0) [0..<epochs cfg])) \<and>
           (\<forall>epoch. checkpoint_filename epoch = ''stgcn_params/stgcn.params_'' @ py_str epoch \<and>
                    digits_value (py_str epoch) = epoch)"
proof -
  from state_after_ok[OF ne di order_refl, of eng st] obtain st' where
    r: "train_model cfg eng tr va te st = Inr st'" and
    s: "map fst (saved_parameters st') =
          map fst (saved_parameters st) @
            map checkpoint_filename (filter (\<lambda>e. Suc e mod 5 = 0) [0..<epochs cfg])"
    unfolding train_model_state_after by blast
  have "inj checkpoint_filename"
    by (rule injI) (rule checkpoint_filename_inject)
  then have d: "distinct (map checkpoint_filename (filter (\<lambda>e. Suc e mod 5 = 0) [0..<epochs cfg]))"
    by (simp add: distinct_map inj_on_def checkpoint_filename_inject)
  from r s d show ?thesis
    by (simp add: checkpoint_filename_def digits_value_py_str)
qed

text \<open>The hypotheses of C4's theorem hold for a run of twelve epochs, which saves two files.\<close>

theorem checkpoints_at_five_epoch_boundaries_witness:
  "loaders_nonempty cfg12 one_batch [()] [()] \<and> 0 < decay_interval cfg12 \<and>
   epochs cfg12 = 12 \<and>
   (\<exists>st'. train_model cfg12 counting_engine one_batch [()] [()] (initial_state cfg12 0) = Inr st' \<and>
          map fst (saved_parameters st') =
            [''stgcn_params/stgcn.params_4'', ''stgcn_params/stgcn.params_9''])"
proof -
  have di: "0 < decay_interval cfg12" and e: "epochs cfg12 = 12"
    by (simp_all add: cfg12_def default_config_def)
  have s0: "saved_parameters (initial_state cfg12 (0::nat)) = []"
    by (simp add: initial_state_def)
  have b: "filter (\<lambda>epoch. (epoch + 1) mod 5 = 0) [0..<12] = [4, 9]"
    using boundaries12 by simp
  from checkpoints_at_five_epoch_boundaries[OF loaders_nonempty_unit di, of counting_engine "initial_state cfg12 0"]
  have "\<exists>st'. train_model cfg12 counting_engine one_batch [()] [()] (initial_state cfg12 0) = Inr st' \<and>
          map fst (saved_parameters st') =
            [''stgcn_params/stgcn.params_4'', ''stgcn_params/stgcn.params_9'']"
    unfolding e s0 b by (auto simp: checkpoint_names)
  with loaders_nonempty_unit di e show ?thesis by blast
qed


text \<open>
  Claim C4 as stated fails: the twelve-epoch run writes the files tagged 4 and 9; no
  file is tagged 5 or 10.
\<close>

theorem checkpoint_tags_counterexample:
  "train_model cfg12 counting_engine one_batch [()] [()] (initial_state cfg12 0) =
     Inr \<lparr> net_params = 12, trainer_learning_rate = Fin (5649315372573549 / 2 ^ 60),
           train_loss_list = [0, 0, 0, 0, 0, 0, 0, 0, 0, 0, 0, 0],
           val_loss_list = [0, 0, 0, 0, 0, 0, 0, 0, 0, 0, 0, 0],
           test_loss_list = [0, 0, 0, 0, 0, 0, 0, 0, 0, 0, 0, 0],
           results_log = [(0, 0, 0), (0, 0, 0), (0, 0, 0), (0, 0, 0), (0, 0, 0), (0, 0, 0),
                          (0, 0, 0), (0, 0, 0), (0, 0, 0), (0, 0, 0), (0, 0, 0), (0, 0, 0)],
           saved_parameters = [(''stgcn_params/stgcn.params_4'', 5), (''stgcn_params/stgcn.params_9'', 10)] \<rparr> \<and>
   ''stgcn_params/stgcn.params_5'' \<notin> set [''stgcn_params/stgcn.params_4'', ''stgcn_params/stgcn.params_9''] \<and>
   ''stgcn_params/stgcn.params_10'' \<notin> set [''stgcn_params/stgcn.params_4'', ''stgcn_params/stgcn.params_9'']"
  by (simp add: twelve_epochs)

section \<open>Properties of the Chebyshev basis\<close>

lemma cheb_extend_length: "length (cheb_extend L n polys) = length polys + n"
  by (induction n arbitrary: polys) simp_all

lemma cheb_extend_prefix:
  "k < length polys \<Longrightarrow> cheb_extend L n polys ! k = polys ! k"
  by (induction n arbitrary: polys) (simp_all add: nth_append)

lemma cheb_extend_recurrence:
  assumes "2 \<le> length polys" "length polys \<le> k" "k < length polys + n"
  shows "cheb_extend L n polys ! k =
           cheb_next L (cheb_extend L n polys ! (k - 1)) (cheb_extend L n polys ! (k - 2))"
  using assms
proof (induction n arbitrary: polys)
  case 0
  then show ?case by simp
next
  case (Suc n)
  let ?new = "cheb_next L (last polys) (last (butlast polys))"
  let ?polys = "polys @ [?new]"
  show ?case
  proof (cases "k = length polys")
    case True
    have "length (butlast polys) \<noteq> 0" using Suc.prems(1) by simp
    then have "butlast polys \<noteq> []" by (simp only: length_0_conv not_False_eq_True)
    moreover have "polys \<noteq> []" using Suc.prems(1) by auto
    ultimately have ne: "polys \<noteq> []" "butlast polys \<noteq> []" by blast+
    have k: "cheb_extend L n ?polys ! k = ?new"
      using True by (simp add: cheb_extend_prefix)
    have k1: "cheb_extend L n ?polys ! (k - 1) = last polys"
      using True Suc.prems(1) ne by (simp add: cheb_extend_prefix nth_append last_conv_nth)
    have k2: "cheb_extend L n ?polys ! (k - 2) = last (butlast polys)"
      using True Suc.prems(1) ne
      by (simp add: cheb_extend_prefix nth_append last_conv_nth nth_butlast numeral_2_eq_2)
    show ?thesis using k k1 k2 by simp
  next
    case False
    with Suc.prems have "2 \<le> length ?polys" "length ?polys \<le> k" "k < length ?polys + n"
      by simp_all
    from Suc.IH[OF this] show ?thesis by simp
  qed
qed

lemma cheb_polynomial_length: "length (cheb_polynomial L K) = K"
  by (auto simp: cheb_polynomial_def cheb_extend_length)

lemma cheb_polynomial_0: "0 < K \<Longrightarrow> cheb_polynomial L K ! 0 = identity_matrix (length L)"
  by (simp add: cheb_polynomial_def cheb_extend_prefix)

lemma cheb_polynomial_1: "1 < K \<Longrightarrow> cheb_polynomial L K ! 1 = L"
  by (simp add: cheb_polynomial_def cheb_extend_prefix)

lemma cheb_polynomial_rec:
  assumes "2 \<le> k" "k < K"
  shows "cheb_polynomial L K ! k =
           cheb_next L (cheb_polynomial L K ! (k - 1)) (cheb_polynomial L K ! (k - 2))"
proof -
  from assms have K: "K \<noteq> 0" "K \<noteq> Suc 0" by simp_all
  have "cheb_extend L (K - 2) [identity_matrix (length L), L] ! k =
          cheb_next L (cheb_extend L (K - 2) [identity_matrix (length L), L] ! (k - 1))
            (cheb_extend L (K - 2) [identity_matrix (length L), L] ! (k - 2))"
    using assms by (intro cheb_extend_recurrence) simp_all
  then show ?thesis by (simp add: cheb_polynomial_def K)
qed

lemma identity_square: "is_square n (identity_matrix n)"
  by (simp add: is_square_def identity_matrix_def list_all_length)

lemma cheb_next_square:
  assumes "is_square n L" "is_square n T1" "is_square n T2"
  shows "is_square n (cheb_next L T1 T2)"
  using assms
  by (simp add: is_square_def cheb_next_def mat_sub_def mat_scale_def mat_mul_def list_all_length)

lemma cheb_extend_square:
  assumes "is_square n L" "\<forall>T\<in>set polys. is_square n T" "2 \<le> length polys"
  shows "\<forall>T\<in>set (cheb_extend L m polys). is_square n T"
  using assms(2,3)
proof (induction m arbitrary: polys)
  case 0
  then show ?case by simp
next
  case (Suc m)
  have "length (butlast polys) \<noteq> 0" using Suc.prems(2) by simp
  then have "butlast polys \<noteq> []" by (simp only: length_0_conv not_False_eq_True)
  moreover have "polys \<noteq> []" using Suc.prems(2) by auto
  ultimately have ne: "polys \<noteq> []" "butlast polys \<noteq> []" by blast+
  then have "last polys \<in> set polys" "last (butlast polys) \<in> set (butlast polys)"
    by (auto intro: last_in_set)
  then have "last polys \<in> set polys" "last (butlast polys) \<in> set polys"
    by (auto dest: in_set_butlastD)
  with Suc.prems(1) have "is_square n (cheb_next L (last polys) (last (butlast polys)))"
    by (intro cheb_next_square[OF assms(1)]) auto
  with Suc.prems have "\<forall>T\<in>set (polys @ [cheb_next L (last polys) (last (butlast polys))]). is_square n T"
    "2 \<le> length (polys @ [cheb_next L (last polys) (last (butlast polys))])"
    by auto
  from Suc.IH[OF this] show ?case by simp
qed

lemma cheb_polynomial_square:
  assumes "is_square n L"
  shows "\<forall>T\<in>set (cheb_polynomial L K). is_square n T"
proof -
  have n: "length L = n" using assms by (simp add: is_square_def)
  have "\<forall>T\<in>set (cheb_extend L (K - 2) [identity_matrix n, L]). is_square n T"
    using assms by (intro cheb_extend_square) (auto simp: identity_square)
  then show ?thesis
    by (auto simp: cheb_polynomial_def n identity_square)
qed

text \<open>
  Claim C8. For every matrix \<open>L_tilde\<close> (the scaled Laplacian of any adjacency matrix is
  one) the basis has exactly \<open>orders_of_cheb\<close> elements; its first element is the
  identity matrix; its second, when there is one, is \<open>L_tilde\<close>; every later element
  satisfies \<open>T\<^sub>k = 2 L_tilde T\<^sub>k\<^sub>-\<^sub>1 - T\<^sub>k\<^sub>-\<^sub>2\<close>; and all elements are square of
  the size of \<open>L_tilde\<close>.
\<close>

theorem cheb_polynomial_basis:
  "length (cheb_polys cfg L_tilde) = orders_of_cheb cfg \<and>
   (0 < orders_of_cheb cfg \<longrightarrow> cheb_polys cfg L_tilde ! 0 = identity_matrix (length L_tilde)) \<and>
   (1 < orders_of_cheb cfg \<longrightarrow> cheb_polys cfg L_tilde ! 1 = L_tilde) \<and>
   (\<forall>k. 2 \<le> k \<and> k < orders_of_cheb cfg \<longrightarrow>
      cheb_polys cfg L_tilde ! k =
        mat_sub (mat_scale 2 (mat_mul L_tilde (cheb_polys cfg L_tilde ! (k - 1))))
          (cheb_polys cfg L_tilde ! (k - 2))) \<and>
   (is_square (num_of_vertices cfg) L_tilde \<longrightarrow>
      (\<forall>T\<in>set (cheb_polys cfg L_tilde). is_square (num_of_vertices cfg) T))"
  using cheb_polynomial_length[of L_tilde "orders_of_cheb cfg"]
    cheb_polynomial_0[of "orders_of_cheb cfg" L_tilde]
    cheb_polynomial_1[of "orders_of_cheb cfg" L_tilde]
    cheb_polynomial_rec[of _ "orders_of_cheb cfg" L_tilde]
    cheb_polynomial_square[of "num_of_vertices cfg" L_tilde "orders_of_cheb cfg"]
  unfolding cheb_polys_def cheb_next_def by blast

lemma cheb_polys_cfg2:
  "cheb_polys cfg2 [[0, 1], [1, 0]] = [[[1, 0], [0, 1]], [[0, 1], [1, 0]], [[1, 0], [0, 1]]]"
  by (simp add: cheb_polys_def cheb_polynomial_def cfg2_def default_config_def cheb_next_def
      identity_matrix_def mat_sub_def mat_scale_def mat_mul_def upt_rec eval_nat_numeral)

text \<open>The hypotheses of C8's theorem hold for order 3 and a \<open>2 \<times> 2\<close> matrix.\<close>

theorem cheb_polynomial_basis_witness:
  "orders_of_cheb cfg2 = 3 \<and> is_square (num_of_vertices cfg2) [[0, 1], [1, 0::real]] \<and>
   length (cheb_polys cfg2 [[0, 1], [1, 0]]) = 3 \<and>
   cheb_polys cfg2 [[0, 1], [1, 0]] ! 0 = identity_matrix 2 \<and>
   cheb_polys cfg2 [[0, 1], [1, 0]] ! 1 = [[0, 1], [1, 0]] \<and>
   cheb_polys cfg2 [[0, 1], [1, 0]] ! 2 =
     mat_sub (mat_scale 2 (mat_mul [[0, 1], [1, 0]] (cheb_polys cfg2 [[0, 1], [1, 0]] ! 1)))
       (cheb_polys cfg2 [[0, 1], [1, 0]] ! 0) \<and>
   is_square 2 (cheb_polys cfg2 [[0, 1], [1, 0]] ! 2)"
proof -
  let ?L = "[[0, 1], [1, 0::real]]"
  have K: "orders_of_cheb cfg2 = 3" and n: "num_of_vertices cfg2 = 2"
    by (simp_all add: cfg2_def default_config_def)
  have sq: "is_square (num_of_vertices cfg2) ?L" by (simp add: n is_square_def)
  note t = cheb_polynomial_basis[of cfg2 ?L, unfolded K n]
  have p: "0 < (3::nat)" "1 < (3::nat)" "length ?L = 2" by simp_all
  from t have 0: "length (cheb_polys cfg2 ?L) = 3" by blast
  from t p(1) have 1: "cheb_polys cfg2 ?L ! 0 = identity_matrix 2" unfolding p(3) by blast
  from t p(2) have 2: "cheb_polys cfg2 ?L ! 1 = ?L" by blast
  from t have "2 \<le> (2::nat) \<and> (2::nat) < 3 \<longrightarrow> cheb_polys cfg2 ?L ! 2 =
     mat_sub (mat_scale 2 (mat_mul ?L (cheb_polys cfg2 ?L ! (2 - 1)))) (cheb_polys cfg2 ?L ! (2 - 2))"
    by blast
  moreover have "(2::nat) - 1 = 1" "(2::nat) - 2 = 0" by simp_all
  ultimately have 3: "cheb_polys cfg2 ?L ! 2 =
     mat_sub (mat_scale 2 (mat_mul ?L (cheb_polys cfg2 ?L ! 1))) (cheb_polys cfg2 ?L ! 0)"
    by simp
  from t sq[unfolded n] have "\<forall>T\<in>set (cheb_polys cfg2 ?L). is_square 2 T" by blast
  moreover have "cheb_polys cfg2 ?L ! 2 \<in> set (cheb_polys cfg2 ?L)"
    using 0 by (intro nth_mem) simp
  ultimately have 4: "is_square 2 (cheb_polys cfg2 ?L ! 2)" by blast
  from K sq 0 1 2 3 4 show ?thesis by blast
qed

end
